theory Spec2Isabelle
  imports Main "HOL-Library.Word"
begin

unbundle bit_operations_syntax

section \<open>The Allwinner CSI1 capture driver (sun4i\_csi1.c)\<close>

text \<open>
  A shallow embedding of \<^verbatim>\<open>drivers/media/platform/sunxi/sun4i-csi/sun4i_csi1.c\<close>.
  The driver object \<^verbatim>\<open>struct sun4i_csi1\<close> is a record that every operation takes
  and returns. What the driver does to the world outside its own fields (the spinlock,
  register writes, clocks and reset line, the DMA allocator, the clock read, the
  completion of a buffer towards videobuf2) is appended, in program order, to the
  \<open>trace\<close> field. Diagnostic output (\<^verbatim>\<open>dev_info\<close>, \<^verbatim>\<open>dev_err\<close>,
  \<^verbatim>\<open>sun4i_registers_print\<close>) changes nothing and is left out.
\<close>

subsection \<open>Machine types\<close>

type_synonym u8 = "8 word"
type_synonym u32 = "32 word"
type_synonym u64 = "64 word"

text \<open>
  The driver is built for the 32-bit sun4i/sun7i SoCs: \<^verbatim>\<open>dma_addr_t\<close>, \<^verbatim>\<open>size_t\<close>,
  \<^verbatim>\<open>void *\<close> and \<^verbatim>\<open>int\<close> are 32 bits wide, and \<^verbatim>\<open>writel\<close> stores 32 bits.
  A \<^verbatim>\<open>struct sun4i_csi1_buffer *\<close> is the identity of a buffer (a \<open>nat\<close>), with
  \<open>None\<close> for \<^verbatim>\<open>NULL\<close>. The arrays of fixed length (\<^verbatim>\<open>dma_addr[3]\<close>,
  \<^verbatim>\<open>virtual[3]\<close>, \<^verbatim>\<open>buffers[2]\<close>, \<^verbatim>\<open>plane_fmt[]\<close>) are functions on the index.
\<close>

type_synonym buffer_ptr = nat

subsection \<open>The register map\<close>

definition SUN4I_CSI1_ENABLE :: nat where "SUN4I_CSI1_ENABLE = 0x000"
definition SUN4I_CSI1_CONFIG :: nat where "SUN4I_CSI1_CONFIG = 0x004"
definition SUN4I_CSI1_CAPTURE :: nat where "SUN4I_CSI1_CAPTURE = 0x008"
definition SUN4I_CSI1_SCALE :: nat where "SUN4I_CSI1_SCALE = 0x00C"
definition SUN4I_CSI1_FIFO0_BUFFER_A :: nat where "SUN4I_CSI1_FIFO0_BUFFER_A = 0x010"
definition SUN4I_CSI1_FIFO0_BUFFER_B :: nat where "SUN4I_CSI1_FIFO0_BUFFER_B = 0x014"
definition SUN4I_CSI1_FIFO1_BUFFER_A :: nat where "SUN4I_CSI1_FIFO1_BUFFER_A = 0x018"
definition SUN4I_CSI1_FIFO1_BUFFER_B :: nat where "SUN4I_CSI1_FIFO1_BUFFER_B = 0x01C"
definition SUN4I_CSI1_FIFO2_BUFFER_A :: nat where "SUN4I_CSI1_FIFO2_BUFFER_A = 0x020"
definition SUN4I_CSI1_FIFO2_BUFFER_B :: nat where "SUN4I_CSI1_FIFO2_BUFFER_B = 0x024"
definition SUN4I_CSI1_BUFFER_CONTROL :: nat where "SUN4I_CSI1_BUFFER_CONTROL = 0x028"
definition SUN4I_CSI1_BUFFER_STATUS :: nat where "SUN4I_CSI1_BUFFER_STATUS = 0x02C"
definition SUN4I_CSI1_INT_ENABLE :: nat where "SUN4I_CSI1_INT_ENABLE = 0x030"
definition SUN4I_CSI1_INT_STATUS :: nat where "SUN4I_CSI1_INT_STATUS = 0x034"
definition SUN4I_CSI1_HSIZE :: nat where "SUN4I_CSI1_HSIZE = 0x040"
definition SUN4I_CSI1_VSIZE :: nat where "SUN4I_CSI1_VSIZE = 0x044"
definition SUN4I_CSI1_STRIDE :: nat where "SUN4I_CSI1_STRIDE = 0x048"

lemmas register_defs =
  SUN4I_CSI1_ENABLE_def SUN4I_CSI1_CONFIG_def SUN4I_CSI1_CAPTURE_def SUN4I_CSI1_SCALE_def
  SUN4I_CSI1_FIFO0_BUFFER_A_def SUN4I_CSI1_FIFO0_BUFFER_B_def
  SUN4I_CSI1_FIFO1_BUFFER_A_def SUN4I_CSI1_FIFO1_BUFFER_B_def
  SUN4I_CSI1_FIFO2_BUFFER_A_def SUN4I_CSI1_FIFO2_BUFFER_B_def
  SUN4I_CSI1_BUFFER_CONTROL_def SUN4I_CSI1_BUFFER_STATUS_def
  SUN4I_CSI1_INT_ENABLE_def SUN4I_CSI1_INT_STATUS_def
  SUN4I_CSI1_HSIZE_def SUN4I_CSI1_VSIZE_def SUN4I_CSI1_STRIDE_def

subsection \<open>Error numbers and V4L2 constants\<close>

text \<open>
  These are declared in kernel headers that are not among the source files; the values
  are the headers'. No claim depends on a value, only on the names.
\<close>

definition EINVAL :: int where "EINVAL = 22"
definition ENOMEM :: int where "ENOMEM = 12"

definition V4L2_BUF_TYPE_VIDEO_CAPTURE_MPLANE :: u32 where
  "V4L2_BUF_TYPE_VIDEO_CAPTURE_MPLANE = 9"
definition V4L2_PIX_FMT_YUV444M :: u32 where "V4L2_PIX_FMT_YUV444M = 0x34324D59"
definition V4L2_FIELD_NONE :: u32 where "V4L2_FIELD_NONE = 1"
definition V4L2_COLORSPACE_RAW :: u32 where "V4L2_COLORSPACE_RAW = 11"
definition V4L2_YCBCR_ENC_DEFAULT :: u8 where "V4L2_YCBCR_ENC_DEFAULT = 0"
definition V4L2_QUANTIZATION_DEFAULT :: u8 where "V4L2_QUANTIZATION_DEFAULT = 0"
definition V4L2_XFER_FUNC_NONE :: u8 where "V4L2_XFER_FUNC_NONE = 5"

subsection \<open>Data\<close>

datatype vb2_buffer_state =
    VB2_BUF_STATE_DEQUEUED
  | VB2_BUF_STATE_QUEUED
  | VB2_BUF_STATE_ACTIVE
  | VB2_BUF_STATE_DONE
  | VB2_BUF_STATE_ERROR

text \<open>
  \<^verbatim>\<open>struct sun4i_csi1_buffer\<close>, with the fields of the embedded
  \<^verbatim>\<open>vb2_v4l2_buffer\<close> that the driver reads or writes:
  \<^verbatim>\<open>v4l2_buffer.vb2_buf.state\<close>, \<^verbatim>\<open>v4l2_buffer.vb2_buf.timestamp\<close> (\<^verbatim>\<open>u64\<close>) and
  \<^verbatim>\<open>v4l2_buffer.sequence\<close>. The last is declared \<^verbatim>\<open>__u32\<close> by the kernel's
  \<^verbatim>\<open>include/media/videobuf2-v4l2.h\<close>: a store of the 64-bit counter into it keeps
  the low 32 bits. The \<^verbatim>\<open>list\<close> member is kept beside the buffers, in
  \<open>buf_list\<close> below.
\<close>

record sun4i_csi1_buffer =
  buf_state :: vb2_buffer_state
  buf_timestamp :: u64
  buf_sequence :: u32
  buf_dma_addr :: "nat \<Rightarrow> u32"

text \<open>
  What the two links of a \<^verbatim>\<open>struct list_head\<close> inside a buffer hold. videobuf2
  allocates a buffer zeroed (\<^verbatim>\<open>buf_struct_size\<close> bytes), so both links start as
  \<^verbatim>\<open>NULL\<close>; \<^verbatim>\<open>INIT_LIST_HEAD\<close> and \<^verbatim>\<open>list_del_init\<close> make them point to the
  node itself; \<^verbatim>\<open>list_add_tail\<close> makes them point to the neighbours on
  \<^verbatim>\<open>csi->buffer_list\<close>; \<^verbatim>\<open>list_del\<close> leaves \<^verbatim>\<open>LIST_POISON1\<close> and
  \<^verbatim>\<open>LIST_POISON2\<close> in them.
\<close>

datatype list_head =
    LIST_HEAD_ZERO
  | LIST_HEAD_INIT
  | LIST_HEAD_LINKED
  | LIST_HEAD_POISON

record v4l2_plane_pix_format =
  sizeimage :: u32
  bytesperline :: u32

record v4l2_pix_format_mplane =
  pix_width :: u32
  pix_height :: u32
  pixelformat :: u32
  pix_field :: u32
  colorspace :: u32
  plane_fmt :: "nat \<Rightarrow> v4l2_plane_pix_format"
  num_planes :: u8
  ycbcr_enc :: u8
  quantization :: u8
  xfer_func :: u8

record v4l2_format =
  fmt_type :: u32
  pix_mp :: v4l2_pix_format_mplane

datatype clk = Bus | Ram | Module

datatype event =
    SpinLock
  | SpinUnlock
  | Writel nat u32
  | ResetDeassert
  | ResetAssert
  | ClkSetRate clk nat
  | ClkPrepareEnable clk
  | ClkDisableUnprepare clk
  | DmaAllocCoherent u32 u32 u32
  | DmaFreeCoherent u32 u32 u32
  | KtimeGetNs u64
  | Vb2BufferDone buffer_ptr u32 u64 vb2_buffer_state

text \<open>
  \<^verbatim>\<open>struct sun4i_csi1\<close>. \<open>mmio\<close> is the register file behind \<^verbatim>\<open>csi->mmio\<close>,
  by offset. \<open>bufs\<close> is the memory holding the buffers, by identity, and
  \<open>buf_list\<close> the \<^verbatim>\<open>list\<close> member of each of them. \<open>buffer_list\<close> is the
  pending list as \<^verbatim>\<open>csi->buffer_list\<close> links it, first entry first.
  \<open>queue_bufs\<close> is \<^verbatim>\<open>queue->bufs[0 .. num_buffers - 1]\<close> of the videobuf2 queue.
\<close>

record sun4i_csi1 =
  mmio :: "nat \<Rightarrow> u32"
  powered :: bool
  stored_format :: v4l2_format
  queue_bufs :: "buffer_ptr list"
  min_buffers_needed :: nat
  plane_count :: nat
  plane_size :: u32
  width :: u32
  height :: u32
  hdisplay_start :: u32
  vdisplay_start :: u32
  hsync_polarity :: bool
  vsync_polarity :: bool
  buffer_list :: "buffer_ptr list"
  buffers :: "nat \<Rightarrow> buffer_ptr option"
  sequence :: u64
  dummy_virtual :: "nat \<Rightarrow> u32"
  dummy_dma_addr :: "nat \<Rightarrow> u32"
  bufs :: "buffer_ptr \<Rightarrow> sun4i_csi1_buffer"
  buf_list :: "buffer_ptr \<Rightarrow> list_head"
  trace :: "event list"

definition emit :: "event list \<Rightarrow> sun4i_csi1 \<Rightarrow> sun4i_csi1" where
  "emit es csi = csi\<lparr>trace := trace csi @ es\<rparr>"

subsection \<open>Register access (lines 126-193)\<close>

definition sun4i_csi1_write :: "sun4i_csi1 \<Rightarrow> nat \<Rightarrow> u32 \<Rightarrow> sun4i_csi1" where
  "sun4i_csi1_write csi address val =
     emit [Writel address val] (csi\<lparr>mmio := (mmio csi)(address := val)\<rparr>)"

definition sun4i_csi1_write_spin :: "sun4i_csi1 \<Rightarrow> nat \<Rightarrow> u32 \<Rightarrow> sun4i_csi1" where
  "sun4i_csi1_write_spin csi address val =
     emit [SpinUnlock] (sun4i_csi1_write (emit [SpinLock] csi) address val)"

definition sun4i_csi1_read :: "sun4i_csi1 \<Rightarrow> nat \<Rightarrow> u32" where
  "sun4i_csi1_read csi address = mmio csi address"

definition sun4i_csi1_mask :: "sun4i_csi1 \<Rightarrow> nat \<Rightarrow> u32 \<Rightarrow> u32 \<Rightarrow> sun4i_csi1" where
  "sun4i_csi1_mask csi address val msk =
     (let temp = sun4i_csi1_read csi address;
          temp = temp AND NOT msk;
          val = val AND msk
      in sun4i_csi1_write csi address (val OR temp))"

definition sun4i_csi1_mask_spin :: "sun4i_csi1 \<Rightarrow> nat \<Rightarrow> u32 \<Rightarrow> u32 \<Rightarrow> sun4i_csi1" where
  "sun4i_csi1_mask_spin csi address val msk =
     (let csi = emit [SpinLock] csi;
          temp = sun4i_csi1_read csi address;
          temp = temp AND NOT msk;
          val = val AND msk;
          csi = sun4i_csi1_write csi address (val OR temp)
      in emit [SpinUnlock] csi)"

subsection \<open>Completion of a buffer\<close>

text \<open>
  Modelled from the spec: \<^verbatim>\<open>vb2_buffer_done\<close> belongs to the videobuf2 core, which is
  not among the source files. It is the consumer notification
  \<open>on_buffer_complete(buffer, sequence, timestamp, status)\<close>: the buffer goes back to
  the consumer in the given state, carrying the sequence number and the timestamp
  that the driver has stored in it.
\<close>

definition vb2_buffer_done :: "buffer_ptr \<Rightarrow> vb2_buffer_state \<Rightarrow> sun4i_csi1 \<Rightarrow> sun4i_csi1" where
  "vb2_buffer_done b st csi =
     emit [Vb2BufferDone b (buf_sequence (bufs csi b)) (buf_timestamp (bufs csi b)) st]
       (csi\<lparr>bufs := (bufs csi)(b := (bufs csi b)\<lparr>buf_state := st\<rparr>)\<rparr>)"

subsection \<open>Power sequencing (lines 233-306)\<close>

text \<open>
  The return values of the fallible calls into the reset and clock frameworks
  (0 is success). \<^verbatim>\<open>clk_set_rate\<close>'s result, and the results of the calls made
  while tearing down, are ignored by the source.
\<close>

record power_env =
  reset_control_deassert_ret :: int
  clk_bus_ret :: int
  clk_ram_ret :: int
  clk_module_ret :: int

definition sun4i_csi1_poweron :: "power_env \<Rightarrow> sun4i_csi1 \<Rightarrow> int \<times> sun4i_csi1" where
  "sun4i_csi1_poweron env csi =
     (let csi = emit [ResetDeassert] csi;
          ret = reset_control_deassert_ret env
      in if ret \<noteq> 0 then (ret, csi)
      else
        let csi = emit [ClkPrepareEnable Bus] csi;
            ret = clk_bus_ret env
        in if ret \<noteq> 0 then (ret, emit [ResetAssert] csi)
        else
          let csi = emit [ClkPrepareEnable Ram] csi;
              ret = clk_ram_ret env
          in if ret \<noteq> 0
             then (ret, emit [ResetAssert] (emit [ClkDisableUnprepare Bus] csi))
          else
            let csi = emit [ClkSetRate Module 24000000] csi;
                csi = emit [ClkPrepareEnable Module] csi;
                ret = clk_module_ret env
            in if ret \<noteq> 0
               then (ret, emit [ResetAssert] (emit [ClkDisableUnprepare Bus]
                            (emit [ClkDisableUnprepare Ram] csi)))
               else (0, sun4i_csi1_mask_spin csi SUN4I_CSI1_ENABLE 0x01 0x01))"

definition sun4i_csi1_poweroff :: "sun4i_csi1 \<Rightarrow> int \<times> sun4i_csi1" where
  "sun4i_csi1_poweroff csi =
     (let csi = sun4i_csi1_mask_spin csi SUN4I_CSI1_ENABLE 0 0x01;
          csi = emit [ClkDisableUnprepare Module] csi;
          csi = emit [ClkDisableUnprepare Ram] csi;
          csi = emit [ClkDisableUnprepare Bus] csi;
          csi = emit [ResetAssert] csi
      in (0, csi))"

subsection \<open>The frame-done handler (lines 311-365)\<close>

text \<open>
  The critical section of \<^verbatim>\<open>sun4i_csi1_frame_done\<close>, from \<^verbatim>\<open>spin_lock\<close> to
  \<^verbatim>\<open>spin_unlock\<close>. It returns the locals \<open>old\<close>, \<open>sequence\<close> and \<open>disabled\<close>
  with the new state. \<^verbatim>\<open>list_del_init\<close> takes the first entry off the list and
  leaves its node pointing to itself.
\<close>

definition frame_done_locked ::
  "sun4i_csi1 \<Rightarrow> buffer_ptr option \<times> u64 \<times> bool \<times> sun4i_csi1" where
  "frame_done_locked csi0 =
     (let csi = emit [SpinLock] csi0;
          sequence' = sequence csi;
          csi = csi\<lparr>sequence := sequence csi + 1\<rparr>;
          index = unat (sequence' AND 0x01);
          old = buffers csi index;
          (disabled, dma_addr, csi) =
            (case buffer_list csi of
               [] \<Rightarrow>
                 (let csi = sun4i_csi1_mask csi SUN4I_CSI1_ENABLE 0 0x01
                  in (True, dummy_dma_addr csi, csi\<lparr>buffers := (buffers csi)(index := None)\<rparr>))
             | new # rest \<Rightarrow>
                 (let csi = csi\<lparr>buffer_list := rest\<rparr>;
                      csi = csi\<lparr>buf_list := (buf_list csi)(new := LIST_HEAD_INIT)\<rparr>
                  in (False, buf_dma_addr (bufs csi new),
                      csi\<lparr>buffers := (buffers csi)(index := Some new)\<rparr>)));
          csi =
            (if index = 0 then
               (let csi = sun4i_csi1_write csi SUN4I_CSI1_FIFO0_BUFFER_A (dma_addr 0);
                    csi = sun4i_csi1_write csi SUN4I_CSI1_FIFO1_BUFFER_A (dma_addr 1)
                in sun4i_csi1_write csi SUN4I_CSI1_FIFO2_BUFFER_A (dma_addr 2))
             else
               (let csi = sun4i_csi1_write csi SUN4I_CSI1_FIFO0_BUFFER_B (dma_addr 0);
                    csi = sun4i_csi1_write csi SUN4I_CSI1_FIFO1_BUFFER_B (dma_addr 1)
                in sun4i_csi1_write csi SUN4I_CSI1_FIFO2_BUFFER_B (dma_addr 2)));
          csi = emit [SpinUnlock] csi
      in (old, sequence', disabled, csi))"

text \<open>
  The whole handler. \<open>now\<close> is what \<^verbatim>\<open>ktime_get_ns()\<close> returns. When \<open>old\<close> is
  \<^verbatim>\<open>NULL\<close> the stores through it fault: the result is \<open>None\<close>. The store of the
  local \<^verbatim>\<open>uint64_t sequence\<close> into the 32-bit \<^verbatim>\<open>v4l2_buffer.sequence\<close>
  (line 363) truncates it.
\<close>

definition sun4i_csi1_frame_done :: "u64 \<Rightarrow> sun4i_csi1 \<Rightarrow> sun4i_csi1 option" where
  "sun4i_csi1_frame_done now csi0 =
     (case frame_done_locked csi0 of
        (old, sequence', disabled, csi) \<Rightarrow>
          (case old of
             None \<Rightarrow> None
           | Some b \<Rightarrow>
               (let csi = emit [KtimeGetNs now] csi;
                    csi = csi\<lparr>bufs := (bufs csi)(b := (bufs csi b)\<lparr>buf_timestamp := now\<rparr>)\<rparr>;
                    csi = csi\<lparr>bufs := (bufs csi)(b := (bufs csi b)\<lparr>buf_sequence := ucast sequence'\<rparr>)\<rparr>
                in Some (vb2_buffer_done b VB2_BUF_STATE_DONE csi))))"

subsection \<open>The stored format (lines 588-631)\<close>

definition zero_plane :: v4l2_plane_pix_format where
  "zero_plane = \<lparr>sizeimage = 0, bytesperline = 0\<rparr>"

definition zero_pix :: v4l2_pix_format_mplane where
  "zero_pix = \<lparr>pix_width = 0, pix_height = 0, pixelformat = 0, pix_field = 0,
     colorspace = 0, plane_fmt = (\<lambda>_. zero_plane), num_planes = 0, ycbcr_enc = 0,
     quantization = 0, xfer_func = 0\<rparr>"

definition set_pix :: "(v4l2_pix_format_mplane \<Rightarrow> v4l2_pix_format_mplane) \<Rightarrow> sun4i_csi1 \<Rightarrow> sun4i_csi1" where
  "set_pix f csi = csi\<lparr>stored_format := (stored_format csi)\<lparr>pix_mp := f (pix_mp (stored_format csi))\<rparr>\<rparr>"

definition sun4i_csi1_format_initialize ::
  "sun4i_csi1 \<Rightarrow> u32 \<Rightarrow> u32 \<Rightarrow> bool \<Rightarrow> bool \<Rightarrow> sun4i_csi1" where
  "sun4i_csi1_format_initialize csi w h hsync vsync =
     (let csi = csi\<lparr>plane_count := 3\<rparr>;
          csi = csi\<lparr>plane_size := w * h\<rparr>;
          csi = csi\<lparr>width := w\<rparr>;
          csi = csi\<lparr>height := h\<rparr>;
          csi = csi\<lparr>hsync_polarity := hsync\<rparr>;
          csi = csi\<lparr>vsync_polarity := vsync\<rparr>;
          csi = set_pix (\<lambda>_. zero_pix) csi;
          csi = csi\<lparr>stored_format :=
                  (stored_format csi)\<lparr>fmt_type := V4L2_BUF_TYPE_VIDEO_CAPTURE_MPLANE\<rparr>\<rparr>;
          csi = set_pix (\<lambda>p. p\<lparr>pix_width := w\<rparr>) csi;
          csi = set_pix (\<lambda>p. p\<lparr>pix_height := h\<rparr>) csi;
          csi = set_pix (\<lambda>p. p\<lparr>pixelformat := V4L2_PIX_FMT_YUV444M\<rparr>) csi;
          csi = set_pix (\<lambda>p. p\<lparr>pix_field := V4L2_FIELD_NONE\<rparr>) csi;
          csi = set_pix (\<lambda>p. p\<lparr>colorspace := V4L2_COLORSPACE_RAW\<rparr>) csi;
          csi = set_pix (\<lambda>p. p\<lparr>num_planes := of_nat (plane_count csi)\<rparr>) csi;
          csi = fold (\<lambda>i csi. set_pix (\<lambda>p. p\<lparr>plane_fmt := (plane_fmt p)
                         (i := \<lparr>sizeimage = plane_size csi, bytesperline = w\<rparr>)\<rparr>) csi)
                  [0..<plane_count csi] csi;
          csi = set_pix (\<lambda>p. p\<lparr>ycbcr_enc := V4L2_YCBCR_ENC_DEFAULT\<rparr>) csi;
          csi = set_pix (\<lambda>p. p\<lparr>quantization := V4L2_QUANTIZATION_DEFAULT\<rparr>) csi
      in set_pix (\<lambda>p. p\<lparr>xfer_func := V4L2_XFER_FUNC_NONE\<rparr>) csi)"

subsection \<open>The pending list and the dummy buffer (lines 641-734)\<close>


text \<open>
  \<^verbatim>\<open>sun4i_csi1_buffer_list_clear\<close> deletes the first entry of the list, whose links
  are its neighbours, until the list is empty.
\<close>

function sun4i_csi1_buffer_list_clear :: "sun4i_csi1 \<Rightarrow> sun4i_csi1" where
  "sun4i_csi1_buffer_list_clear csi =
     (let csi = emit [SpinLock] csi
      in case buffer_list csi of
           [] \<Rightarrow> emit [SpinUnlock] csi
         | buffer # rest \<Rightarrow>
             (let csi = csi\<lparr>buffer_list := rest\<rparr>;
                  csi = csi\<lparr>buf_list := (buf_list csi)(buffer := LIST_HEAD_POISON)\<rparr>;
                  csi = emit [SpinUnlock] csi
              in sun4i_csi1_buffer_list_clear
                   (vb2_buffer_done buffer VB2_BUF_STATE_ERROR csi)))"
  by pat_completeness auto
termination
  by (relation "measure (\<lambda>csi. length (buffer_list csi))")
     (auto simp add: emit_def vb2_buffer_done_def)

declare sun4i_csi1_buffer_list_clear.simps [simp del]

text \<open>
  The first loop of \<^verbatim>\<open>sun4i_csi1_dummy_buffer_free\<close> moves what is held into the
  locals \<open>virtual_addr\<close> and \<open>dma_addr\<close> under the lock; the second loop frees it
  after the lock is released.
\<close>

definition dummy_free_take ::
  "nat \<Rightarrow> sun4i_csi1 \<times> (nat \<Rightarrow> u32) \<times> (nat \<Rightarrow> u32) \<Rightarrow> sun4i_csi1 \<times> (nat \<Rightarrow> u32) \<times> (nat \<Rightarrow> u32)" where
  "dummy_free_take i st =
     (case st of (csi, virtual_addr, dma_addr) \<Rightarrow>
        if dummy_virtual csi i \<noteq> 0
        then (csi\<lparr>dummy_virtual := (dummy_virtual csi)(i := 0),
                  dummy_dma_addr := (dummy_dma_addr csi)(i := 0)\<rparr>,
              virtual_addr(i := dummy_virtual csi i),
              dma_addr(i := dummy_dma_addr csi i))
        else st)"

definition dummy_free_release ::
  "(nat \<Rightarrow> u32) \<Rightarrow> (nat \<Rightarrow> u32) \<Rightarrow> nat \<Rightarrow> sun4i_csi1 \<Rightarrow> sun4i_csi1" where
  "dummy_free_release virtual_addr dma_addr i csi =
     (if virtual_addr i \<noteq> 0
      then emit [DmaFreeCoherent (plane_size csi) (virtual_addr i) (dma_addr i)] csi
      else csi)"

definition sun4i_csi1_dummy_buffer_free :: "sun4i_csi1 \<Rightarrow> int \<times> sun4i_csi1" where
  "sun4i_csi1_dummy_buffer_free csi =
     (let csi = emit [SpinLock] csi;
          (csi, virtual_addr, dma_addr) =
             fold dummy_free_take [0..<plane_count csi] (csi, (\<lambda>_. 0), (\<lambda>_. 0));
          csi = emit [SpinUnlock] csi;
          csi = fold (dummy_free_release virtual_addr dma_addr) [0..<plane_count csi] csi
      in (0, csi))"

text \<open>
  \<^verbatim>\<open>dma_alloc_coherent\<close> is the kernel's: \<open>alloc i\<close> is what the call for plane \<open>i\<close>
  returns, the virtual address (0 for \<^verbatim>\<open>NULL\<close>, the failure) and the DMA handle,
  which is stored only when the call succeeds. The loop stops at the first failure
  and returns the index it stopped at.
\<close>

function dummy_alloc_loop ::
  "(nat \<Rightarrow> u32 \<times> u32) \<Rightarrow> nat \<Rightarrow> nat \<Rightarrow> sun4i_csi1 \<Rightarrow> nat \<times> sun4i_csi1" where
  "dummy_alloc_loop alloc n i csi =
     (if i < n then
        (case alloc i of (v, d) \<Rightarrow>
          (let csi = emit [DmaAllocCoherent (plane_size csi) v d] csi;
               csi = csi\<lparr>dummy_virtual := (dummy_virtual csi)(i := v)\<rparr>;
               csi = (if v \<noteq> 0 then csi\<lparr>dummy_dma_addr := (dummy_dma_addr csi)(i := d)\<rparr>
                      else csi)
           in if dummy_virtual csi i = 0 then (i, csi)
              else dummy_alloc_loop alloc n (Suc i) csi))
      else (i, csi))"
  by pat_completeness auto
termination
  by (relation "measure (\<lambda>(alloc, n, i, csi). n - i)") auto

declare dummy_alloc_loop.simps [simp del]

definition sun4i_csi1_dummy_buffer_alloc ::
  "(nat \<Rightarrow> u32 \<times> u32) \<Rightarrow> sun4i_csi1 \<Rightarrow> int \<times> sun4i_csi1" where
  "sun4i_csi1_dummy_buffer_alloc alloc csi =
     (let csi = snd (sun4i_csi1_dummy_buffer_free csi);
          csi = emit [SpinLock] csi;
          (i, csi) = dummy_alloc_loop alloc (plane_count csi) 0 csi
      in if i \<noteq> plane_count csi
         then (let csi = emit [SpinUnlock] csi;
                   csi = snd (sun4i_csi1_dummy_buffer_free csi)
               in (- ENOMEM, csi))
         else (0, emit [SpinUnlock] csi))"

subsection \<open>The videobuf2 queue operations (lines 736-991)\<close>

definition sun4i_csi1_queue_setup ::
  "(nat \<Rightarrow> u32 \<times> u32) \<Rightarrow> sun4i_csi1 \<Rightarrow> int \<times> sun4i_csi1" where
  "sun4i_csi1_queue_setup alloc csi =
     (let csi = sun4i_csi1_buffer_list_clear csi;
          (ret, csi) = sun4i_csi1_dummy_buffer_alloc alloc csi
      in if ret \<noteq> 0 then (ret, csi) else (0, csi))"


text \<open>
  \<^verbatim>\<open>list_add_tail\<close> writes both links of the node without reading them, and
  makes the node the last entry of the list. videobuf2 passes a buffer to
  \<^verbatim>\<open>buf_queue\<close> when the driver does not hold it; what the links of the list become
  when a node that is already on it is added again is not modelled.
\<close>

definition sun4i_csi1_buffer_queue :: "buffer_ptr \<Rightarrow> sun4i_csi1 \<Rightarrow> sun4i_csi1" where
  "sun4i_csi1_buffer_queue buffer csi =
     (let csi = emit [SpinLock] csi;
          csi = csi\<lparr>buffer_list := buffer_list csi @ [buffer]\<rparr>;
          csi = csi\<lparr>buf_list := (buf_list csi)(buffer := LIST_HEAD_LINKED)\<rparr>
      in emit [SpinUnlock] csi)"

text \<open>
  \<^verbatim>\<open>sun4i_csi1_engine_start\<close> is one function in the source; here its three
  register blocks are named, in source order: format and polarity (lines 814-830), the
  buffer addresses of \<^verbatim>\<open>csi->buffers[0]\<close> and \<^verbatim>\<open>csi->buffers[1]\<close> (lines 832-845),
  double buffering, interrupt, geometry and start (lines 847-862).
\<close>

definition engine_start_config :: "sun4i_csi1 \<Rightarrow> sun4i_csi1" where
  "engine_start_config csi =
     (let csi = sun4i_csi1_mask csi SUN4I_CSI1_CONFIG 0x00400000 0x00700000;
          csi = sun4i_csi1_mask csi SUN4I_CSI1_CONFIG 0x000C0000 0x000F0000;
          csi = (if vsync_polarity csi
                 then sun4i_csi1_mask csi SUN4I_CSI1_CONFIG 0x04 0x04
                 else sun4i_csi1_mask csi SUN4I_CSI1_CONFIG 0 0x04);
          csi = (if hsync_polarity csi
                 then sun4i_csi1_mask csi SUN4I_CSI1_CONFIG 0x02 0x02
                 else sun4i_csi1_mask csi SUN4I_CSI1_CONFIG 0 0x02)
      in sun4i_csi1_mask csi SUN4I_CSI1_CONFIG 0 0x01)"

definition engine_start_addresses :: "buffer_ptr \<Rightarrow> buffer_ptr \<Rightarrow> sun4i_csi1 \<Rightarrow> sun4i_csi1" where
  "engine_start_addresses b0 b1 csi =
     (let csi = sun4i_csi1_write csi SUN4I_CSI1_FIFO0_BUFFER_A (buf_dma_addr (bufs csi b0) 0);
          csi = sun4i_csi1_write csi SUN4I_CSI1_FIFO1_BUFFER_A (buf_dma_addr (bufs csi b0) 1);
          csi = sun4i_csi1_write csi SUN4I_CSI1_FIFO2_BUFFER_A (buf_dma_addr (bufs csi b0) 2);
          csi = sun4i_csi1_write csi SUN4I_CSI1_FIFO0_BUFFER_B (buf_dma_addr (bufs csi b1) 0);
          csi = sun4i_csi1_write csi SUN4I_CSI1_FIFO1_BUFFER_B (buf_dma_addr (bufs csi b1) 1)
      in sun4i_csi1_write csi SUN4I_CSI1_FIFO2_BUFFER_B (buf_dma_addr (bufs csi b1) 2))"

definition engine_start_enable :: "sun4i_csi1 \<Rightarrow> sun4i_csi1" where
  "engine_start_enable csi =
     (let csi = sun4i_csi1_write csi SUN4I_CSI1_BUFFER_CONTROL 0x01;
          csi = sun4i_csi1_mask csi SUN4I_CSI1_INT_ENABLE 0x02 0x02;
          csi = sun4i_csi1_mask csi SUN4I_CSI1_HSIZE (push_bit 16 (width csi)) 0x1FFF0000;
          csi = sun4i_csi1_mask csi SUN4I_CSI1_HSIZE (hdisplay_start csi) 0x1FFF;
          csi = sun4i_csi1_mask csi SUN4I_CSI1_VSIZE (push_bit 16 (height csi)) 0x1FFF0000;
          csi = sun4i_csi1_mask csi SUN4I_CSI1_VSIZE (vdisplay_start csi) 0x1FFF;
          csi = sun4i_csi1_mask csi SUN4I_CSI1_STRIDE (width csi) 0x1FFF
      in sun4i_csi1_mask csi SUN4I_CSI1_CAPTURE 0x02 0x02)"

text \<open>
  \<^verbatim>\<open>list_first_entry\<close> of an empty list is not a buffer: with fewer than two buffers
  on the list \<^verbatim>\<open>sun4i_csi1_engine_start\<close> has no defined result (\<open>None\<close>).
\<close>

definition sun4i_csi1_engine_start :: "sun4i_csi1 \<Rightarrow> sun4i_csi1 option" where
  "sun4i_csi1_engine_start csi =
     (let csi = emit [SpinLock] csi;
          csi = csi\<lparr>sequence := 0\<rparr>
      in case buffer_list csi of
           b0 # b1 # rest \<Rightarrow>
             (let csi = csi\<lparr>buffers := (buffers csi)(0 := Some b0)\<rparr>;
                  csi = csi\<lparr>buffer_list := b1 # rest\<rparr>;
                  csi = csi\<lparr>buf_list := (buf_list csi)(b0 := LIST_HEAD_INIT)\<rparr>;
                  csi = csi\<lparr>buffers := (buffers csi)(1 := Some b1)\<rparr>;
                  csi = csi\<lparr>buffer_list := rest\<rparr>;
                  csi = csi\<lparr>buf_list := (buf_list csi)(b1 := LIST_HEAD_INIT)\<rparr>;
                  csi = engine_start_config csi;
                  csi = engine_start_addresses b0 b1 csi;
                  csi = engine_start_enable csi
              in Some (emit [SpinUnlock] csi))
         | _ \<Rightarrow> None)"

definition sun4i_csi1_engine_stop :: "sun4i_csi1 \<Rightarrow> sun4i_csi1" where
  "sun4i_csi1_engine_stop csi = sun4i_csi1_write_spin csi SUN4I_CSI1_CAPTURE 0"

definition sun4i_csi1_streaming_start ::
  "power_env \<Rightarrow> sun4i_csi1 \<Rightarrow> (int \<times> sun4i_csi1) option" where
  "sun4i_csi1_streaming_start env csi =
     (case sun4i_csi1_poweron env csi of
        (ret, csi) \<Rightarrow>
          if ret \<noteq> 0 then Some (ret, csi)
          else
            (case sun4i_csi1_engine_start (csi\<lparr>powered := True\<rparr>) of
               None \<Rightarrow> None
             | Some csi \<Rightarrow> Some (0, csi)))"





text \<open>
  \<^verbatim>\<open>sun4i_csi1_vb2_queue_initialize\<close>; \<open>vb2_queue_init_ret\<close> is what the videobuf2
  core's \<^verbatim>\<open>vb2_queue_init\<close> returns.
\<close>

definition sun4i_csi1_vb2_queue_initialize :: "int \<Rightarrow> sun4i_csi1 \<Rightarrow> int \<times> sun4i_csi1" where
  "sun4i_csi1_vb2_queue_initialize vb2_queue_init_ret csi =
     (let csi = csi\<lparr>min_buffers_needed := 3\<rparr>;
          csi = csi\<lparr>buffer_list := []\<rparr>
      in if vb2_queue_init_ret \<noteq> 0 then (vb2_queue_init_ret, csi) else (0, csi))"

definition sun4i_csi1_vb2_queue_free :: "sun4i_csi1 \<Rightarrow> sun4i_csi1" where
  "sun4i_csi1_vb2_queue_free csi = snd (sun4i_csi1_dummy_buffer_free csi)"

text \<open>
  Modelled from the spec: the videobuf2 core, which is not among the source files,
  is what calls the driver's \<^verbatim>\<open>start_streaming\<close>. By the spec, \<open>start_streaming\<close>
  requires a queue depth of at least \<open>min_buffers_needed\<close> and fails with
  InsufficientBuffers otherwise, leaving everything as it was.
\<close>

datatype stream_error = InsufficientBuffers

definition start_streaming ::
  "power_env \<Rightarrow> sun4i_csi1 \<Rightarrow> ((stream_error + int) \<times> sun4i_csi1) option" where
  "start_streaming env csi =
     (if length (buffer_list csi) < min_buffers_needed csi
      then Some (Inl InsufficientBuffers, csi)
      else map_option (\<lambda>(ret, csi'). (Inr ret, csi')) (sun4i_csi1_streaming_start env csi))"

subsection \<open>Format negotiation (lines 1046-1087)\<close>

definition sun4i_csi1_format_test :: "sun4i_csi1 \<Rightarrow> v4l2_format \<Rightarrow> int" where
  "sun4i_csi1_format_test csi format_new =
     (let old = pix_mp (stored_format csi);
          new = pix_mp format_new
      in if fmt_type (stored_format csi) \<noteq> fmt_type format_new then - EINVAL
         else if width csi \<noteq> pix_width new \<or> height csi \<noteq> pix_height new
                 \<or> int (plane_count csi) \<noteq> uint (num_planes new) then - EINVAL
         else if list_ex (\<lambda>i. width csi \<noteq> bytesperline (plane_fmt new i)
                               \<or> plane_size csi \<noteq> sizeimage (plane_fmt new i))
                   [0..<plane_count csi] then - EINVAL
         else if pixelformat old \<noteq> pixelformat new
                 \<or> pix_field old \<noteq> pix_field new
                 \<or> colorspace old \<noteq> colorspace new
                 \<or> quantization old \<noteq> quantization new
                 \<or> xfer_func old \<noteq> xfer_func new then - EINVAL
         else 0)"

definition sun4i_csi1_ioctl_format_set :: "sun4i_csi1 \<Rightarrow> v4l2_format \<Rightarrow> int \<times> sun4i_csi1" where
  "sun4i_csi1_ioctl_format_set csi format = (sun4i_csi1_format_test csi format, csi)"

text \<open>
  The stored format agrees with the geometry that the driver tracks beside it, as
  \<^verbatim>\<open>sun4i_csi1_format_initialize\<close> leaves them.
\<close>

definition format_consistent :: "sun4i_csi1 \<Rightarrow> bool" where
  "format_consistent csi =
     (let p = pix_mp (stored_format csi)
      in pix_width p = width csi \<and> pix_height p = height csi
         \<and> uint (num_planes p) = int (plane_count csi)
         \<and> list_all (\<lambda>i. bytesperline (plane_fmt p i) = width csi
                            \<and> sizeimage (plane_fmt p i) = plane_size csi)
              [0..<plane_count csi])"

text \<open>
  The claim's words: the requested format differs from the stored one in its type,
  width, height, plane count, the bytes per line or the size of one of the stored
  format's planes, pixel format, field, colorspace, quantization or transfer function.
\<close>

definition format_differs :: "v4l2_format \<Rightarrow> v4l2_format \<Rightarrow> bool" where
  "format_differs stored requested =
     (let old = pix_mp stored; new = pix_mp requested
      in fmt_type stored \<noteq> fmt_type requested
         \<or> pix_width old \<noteq> pix_width new
         \<or> pix_height old \<noteq> pix_height new
         \<or> num_planes old \<noteq> num_planes new
         \<or> list_ex (\<lambda>i. bytesperline (plane_fmt old i) \<noteq> bytesperline (plane_fmt new i)
                          \<or> sizeimage (plane_fmt old i) \<noteq> sizeimage (plane_fmt new i))
              [0..<unat (num_planes old)]
         \<or> pixelformat old \<noteq> pixelformat new
         \<or> pix_field old \<noteq> pix_field new
         \<or> colorspace old \<noteq> colorspace new
         \<or> quantization old \<noteq> quantization new
         \<or> xfer_func old \<noteq> xfer_func new)"

subsection \<open>A concrete device\<close>

text \<open>
  The object as \<^verbatim>\<open>sun4i_csi1_probe\<close> gets it from \<^verbatim>\<open>devm_kzalloc\<close>: every field
  zero.
\<close>

definition zero_buffer :: sun4i_csi1_buffer where
  "zero_buffer = \<lparr>buf_state = VB2_BUF_STATE_DEQUEUED, buf_timestamp = 0, buf_sequence = 0,
     buf_dma_addr = (\<lambda>_. 0)\<rparr>"

definition csi_kzalloc :: sun4i_csi1 where
  "csi_kzalloc = \<lparr>mmio = (\<lambda>_. 0), powered = False,
     stored_format = \<lparr>fmt_type = 0, pix_mp = zero_pix\<rparr>,
     queue_bufs = [], min_buffers_needed = 0, plane_count = 0, plane_size = 0,
     width = 0, height = 0, hdisplay_start = 0, vdisplay_start = 0,
     hsync_polarity = False, vsync_polarity = False,
     buffer_list = [], buffers = (\<lambda>_. None), sequence = 0,
     dummy_virtual = (\<lambda>_. 0), dummy_dma_addr = (\<lambda>_. 0),
     bufs = (\<lambda>_. zero_buffer), buf_list = (\<lambda>_. LIST_HEAD_ZERO), trace = []\<rparr>"

text \<open>
  The device after \<^verbatim>\<open>sun4i_csi1_v4l2_initialize\<close> (1920x1080, display start 148/36),
  with three buffers B1, B2, B3 requested by the consumer, each with three planes.
\<close>

definition example_buffer :: "nat \<Rightarrow> sun4i_csi1_buffer" where
  "example_buffer k = \<lparr>buf_state = VB2_BUF_STATE_ACTIVE, buf_timestamp = 0, buf_sequence = 0,
     buf_dma_addr = (\<lambda>i. 0x40000000 + of_nat k * 0x1000000 + of_nat i * 0x200000)\<rparr>"

definition csi_probed :: sun4i_csi1 where
  "csi_probed =
     (snd (sun4i_csi1_vb2_queue_initialize 0
        (sun4i_csi1_format_initialize csi_kzalloc 1920 1080 False False)))
      \<lparr>hdisplay_start := 148, vdisplay_start := 36, queue_bufs := [1, 2, 3],
       bufs := (\<lambda>k. if k = 1 \<or> k = 2 \<or> k = 3 then example_buffer k else zero_buffer)\<rparr>"

definition example_alloc :: "nat \<Rightarrow> u32 \<times> u32" where
  "example_alloc i = (0xC0000000 + of_nat i * 0x200000, 0x50000000 + of_nat i * 0x200000)"

definition power_ok :: power_env where
  "power_ok = \<lparr>reset_control_deassert_ret = 0, clk_bus_ret = 0, clk_ram_ret = 0,
     clk_module_ret = 0\<rparr>"

subsection \<open>Reading a trace\<close>

definition events_since :: "sun4i_csi1 \<Rightarrow> sun4i_csi1 \<Rightarrow> event list" where
  "events_since csi csi' = drop (length (trace csi)) (trace csi')"

text \<open>The register offsets that a trace writes, in order.\<close>

fun written_registers :: "event list \<Rightarrow> nat list" where
  "written_registers [] = []"
| "written_registers (Writel a v # es) = a # written_registers es"
| "written_registers (e # es) = written_registers es"

text \<open>The sequence numbers of the buffers that a trace delivers as done, in order.\<close>

fun delivered_sequences :: "event list \<Rightarrow> u32 list" where
  "delivered_sequences [] = []"
| "delivered_sequences (Vb2BufferDone b s t VB2_BUF_STATE_DONE # es) = s # delivered_sequences es"
| "delivered_sequences (e # es) = delivered_sequences es"

text \<open>The buffers that a trace completes towards the consumer, with their status.\<close>

fun completed :: "event list \<Rightarrow> (buffer_ptr \<times> vb2_buffer_state) list" where
  "completed [] = []"
| "completed (Vb2BufferDone b s t st # es) = (b, st) # completed es"
| "completed (e # es) = completed es"

text \<open>What a trace frees and what it allocates: the virtual address and DMA handle of
  every \<^verbatim>\<open>dma_free_coherent\<close>, and of every \<^verbatim>\<open>dma_alloc_coherent\<close> that succeeded.\<close>

fun freed :: "event list \<Rightarrow> (u32 \<times> u32) list" where
  "freed [] = []"
| "freed (DmaFreeCoherent sz v d # es) = (v, d) # freed es"
| "freed (e # es) = freed es"

fun allocated :: "event list \<Rightarrow> (u32 \<times> u32) list" where
  "allocated [] = []"
| "allocated (DmaAllocCoherent sz v d # es) = (if v \<noteq> 0 then [(v, d)] else []) @ allocated es"
| "allocated (e # es) = allocated es"

text \<open>
  Whether a trace calls \<^verbatim>\<open>dma_alloc_coherent\<close> while the buffer lock is held; the
  first argument says whether the lock is held when the trace begins.
\<close>

fun alloc_under_lock :: "bool \<Rightarrow> event list \<Rightarrow> bool" where
  "alloc_under_lock locked [] = False"
| "alloc_under_lock locked (SpinLock # es) = alloc_under_lock True es"
| "alloc_under_lock locked (SpinUnlock # es) = alloc_under_lock False es"
| "alloc_under_lock locked (DmaAllocCoherent sz v d # es) = (locked \<or> alloc_under_lock locked es)"
| "alloc_under_lock locked (e # es) = alloc_under_lock locked es"

subsection \<open>Streaming sessions\<close>

text \<open>
  A streaming session after \<^verbatim>\<open>sun4i_csi1_engine_start\<close>: the consumer queues
  buffers and the hardware signals completed frames, in any order. A frame whose
  slot holds \<^verbatim>\<open>NULL\<close> faults, which ends the run with \<open>None\<close>.
\<close>

datatype session_event = Enqueue buffer_ptr | FrameDone u64

fun run_session :: "session_event list \<Rightarrow> sun4i_csi1 \<Rightarrow> sun4i_csi1 option" where
  "run_session [] csi = Some csi"
| "run_session (Enqueue b # evs) csi = run_session evs (sun4i_csi1_buffer_queue b csi)"
| "run_session (FrameDone now # evs) csi =
     (case sun4i_csi1_frame_done now csi of
        None \<Rightarrow> None
      | Some csi' \<Rightarrow> run_session evs csi')"

fun frames :: "session_event list \<Rightarrow> nat" where
  "frames [] = 0"
| "frames (Enqueue b # evs) = frames evs"
| "frames (FrameDone now # evs) = Suc (frames evs)"

subsection \<open>The dummy buffer and the buffers that the driver holds\<close>

text \<open>What the dummy buffer holds: the planes whose virtual address is not \<^verbatim>\<open>NULL\<close>.\<close>

definition held :: "sun4i_csi1 \<Rightarrow> (u32 \<times> u32) list" where
  "held csi = map (\<lambda>i. (dummy_virtual csi i, dummy_dma_addr csi i))
                (filter (\<lambda>i. dummy_virtual csi i \<noteq> 0) [0..<plane_count csi])"


subsection \<open>The running example\<close>

text \<open>
  The dummy buffer is allocated by \<^verbatim>\<open>queue_setup\<close>, the consumer queues B1, B2,
  B3, streaming starts, and two frames complete.
\<close>

definition csi_setup :: sun4i_csi1 where
  "csi_setup = snd (sun4i_csi1_queue_setup example_alloc csi_probed)"

definition csi_queued :: sun4i_csi1 where
  "csi_queued = fold sun4i_csi1_buffer_queue [1, 2, 3] csi_setup"

definition csi_started :: sun4i_csi1 where
  "csi_started = (case sun4i_csi1_streaming_start power_ok csi_queued of
                    Some (ret, csi) \<Rightarrow> csi | None \<Rightarrow> csi_queued)"

definition csi_irq1 :: sun4i_csi1 where
  "csi_irq1 = (case sun4i_csi1_frame_done 1000 csi_started of
                 Some csi \<Rightarrow> csi | None \<Rightarrow> csi_started)"

definition csi_irq2 :: sun4i_csi1 where
  "csi_irq2 = (case sun4i_csi1_frame_done 2000 csi_irq1 of
                 Some csi \<Rightarrow> csi | None \<Rightarrow> csi_irq1)"

text \<open>The module clock fails to start, with \<^verbatim>\<open>-EIO\<close>.\<close>

definition power_fail_module :: power_env where
  "power_fail_module = \<lparr>reset_control_deassert_ret = 0, clk_bus_ret = 0, clk_ram_ret = 0,
     clk_module_ret = - 5\<rparr>"

text \<open>A request for 1280 pixels per line, and one whose third plane is a byte short.\<close>

definition request_1280 :: v4l2_format where
  "request_1280 = (stored_format csi_probed)
     \<lparr>pix_mp := (pix_mp (stored_format csi_probed))\<lparr>pix_width := 1280\<rparr>\<rparr>"

definition request_short_plane :: v4l2_format where
  "request_short_plane = (stored_format csi_probed)
     \<lparr>pix_mp := (pix_mp (stored_format csi_probed))
        \<lparr>plane_fmt := (plane_fmt (pix_mp (stored_format csi_probed)))
           (2 := \<lparr>sizeimage = 2073599, bytesperline = 1920\<rparr>)\<rparr>\<rparr>"

text \<open>
  A session long enough for the tag to wrap: \<open>2 ^ 32\<close> frames, after each of which the
  consumer queues the retired buffer again (the three buffers are retired in turn),
  and one frame more.
\<close>

definition rotation :: "nat \<Rightarrow> session_event list" where
  "rotation n = concat (map (\<lambda>k. [FrameDone (of_nat k), Enqueue (k mod 3 + 1)]) [0..<n])"

definition wrap_session :: "session_event list" where
  "wrap_session = rotation (2 ^ 32) @ [FrameDone (2 ^ 32)]"

definition csi_wrapped :: sun4i_csi1 where
  "csi_wrapped = (case run_session wrap_session csi_started of
                    Some csi \<Rightarrow> csi | None \<Rightarrow> csi_started)"




section \<open>Theorems\<close>

subsection \<open>Register access\<close>

lemma mmio_emit: "mmio (emit es csi) = mmio csi"
  by (simp add: emit_def)

lemma mmio_write: "mmio (sun4i_csi1_write csi a v) = (mmio csi)(a := v)"
  by (simp add: sun4i_csi1_write_def emit_def)

lemma mmio_mask:
  "mmio (sun4i_csi1_mask csi a v m) = (mmio csi)(a := (v AND m) OR (mmio csi a AND NOT m))"
  by (simp add: sun4i_csi1_mask_def sun4i_csi1_read_def mmio_write)

lemma mmio_mask_spin:
  "mmio (sun4i_csi1_mask_spin csi a v m) =
     (mmio csi)(a := (v AND m) OR (mmio csi a AND NOT m))"
  by (simp add: sun4i_csi1_mask_spin_def sun4i_csi1_read_def mmio_write mmio_emit)

text \<open>
  C10. For every register offset \<open>a\<close>, old register value, written value \<open>v\<close> and
  mask \<open>m\<close>, the masked write (\<^verbatim>\<open>sun4i_csi1_mask\<close>, and \<^verbatim>\<open>sun4i_csi1_mask_spin\<close>
  under the lock) stores \<open>(old AND NOT m) OR (v AND m)\<close> at \<open>a\<close>: every bit inside
  the mask is the bit of \<open>v\<close>, every bit outside it is the old bit, and no other
  register changes.
\<close>

theorem masked_write_stores:
  "mmio (sun4i_csi1_mask csi a v m) a = (mmio csi a AND NOT m) OR (v AND m)
   \<and> mmio (sun4i_csi1_mask_spin csi a v m) a = (mmio csi a AND NOT m) OR (v AND m)
   \<and> (\<forall>n. bit (mmio (sun4i_csi1_mask csi a v m) a) n
          = (if bit m n then bit v n else bit (mmio csi a) n))
   \<and> (\<forall>n. bit (mmio (sun4i_csi1_mask_spin csi a v m) a) n
          = (if bit m n then bit v n else bit (mmio csi a) n))
   \<and> (\<forall>b. b \<noteq> a \<longrightarrow> mmio (sun4i_csi1_mask csi a v m) b = mmio csi b
            \<and> mmio (sun4i_csi1_mask_spin csi a v m) b = mmio csi b)"
  by (auto simp add: mmio_mask mmio_mask_spin bit_or_iff bit_and_iff bit_not_iff
      or.commute dest: bit_imp_le_length)

theorem masked_write_stores_witness:
  "mmio (sun4i_csi1_mask (sun4i_csi1_write csi_kzalloc SUN4I_CSI1_CONFIG 0x00F0000F)
           SUN4I_CSI1_CONFIG 0x00400000 0x00700000) SUN4I_CSI1_CONFIG = 0x00C0000F
   \<and> mmio (sun4i_csi1_mask (sun4i_csi1_write csi_kzalloc SUN4I_CSI1_CONFIG 0x00F0000F)
           SUN4I_CSI1_CONFIG 0x00400000 0x00700000) SUN4I_CSI1_ENABLE = 0"
  using masked_write_stores
    [of "sun4i_csi1_write csi_kzalloc SUN4I_CSI1_CONFIG 0x00F0000F" SUN4I_CSI1_CONFIG
        "0x00400000" "0x00700000"]
  by (simp add: mmio_write register_defs csi_kzalloc_def)

subsection \<open>Power-up (C4)\<close>

lemma trace_emit: "trace (emit es csi) = trace csi @ es"
  by (simp add: emit_def)

lemma events_since_emit_self: "events_since csi (emit es csi) = es"
  by (simp add: events_since_def emit_def)

lemma trace_poweron:
  "trace (snd (sun4i_csi1_poweron env csi)) = trace csi @
     (if reset_control_deassert_ret env \<noteq> 0 then [ResetDeassert]
      else if clk_bus_ret env \<noteq> 0 then [ResetDeassert, ClkPrepareEnable Bus, ResetAssert]
      else if clk_ram_ret env \<noteq> 0 then
        [ResetDeassert, ClkPrepareEnable Bus, ClkPrepareEnable Ram,
         ClkDisableUnprepare Bus, ResetAssert]
      else if clk_module_ret env \<noteq> 0 then
        [ResetDeassert, ClkPrepareEnable Bus, ClkPrepareEnable Ram,
         ClkSetRate Module 24000000, ClkPrepareEnable Module,
         ClkDisableUnprepare Ram, ClkDisableUnprepare Bus, ResetAssert]
      else
        [ResetDeassert, ClkPrepareEnable Bus, ClkPrepareEnable Ram,
         ClkSetRate Module 24000000, ClkPrepareEnable Module,
         SpinLock, Writel SUN4I_CSI1_ENABLE (1 OR (mmio csi SUN4I_CSI1_ENABLE AND NOT 1)),
         SpinUnlock])"
  by (simp add: sun4i_csi1_poweron_def Let_def emit_def sun4i_csi1_mask_spin_def
      sun4i_csi1_write_def sun4i_csi1_read_def)

lemma ret_poweron:
  "fst (sun4i_csi1_poweron env csi) =
     (if reset_control_deassert_ret env \<noteq> 0 then reset_control_deassert_ret env
      else if clk_bus_ret env \<noteq> 0 then clk_bus_ret env
      else if clk_ram_ret env \<noteq> 0 then clk_ram_ret env
      else clk_module_ret env)"
  by (simp add: sun4i_csi1_poweron_def Let_def)

lemma poweron_fail_state:
  "fst (sun4i_csi1_poweron env csi) \<noteq> 0 \<Longrightarrow>
     (snd (sun4i_csi1_poweron env csi))\<lparr>trace := trace csi\<rparr> = csi"
  by (simp add: sun4i_csi1_poweron_def Let_def emit_def split: if_splits)

lemma streaming_start_fail:
  "fst (sun4i_csi1_poweron env csi) \<noteq> 0 \<Longrightarrow>
     sun4i_csi1_streaming_start env csi = Some (sun4i_csi1_poweron env csi)"
  by (cases "sun4i_csi1_poweron env csi") (simp add: sun4i_csi1_streaming_start_def)

text \<open>
  C4. \<^verbatim>\<open>sun4i_csi1_poweron\<close> deasserts reset, enables the bus clock, enables the RAM
  clock, sets the rate of and enables the module clock, in this order. At the first
  step that fails it undoes exactly the steps that had succeeded, last one first, and
  returns the failing step's error: nothing when the reset fails, the reset when the
  bus clock fails, bus clock then reset when the RAM clock fails, RAM clock, bus clock
  then reset when the module clock fails. On failure nothing of the driver object has
  changed, \<open>powered\<close> stays as it was (Stopped), and \<^verbatim>\<open>start_streaming\<close> returns
  that error.
\<close>

theorem poweron_unwinds:
  "events_since csi (snd (sun4i_csi1_poweron env csi)) =
     (if reset_control_deassert_ret env \<noteq> 0 then [ResetDeassert]
      else if clk_bus_ret env \<noteq> 0 then [ResetDeassert, ClkPrepareEnable Bus, ResetAssert]
      else if clk_ram_ret env \<noteq> 0 then
        [ResetDeassert, ClkPrepareEnable Bus, ClkPrepareEnable Ram,
         ClkDisableUnprepare Bus, ResetAssert]
      else if clk_module_ret env \<noteq> 0 then
        [ResetDeassert, ClkPrepareEnable Bus, ClkPrepareEnable Ram,
         ClkSetRate Module 24000000, ClkPrepareEnable Module,
         ClkDisableUnprepare Ram, ClkDisableUnprepare Bus, ResetAssert]
      else
        [ResetDeassert, ClkPrepareEnable Bus, ClkPrepareEnable Ram,
         ClkSetRate Module 24000000, ClkPrepareEnable Module,
         SpinLock, Writel SUN4I_CSI1_ENABLE (1 OR (mmio csi SUN4I_CSI1_ENABLE AND NOT 1)),
         SpinUnlock])
   \<and> fst (sun4i_csi1_poweron env csi) =
     (if reset_control_deassert_ret env \<noteq> 0 then reset_control_deassert_ret env
      else if clk_bus_ret env \<noteq> 0 then clk_bus_ret env
      else if clk_ram_ret env \<noteq> 0 then clk_ram_ret env
      else clk_module_ret env)
   \<and> (fst (sun4i_csi1_poweron env csi) \<noteq> 0 \<longrightarrow>
        (snd (sun4i_csi1_poweron env csi))\<lparr>trace := trace csi\<rparr> = csi
        \<and> powered (snd (sun4i_csi1_poweron env csi)) = powered csi
        \<and> sun4i_csi1_streaming_start env csi = Some (sun4i_csi1_poweron env csi))"
proof -
  have p: "fst (sun4i_csi1_poweron env csi) \<noteq> 0 \<Longrightarrow>
     powered (snd (sun4i_csi1_poweron env csi)) = powered csi"
    by (simp add: sun4i_csi1_poweron_def Let_def emit_def split: if_splits)
  have t: "events_since csi (snd (sun4i_csi1_poweron env csi)) =
     drop (length (trace csi)) (trace (snd (sun4i_csi1_poweron env csi)))"
    by (simp add: events_since_def)
  show ?thesis
    apply (intro conjI impI)
        apply (simp only: t trace_poweron append_eq_conv_conj drop_all length_append
           drop_append order_refl diff_self_eq_0 drop_0 append_Nil)
       apply (rule ret_poweron)
      apply (erule poweron_fail_state)
     apply (erule p)
    apply (erule streaming_start_fail)
    done
qed

lemma upt_3: "[0..<3] = [0, 1, 2]"
  by (simp add: eval_nat_numeral upt_conv_Cons)

lemma format_initialize_eq:
  "sun4i_csi1_format_initialize csi w h hs vs =
     csi\<lparr>plane_count := 3, plane_size := w * h, width := w, height := h,
         hsync_polarity := hs, vsync_polarity := vs,
         stored_format := \<lparr>fmt_type = V4L2_BUF_TYPE_VIDEO_CAPTURE_MPLANE,
           pix_mp = \<lparr>pix_width = w, pix_height = h, pixelformat = V4L2_PIX_FMT_YUV444M,
             pix_field = V4L2_FIELD_NONE, colorspace = V4L2_COLORSPACE_RAW,
             plane_fmt = (\<lambda>_. zero_plane)
               (0 := \<lparr>sizeimage = w * h, bytesperline = w\<rparr>,
                1 := \<lparr>sizeimage = w * h, bytesperline = w\<rparr>,
                2 := \<lparr>sizeimage = w * h, bytesperline = w\<rparr>),
             num_planes = 3, ycbcr_enc = V4L2_YCBCR_ENC_DEFAULT,
             quantization = V4L2_QUANTIZATION_DEFAULT,
             xfer_func = V4L2_XFER_FUNC_NONE\<rparr>\<rparr>\<rparr>"
  by (simp add: sun4i_csi1_format_initialize_def Let_def set_pix_def upt_3 zero_pix_def)

lemma csi_probed_eq:
  "csi_probed = csi_kzalloc\<lparr>plane_count := 3, plane_size := 1920 * 1080, width := 1920, height := 1080,
         stored_format := \<lparr>fmt_type = V4L2_BUF_TYPE_VIDEO_CAPTURE_MPLANE,
           pix_mp = \<lparr>pix_width = 1920, pix_height = 1080, pixelformat = V4L2_PIX_FMT_YUV444M,
             pix_field = V4L2_FIELD_NONE, colorspace = V4L2_COLORSPACE_RAW,
             plane_fmt = (\<lambda>_. zero_plane)
               (0 := \<lparr>sizeimage = 1920 * 1080, bytesperline = 1920\<rparr>,
                1 := \<lparr>sizeimage = 1920 * 1080, bytesperline = 1920\<rparr>,
                2 := \<lparr>sizeimage = 1920 * 1080, bytesperline = 1920\<rparr>),
             num_planes = 3, ycbcr_enc = V4L2_YCBCR_ENC_DEFAULT,
             quantization = V4L2_QUANTIZATION_DEFAULT,
             xfer_func = V4L2_XFER_FUNC_NONE\<rparr>\<rparr>,
         min_buffers_needed := 3,
         hdisplay_start := 148, vdisplay_start := 36, queue_bufs := [1, 2, 3],
         bufs := (\<lambda>k. if k = 1 \<or> k = 2 \<or> k = 3 then example_buffer k else zero_buffer)\<rparr>"
  by (simp add: csi_probed_def format_initialize_eq sun4i_csi1_vb2_queue_initialize_def
      Let_def csi_kzalloc_def)

theorem poweron_unwinds_witness:
  "events_since csi_probed (snd (sun4i_csi1_poweron power_fail_module csi_probed)) =
     [ResetDeassert, ClkPrepareEnable Bus, ClkPrepareEnable Ram,
      ClkSetRate Module 24000000, ClkPrepareEnable Module,
      ClkDisableUnprepare Ram, ClkDisableUnprepare Bus, ResetAssert]
   \<and> fst (sun4i_csi1_poweron power_fail_module csi_probed) = - 5
   \<and> powered (snd (sun4i_csi1_poweron power_fail_module csi_probed)) = False
   \<and> sun4i_csi1_streaming_start power_fail_module csi_probed
       = Some (sun4i_csi1_poweron power_fail_module csi_probed)"
  using poweron_unwinds [of csi_probed power_fail_module]
  by (simp add: power_fail_module_def csi_probed_eq csi_kzalloc_def)

subsection \<open>What each operation leaves alone\<close>

lemma emit_frame [simp]:
  "powered (emit es csi) = powered csi"
  "stored_format (emit es csi) = stored_format csi"
  "queue_bufs (emit es csi) = queue_bufs csi"
  "min_buffers_needed (emit es csi) = min_buffers_needed csi"
  "plane_count (emit es csi) = plane_count csi"
  "plane_size (emit es csi) = plane_size csi"
  "width (emit es csi) = width csi"
  "height (emit es csi) = height csi"
  "hdisplay_start (emit es csi) = hdisplay_start csi"
  "vdisplay_start (emit es csi) = vdisplay_start csi"
  "hsync_polarity (emit es csi) = hsync_polarity csi"
  "vsync_polarity (emit es csi) = vsync_polarity csi"
  "buffer_list (emit es csi) = buffer_list csi"
  "buffers (emit es csi) = buffers csi"
  "sequence (emit es csi) = sequence csi"
  "dummy_virtual (emit es csi) = dummy_virtual csi"
  "dummy_dma_addr (emit es csi) = dummy_dma_addr csi"
  "bufs (emit es csi) = bufs csi"
  "buf_list (emit es csi) = buf_list csi"
  by (simp_all add: emit_def)

declare mmio_emit [simp] trace_emit [simp]

lemma write_frame [simp]:
  "powered (sun4i_csi1_write csi a v) = powered csi"
  "stored_format (sun4i_csi1_write csi a v) = stored_format csi"
  "queue_bufs (sun4i_csi1_write csi a v) = queue_bufs csi"
  "min_buffers_needed (sun4i_csi1_write csi a v) = min_buffers_needed csi"
  "plane_count (sun4i_csi1_write csi a v) = plane_count csi"
  "plane_size (sun4i_csi1_write csi a v) = plane_size csi"
  "width (sun4i_csi1_write csi a v) = width csi"
  "height (sun4i_csi1_write csi a v) = height csi"
  "hdisplay_start (sun4i_csi1_write csi a v) = hdisplay_start csi"
  "vdisplay_start (sun4i_csi1_write csi a v) = vdisplay_start csi"
  "hsync_polarity (sun4i_csi1_write csi a v) = hsync_polarity csi"
  "vsync_polarity (sun4i_csi1_write csi a v) = vsync_polarity csi"
  "buffer_list (sun4i_csi1_write csi a v) = buffer_list csi"
  "buffers (sun4i_csi1_write csi a v) = buffers csi"
  "sequence (sun4i_csi1_write csi a v) = sequence csi"
  "dummy_virtual (sun4i_csi1_write csi a v) = dummy_virtual csi"
  "dummy_dma_addr (sun4i_csi1_write csi a v) = dummy_dma_addr csi"
  "bufs (sun4i_csi1_write csi a v) = bufs csi"
  "buf_list (sun4i_csi1_write csi a v) = buf_list csi"
  by (simp_all add: sun4i_csi1_write_def)

lemma trace_write [simp]: "trace (sun4i_csi1_write csi a v) = trace csi @ [Writel a v]"
  by (simp add: sun4i_csi1_write_def)

lemma mask_frame [simp]:
  "powered (sun4i_csi1_mask csi a v m) = powered csi"
  "stored_format (sun4i_csi1_mask csi a v m) = stored_format csi"
  "queue_bufs (sun4i_csi1_mask csi a v m) = queue_bufs csi"
  "min_buffers_needed (sun4i_csi1_mask csi a v m) = min_buffers_needed csi"
  "plane_count (sun4i_csi1_mask csi a v m) = plane_count csi"
  "plane_size (sun4i_csi1_mask csi a v m) = plane_size csi"
  "width (sun4i_csi1_mask csi a v m) = width csi"
  "height (sun4i_csi1_mask csi a v m) = height csi"
  "hdisplay_start (sun4i_csi1_mask csi a v m) = hdisplay_start csi"
  "vdisplay_start (sun4i_csi1_mask csi a v m) = vdisplay_start csi"
  "hsync_polarity (sun4i_csi1_mask csi a v m) = hsync_polarity csi"
  "vsync_polarity (sun4i_csi1_mask csi a v m) = vsync_polarity csi"
  "buffer_list (sun4i_csi1_mask csi a v m) = buffer_list csi"
  "buffers (sun4i_csi1_mask csi a v m) = buffers csi"
  "sequence (sun4i_csi1_mask csi a v m) = sequence csi"
  "dummy_virtual (sun4i_csi1_mask csi a v m) = dummy_virtual csi"
  "dummy_dma_addr (sun4i_csi1_mask csi a v m) = dummy_dma_addr csi"
  "bufs (sun4i_csi1_mask csi a v m) = bufs csi"
  "buf_list (sun4i_csi1_mask csi a v m) = buf_list csi"
  by (simp_all add: sun4i_csi1_mask_def Let_def)

lemma trace_mask [simp]:
  "trace (sun4i_csi1_mask csi a v m) = trace csi @ [Writel a ((v AND m) OR (mmio csi a AND NOT m))]"
  by (simp add: sun4i_csi1_mask_def Let_def sun4i_csi1_read_def)

lemma write_spin_frame [simp]:
  "powered (sun4i_csi1_write_spin csi a v) = powered csi"
  "stored_format (sun4i_csi1_write_spin csi a v) = stored_format csi"
  "queue_bufs (sun4i_csi1_write_spin csi a v) = queue_bufs csi"
  "min_buffers_needed (sun4i_csi1_write_spin csi a v) = min_buffers_needed csi"
  "plane_count (sun4i_csi1_write_spin csi a v) = plane_count csi"
  "plane_size (sun4i_csi1_write_spin csi a v) = plane_size csi"
  "width (sun4i_csi1_write_spin csi a v) = width csi"
  "height (sun4i_csi1_write_spin csi a v) = height csi"
  "hdisplay_start (sun4i_csi1_write_spin csi a v) = hdisplay_start csi"
  "vdisplay_start (sun4i_csi1_write_spin csi a v) = vdisplay_start csi"
  "hsync_polarity (sun4i_csi1_write_spin csi a v) = hsync_polarity csi"
  "vsync_polarity (sun4i_csi1_write_spin csi a v) = vsync_polarity csi"
  "buffer_list (sun4i_csi1_write_spin csi a v) = buffer_list csi"
  "buffers (sun4i_csi1_write_spin csi a v) = buffers csi"
  "sequence (sun4i_csi1_write_spin csi a v) = sequence csi"
  "dummy_virtual (sun4i_csi1_write_spin csi a v) = dummy_virtual csi"
  "dummy_dma_addr (sun4i_csi1_write_spin csi a v) = dummy_dma_addr csi"
  "bufs (sun4i_csi1_write_spin csi a v) = bufs csi"
  "buf_list (sun4i_csi1_write_spin csi a v) = buf_list csi"
  by (simp_all add: sun4i_csi1_write_spin_def)

lemma mmio_write_spin [simp]: "mmio (sun4i_csi1_write_spin csi a v) = (mmio csi)(a := v)"
  by (simp add: sun4i_csi1_write_spin_def mmio_write)

lemma trace_write_spin [simp]:
  "trace (sun4i_csi1_write_spin csi a v) = trace csi @ [SpinLock, Writel a v, SpinUnlock]"
  by (simp add: sun4i_csi1_write_spin_def)

lemma mask_spin_frame [simp]:
  "powered (sun4i_csi1_mask_spin csi a v m) = powered csi"
  "stored_format (sun4i_csi1_mask_spin csi a v m) = stored_format csi"
  "queue_bufs (sun4i_csi1_mask_spin csi a v m) = queue_bufs csi"
  "min_buffers_needed (sun4i_csi1_mask_spin csi a v m) = min_buffers_needed csi"
  "plane_count (sun4i_csi1_mask_spin csi a v m) = plane_count csi"
  "plane_size (sun4i_csi1_mask_spin csi a v m) = plane_size csi"
  "width (sun4i_csi1_mask_spin csi a v m) = width csi"
  "height (sun4i_csi1_mask_spin csi a v m) = height csi"
  "hdisplay_start (sun4i_csi1_mask_spin csi a v m) = hdisplay_start csi"
  "vdisplay_start (sun4i_csi1_mask_spin csi a v m) = vdisplay_start csi"
  "hsync_polarity (sun4i_csi1_mask_spin csi a v m) = hsync_polarity csi"
  "vsync_polarity (sun4i_csi1_mask_spin csi a v m) = vsync_polarity csi"
  "buffer_list (sun4i_csi1_mask_spin csi a v m) = buffer_list csi"
  "buffers (sun4i_csi1_mask_spin csi a v m) = buffers csi"
  "sequence (sun4i_csi1_mask_spin csi a v m) = sequence csi"
  "dummy_virtual (sun4i_csi1_mask_spin csi a v m) = dummy_virtual csi"
  "dummy_dma_addr (sun4i_csi1_mask_spin csi a v m) = dummy_dma_addr csi"
  "bufs (sun4i_csi1_mask_spin csi a v m) = bufs csi"
  "buf_list (sun4i_csi1_mask_spin csi a v m) = buf_list csi"
  by (simp_all add: sun4i_csi1_mask_spin_def Let_def)

lemma trace_mask_spin [simp]:
  "trace (sun4i_csi1_mask_spin csi a v m) =
     trace csi @ [SpinLock, Writel a ((v AND m) OR (mmio csi a AND NOT m)), SpinUnlock]"
  by (simp add: sun4i_csi1_mask_spin_def Let_def sun4i_csi1_read_def)

lemma vb2_buffer_done_frame [simp]:
  "powered (vb2_buffer_done b st csi) = powered csi"
  "stored_format (vb2_buffer_done b st csi) = stored_format csi"
  "queue_bufs (vb2_buffer_done b st csi) = queue_bufs csi"
  "min_buffers_needed (vb2_buffer_done b st csi) = min_buffers_needed csi"
  "plane_count (vb2_buffer_done b st csi) = plane_count csi"
  "plane_size (vb2_buffer_done b st csi) = plane_size csi"
  "width (vb2_buffer_done b st csi) = width csi"
  "height (vb2_buffer_done b st csi) = height csi"
  "hdisplay_start (vb2_buffer_done b st csi) = hdisplay_start csi"
  "vdisplay_start (vb2_buffer_done b st csi) = vdisplay_start csi"
  "hsync_polarity (vb2_buffer_done b st csi) = hsync_polarity csi"
  "vsync_polarity (vb2_buffer_done b st csi) = vsync_polarity csi"
  "buffer_list (vb2_buffer_done b st csi) = buffer_list csi"
  "buffers (vb2_buffer_done b st csi) = buffers csi"
  "sequence (vb2_buffer_done b st csi) = sequence csi"
  "dummy_virtual (vb2_buffer_done b st csi) = dummy_virtual csi"
  "dummy_dma_addr (vb2_buffer_done b st csi) = dummy_dma_addr csi"
  by (simp_all add: vb2_buffer_done_def)

lemma vb2_buffer_done_more [simp]:
  "mmio (vb2_buffer_done b st csi) = mmio csi"
  "bufs (vb2_buffer_done b st csi) = (bufs csi)(b := (bufs csi b)\<lparr>buf_state := st\<rparr>)"
  "buf_list (vb2_buffer_done b st csi) = buf_list csi"
  "trace (vb2_buffer_done b st csi) =
     trace csi @ [Vb2BufferDone b (buf_sequence (bufs csi b)) (buf_timestamp (bufs csi b)) st]"
  by (simp_all add: vb2_buffer_done_def)

lemma engine_start_config_frame [simp]:
  "powered (engine_start_config csi) = powered csi"
  "stored_format (engine_start_config csi) = stored_format csi"
  "queue_bufs (engine_start_config csi) = queue_bufs csi"
  "min_buffers_needed (engine_start_config csi) = min_buffers_needed csi"
  "plane_count (engine_start_config csi) = plane_count csi"
  "plane_size (engine_start_config csi) = plane_size csi"
  "width (engine_start_config csi) = width csi"
  "height (engine_start_config csi) = height csi"
  "hdisplay_start (engine_start_config csi) = hdisplay_start csi"
  "vdisplay_start (engine_start_config csi) = vdisplay_start csi"
  "hsync_polarity (engine_start_config csi) = hsync_polarity csi"
  "vsync_polarity (engine_start_config csi) = vsync_polarity csi"
  "buffer_list (engine_start_config csi) = buffer_list csi"
  "buffers (engine_start_config csi) = buffers csi"
  "sequence (engine_start_config csi) = sequence csi"
  "dummy_virtual (engine_start_config csi) = dummy_virtual csi"
  "dummy_dma_addr (engine_start_config csi) = dummy_dma_addr csi"
  "bufs (engine_start_config csi) = bufs csi"
  "buf_list (engine_start_config csi) = buf_list csi"
  by (simp_all add: engine_start_config_def Let_def)

lemma engine_start_addresses_frame [simp]:
  "powered (engine_start_addresses b0 b1 csi) = powered csi"
  "stored_format (engine_start_addresses b0 b1 csi) = stored_format csi"
  "queue_bufs (engine_start_addresses b0 b1 csi) = queue_bufs csi"
  "min_buffers_needed (engine_start_addresses b0 b1 csi) = min_buffers_needed csi"
  "plane_count (engine_start_addresses b0 b1 csi) = plane_count csi"
  "plane_size (engine_start_addresses b0 b1 csi) = plane_size csi"
  "width (engine_start_addresses b0 b1 csi) = width csi"
  "height (engine_start_addresses b0 b1 csi) = height csi"
  "hdisplay_start (engine_start_addresses b0 b1 csi) = hdisplay_start csi"
  "vdisplay_start (engine_start_addresses b0 b1 csi) = vdisplay_start csi"
  "hsync_polarity (engine_start_addresses b0 b1 csi) = hsync_polarity csi"
  "vsync_polarity (engine_start_addresses b0 b1 csi) = vsync_polarity csi"
  "buffer_list (engine_start_addresses b0 b1 csi) = buffer_list csi"
  "buffers (engine_start_addresses b0 b1 csi) = buffers csi"
  "sequence (engine_start_addresses b0 b1 csi) = sequence csi"
  "dummy_virtual (engine_start_addresses b0 b1 csi) = dummy_virtual csi"
  "dummy_dma_addr (engine_start_addresses b0 b1 csi) = dummy_dma_addr csi"
  "bufs (engine_start_addresses b0 b1 csi) = bufs csi"
  "buf_list (engine_start_addresses b0 b1 csi) = buf_list csi"
  by (simp_all add: engine_start_addresses_def Let_def)

lemma engine_start_enable_frame [simp]:
  "powered (engine_start_enable csi) = powered csi"
  "stored_format (engine_start_enable csi) = stored_format csi"
  "queue_bufs (engine_start_enable csi) = queue_bufs csi"
  "min_buffers_needed (engine_start_enable csi) = min_buffers_needed csi"
  "plane_count (engine_start_enable csi) = plane_count csi"
  "plane_size (engine_start_enable csi) = plane_size csi"
  "width (engine_start_enable csi) = width csi"
  "height (engine_start_enable csi) = height csi"
  "hdisplay_start (engine_start_enable csi) = hdisplay_start csi"
  "vdisplay_start (engine_start_enable csi) = vdisplay_start csi"
  "hsync_polarity (engine_start_enable csi) = hsync_polarity csi"
  "vsync_polarity (engine_start_enable csi) = vsync_polarity csi"
  "buffer_list (engine_start_enable csi) = buffer_list csi"
  "buffers (engine_start_enable csi) = buffers csi"
  "sequence (engine_start_enable csi) = sequence csi"
  "dummy_virtual (engine_start_enable csi) = dummy_virtual csi"
  "dummy_dma_addr (engine_start_enable csi) = dummy_dma_addr csi"
  "bufs (engine_start_enable csi) = bufs csi"
  "buf_list (engine_start_enable csi) = buf_list csi"
  by (simp_all add: engine_start_enable_def Let_def)

subsection \<open>The frame-done handler (C1, C6)\<close>

lemma index_parity: "unat ((s::u64) AND 1) = unat s mod 2"
  by (simp add: and_one_eq unat_mod)

lemma fdl_old: "fst (frame_done_locked csi) = buffers csi (unat (sequence csi AND 1))"
  by (simp add: frame_done_locked_def Let_def emit_def split: list.split prod.split)

lemma fdl_seq: "fst (snd (frame_done_locked csi)) = sequence csi"
  by (simp add: frame_done_locked_def Let_def emit_def split: list.split prod.split)

lemma fdl_disabled: "fst (snd (snd (frame_done_locked csi))) = (buffer_list csi = [])"
  by (simp add: frame_done_locked_def Let_def emit_def split: list.split prod.split)

lemma fdl_sequence:
  "sequence (snd (snd (snd (frame_done_locked csi)))) = sequence csi + 1"
  by (simp add: frame_done_locked_def Let_def emit_def sun4i_csi1_write_def
      sun4i_csi1_mask_def split: list.split prod.split)

lemma fdl_buffer_list:
  "buffer_list (snd (snd (snd (frame_done_locked csi)))) = tl (buffer_list csi)"
  by (simp add: frame_done_locked_def Let_def emit_def sun4i_csi1_write_def
      sun4i_csi1_mask_def split: list.split prod.split)

lemma fdl_buffers:
  "buffers (snd (snd (snd (frame_done_locked csi)))) =
     (buffers csi)(unat (sequence csi AND 1) :=
        (case buffer_list csi of [] \<Rightarrow> None | new # rest \<Rightarrow> Some new))"
  by (simp add: frame_done_locked_def Let_def emit_def sun4i_csi1_write_def
      sun4i_csi1_mask_def split: list.split prod.split)

lemma fdl_unchanged:
  "bufs (snd (snd (snd (frame_done_locked csi)))) = bufs csi
   \<and> dummy_dma_addr (snd (snd (snd (frame_done_locked csi)))) = dummy_dma_addr csi
   \<and> dummy_virtual (snd (snd (snd (frame_done_locked csi)))) = dummy_virtual csi
   \<and> powered (snd (snd (snd (frame_done_locked csi)))) = powered csi"
  by (simp add: frame_done_locked_def Let_def emit_def sun4i_csi1_write_def
      sun4i_csi1_mask_def split: list.split prod.split)

lemma fdl_mmio:
  "mmio (snd (snd (snd (frame_done_locked csi)))) =
     (let dma_addr = (case buffer_list csi of [] \<Rightarrow> dummy_dma_addr csi
                      | new # rest \<Rightarrow> buf_dma_addr (bufs csi new));
          m = (case buffer_list csi of
                 [] \<Rightarrow> (mmio csi)(SUN4I_CSI1_ENABLE := mmio csi SUN4I_CSI1_ENABLE AND NOT 1)
               | new # rest \<Rightarrow> mmio csi)
      in if unat (sequence csi AND 1) = 0
         then m(SUN4I_CSI1_FIFO0_BUFFER_A := dma_addr 0,
                SUN4I_CSI1_FIFO1_BUFFER_A := dma_addr 1,
                SUN4I_CSI1_FIFO2_BUFFER_A := dma_addr 2)
         else m(SUN4I_CSI1_FIFO0_BUFFER_B := dma_addr 0,
                SUN4I_CSI1_FIFO1_BUFFER_B := dma_addr 1,
                SUN4I_CSI1_FIFO2_BUFFER_B := dma_addr 2))"
  by (simp add: frame_done_locked_def Let_def emit_def sun4i_csi1_write_def
      sun4i_csi1_mask_def sun4i_csi1_read_def split: list.split prod.split)

lemma fdl_trace:
  "trace (snd (snd (snd (frame_done_locked csi)))) = trace csi @
     (let dma_addr = (case buffer_list csi of [] \<Rightarrow> dummy_dma_addr csi
                      | new # rest \<Rightarrow> buf_dma_addr (bufs csi new))
      in SpinLock #
         (case buffer_list csi of
            [] \<Rightarrow> [Writel SUN4I_CSI1_ENABLE (mmio csi SUN4I_CSI1_ENABLE AND NOT 1)]
          | new # rest \<Rightarrow> []) @
         (if unat (sequence csi AND 1) = 0
          then [Writel SUN4I_CSI1_FIFO0_BUFFER_A (dma_addr 0),
                Writel SUN4I_CSI1_FIFO1_BUFFER_A (dma_addr 1),
                Writel SUN4I_CSI1_FIFO2_BUFFER_A (dma_addr 2)]
          else [Writel SUN4I_CSI1_FIFO0_BUFFER_B (dma_addr 0),
                Writel SUN4I_CSI1_FIFO1_BUFFER_B (dma_addr 1),
                Writel SUN4I_CSI1_FIFO2_BUFFER_B (dma_addr 2)]) @
         [SpinUnlock])"
  by (simp add: frame_done_locked_def Let_def emit_def sun4i_csi1_write_def
      sun4i_csi1_mask_def sun4i_csi1_read_def split: list.split prod.split)

lemma events_since_append: "trace csi' = trace csi @ es \<Longrightarrow> events_since csi csi' = es"
  by (simp add: events_since_def)

text \<open>
  C1, as the code has it. In every run of the critical section of
  \<^verbatim>\<open>sun4i_csi1_frame_done\<close>, with \<open>i\<close> the slot being retired: the dummy (scratch)
  buffer goes into slot \<open>i\<close> exactly when the pending list is empty at that moment
  (\<open>disabled\<close> is set, and the slot table entry is \<^verbatim>\<open>NULL\<close>, exactly then). In
  that case the three registers of slot \<open>i\<close> hold the dummy buffer's plane addresses,
  and the module enable bit, bit 0 of \<^verbatim>\<open>SUN4I_CSI1_ENABLE\<close>, is cleared with the
  other bits of that register kept (line 330, commented \<^verbatim>\<open>disable module\<close>).
  Otherwise the registers hold the plane addresses of the first pending buffer, which
  leaves the list and enters the slot table, and the enable register keeps its value.
  No other register changes: the capture register \<^verbatim>\<open>SUN4I_CSI1_CAPTURE\<close>, whose
  bit 1 starts the capture, keeps its value in both cases.
\<close>

theorem scratch_installed_iff_queue_empty:
  assumes "frame_done_locked csi = (old, seq, disabled, csi')"
    and "i = unat (sequence csi AND 1)"
    and "regs = (if i = 0
                 then [SUN4I_CSI1_FIFO0_BUFFER_A, SUN4I_CSI1_FIFO1_BUFFER_A,
                       SUN4I_CSI1_FIFO2_BUFFER_A]
                 else [SUN4I_CSI1_FIFO0_BUFFER_B, SUN4I_CSI1_FIFO1_BUFFER_B,
                       SUN4I_CSI1_FIFO2_BUFFER_B])"
  shows "(disabled \<longleftrightarrow> buffer_list csi = [])
    \<and> (buffers csi' i = None \<longleftrightarrow> buffer_list csi = [])
    \<and> (buffer_list csi = [] \<longrightarrow>
          map (mmio csi') regs = map (dummy_dma_addr csi') [0, 1, 2]
          \<and> dummy_dma_addr csi' = dummy_dma_addr csi
          \<and> mmio csi' SUN4I_CSI1_ENABLE = mmio csi SUN4I_CSI1_ENABLE AND NOT 1
          \<and> \<not> bit (mmio csi' SUN4I_CSI1_ENABLE) 0
          \<and> buffer_list csi' = [])
    \<and> (buffer_list csi \<noteq> [] \<longrightarrow>
          map (mmio csi') regs = map (buf_dma_addr (bufs csi (hd (buffer_list csi)))) [0, 1, 2]
          \<and> buffers csi' i = Some (hd (buffer_list csi))
          \<and> buffer_list csi' = tl (buffer_list csi)
          \<and> mmio csi' SUN4I_CSI1_ENABLE = mmio csi SUN4I_CSI1_ENABLE)
    \<and> (\<forall>a. a \<noteq> SUN4I_CSI1_ENABLE \<and> a \<notin> set regs \<longrightarrow> mmio csi' a = mmio csi a)"
proof -
  have c: "csi' = snd (snd (snd (frame_done_locked csi)))"
    and d: "disabled = fst (snd (snd (frame_done_locked csi)))"
    using assms(1) by simp_all
  have 1: "disabled \<longleftrightarrow> buffer_list csi = []"
    by (simp add: d fdl_disabled)
  have 2: "buffers csi' i = None \<longleftrightarrow> buffer_list csi = []"
    by (simp add: c assms(2) fdl_buffers split: list.split)
  have 3: "buffer_list csi = [] \<longrightarrow>
          map (mmio csi') regs = map (dummy_dma_addr csi') [0, 1, 2]
          \<and> dummy_dma_addr csi' = dummy_dma_addr csi
          \<and> mmio csi' SUN4I_CSI1_ENABLE = mmio csi SUN4I_CSI1_ENABLE AND NOT 1
          \<and> \<not> bit (mmio csi' SUN4I_CSI1_ENABLE) 0
          \<and> buffer_list csi' = []"
    by (simp add: c assms(2,3) fdl_mmio fdl_unchanged fdl_buffer_list Let_def register_defs
        bit_and_iff bit_not_iff)
  have 4: "buffer_list csi \<noteq> [] \<longrightarrow>
          map (mmio csi') regs = map (buf_dma_addr (bufs csi (hd (buffer_list csi)))) [0, 1, 2]
          \<and> buffers csi' i = Some (hd (buffer_list csi))
          \<and> buffer_list csi' = tl (buffer_list csi)
          \<and> mmio csi' SUN4I_CSI1_ENABLE = mmio csi SUN4I_CSI1_ENABLE"
    by (cases "buffer_list csi")
       (simp_all add: c assms(2,3) fdl_mmio fdl_buffers fdl_buffer_list Let_def register_defs)
  have 5: "\<forall>a. a \<noteq> SUN4I_CSI1_ENABLE \<and> a \<notin> set regs \<longrightarrow> mmio csi' a = mmio csi a"
    by (cases "buffer_list csi")
       (simp_all add: c assms(2,3) fdl_mmio Let_def)
  from 1 2 3 4 5 show ?thesis by blast
qed

text \<open>
  C6. In every run of the critical section of \<^verbatim>\<open>sun4i_csi1_frame_done\<close> the slot
  index is the running sequence number mod 2: the buffer retired is the one the slot
  table holds at that index, that entry is the only one replaced, and the
  buffer-pointer registers written are, in order, those of slot A (FIFO0/1/2\_BUFFER\_A)
  exactly when the index is 0 and those of slot B (FIFO0/1/2\_BUFFER\_B) exactly when it
  is 1. The only other register written is \<^verbatim>\<open>SUN4I_CSI1_ENABLE\<close>, first, when the
  pending list is empty.
\<close>

theorem slot_index_is_sequence_parity:
  assumes "frame_done_locked csi = (old, seq, disabled, csi')"
    and "i = unat (sequence csi) mod 2"
  shows "(i = 0 \<or> i = 1)
    \<and> i = unat (sequence csi AND 1)
    \<and> old = buffers csi i
    \<and> (\<forall>j. j \<noteq> i \<longrightarrow> buffers csi' j = buffers csi j)
    \<and> written_registers (events_since csi csi') =
        (if buffer_list csi = [] then [SUN4I_CSI1_ENABLE] else []) @
        (if i = 0
         then [SUN4I_CSI1_FIFO0_BUFFER_A, SUN4I_CSI1_FIFO1_BUFFER_A, SUN4I_CSI1_FIFO2_BUFFER_A]
         else [SUN4I_CSI1_FIFO0_BUFFER_B, SUN4I_CSI1_FIFO1_BUFFER_B, SUN4I_CSI1_FIFO2_BUFFER_B])
    \<and> (i = 0 \<longrightarrow> mmio csi' SUN4I_CSI1_FIFO0_BUFFER_B = mmio csi SUN4I_CSI1_FIFO0_BUFFER_B
          \<and> mmio csi' SUN4I_CSI1_FIFO1_BUFFER_B = mmio csi SUN4I_CSI1_FIFO1_BUFFER_B
          \<and> mmio csi' SUN4I_CSI1_FIFO2_BUFFER_B = mmio csi SUN4I_CSI1_FIFO2_BUFFER_B)
    \<and> (i = 1 \<longrightarrow> mmio csi' SUN4I_CSI1_FIFO0_BUFFER_A = mmio csi SUN4I_CSI1_FIFO0_BUFFER_A
          \<and> mmio csi' SUN4I_CSI1_FIFO1_BUFFER_A = mmio csi SUN4I_CSI1_FIFO1_BUFFER_A
          \<and> mmio csi' SUN4I_CSI1_FIFO2_BUFFER_A = mmio csi SUN4I_CSI1_FIFO2_BUFFER_A)"
proof -
  have c: "csi' = snd (snd (snd (frame_done_locked csi)))"
    and o: "old = fst (frame_done_locked csi)"
    using assms(1) by simp_all
  have i: "i = unat (sequence csi AND 1)"
    by (simp add: assms(2) index_parity)
  have 1: "i = 0 \<or> i = 1"
    using assms(2) by arith
  have 3: "old = buffers csi i"
    by (simp add: o i fdl_old)
  have 4: "\<forall>j. j \<noteq> i \<longrightarrow> buffers csi' j = buffers csi j"
    by (simp add: c i fdl_buffers)
  have 5: "written_registers (events_since csi csi') =
        (if buffer_list csi = [] then [SUN4I_CSI1_ENABLE] else []) @
        (if i = 0
         then [SUN4I_CSI1_FIFO0_BUFFER_A, SUN4I_CSI1_FIFO1_BUFFER_A, SUN4I_CSI1_FIFO2_BUFFER_A]
         else [SUN4I_CSI1_FIFO0_BUFFER_B, SUN4I_CSI1_FIFO1_BUFFER_B, SUN4I_CSI1_FIFO2_BUFFER_B])"
    unfolding c events_since_append [OF fdl_trace] i
    by (cases "buffer_list csi") (simp_all add: Let_def)
  have 6: "i = 0 \<longrightarrow> mmio csi' SUN4I_CSI1_FIFO0_BUFFER_B = mmio csi SUN4I_CSI1_FIFO0_BUFFER_B
          \<and> mmio csi' SUN4I_CSI1_FIFO1_BUFFER_B = mmio csi SUN4I_CSI1_FIFO1_BUFFER_B
          \<and> mmio csi' SUN4I_CSI1_FIFO2_BUFFER_B = mmio csi SUN4I_CSI1_FIFO2_BUFFER_B"
    by (cases "buffer_list csi") (simp_all add: c i fdl_mmio Let_def register_defs)
  have 7: "i = 1 \<longrightarrow> mmio csi' SUN4I_CSI1_FIFO0_BUFFER_A = mmio csi SUN4I_CSI1_FIFO0_BUFFER_A
          \<and> mmio csi' SUN4I_CSI1_FIFO1_BUFFER_A = mmio csi SUN4I_CSI1_FIFO1_BUFFER_A
          \<and> mmio csi' SUN4I_CSI1_FIFO2_BUFFER_A = mmio csi SUN4I_CSI1_FIFO2_BUFFER_A"
    by (cases "buffer_list csi") (simp_all add: c i fdl_mmio Let_def register_defs)
  from 1 i 3 4 5 6 7 show ?thesis by blast
qed

subsection \<open>Starting the engine\<close>

lemma mmio_engine_start_config:
  "a \<noteq> SUN4I_CSI1_CONFIG \<Longrightarrow> mmio (engine_start_config csi) a = mmio csi a"
  by (simp add: engine_start_config_def Let_def mmio_mask)

lemma mmio_engine_start_addresses:
  "mmio (engine_start_addresses b0 b1 csi) =
     (mmio csi)(SUN4I_CSI1_FIFO0_BUFFER_A := buf_dma_addr (bufs csi b0) 0,
                SUN4I_CSI1_FIFO1_BUFFER_A := buf_dma_addr (bufs csi b0) 1,
                SUN4I_CSI1_FIFO2_BUFFER_A := buf_dma_addr (bufs csi b0) 2,
                SUN4I_CSI1_FIFO0_BUFFER_B := buf_dma_addr (bufs csi b1) 0,
                SUN4I_CSI1_FIFO1_BUFFER_B := buf_dma_addr (bufs csi b1) 1,
                SUN4I_CSI1_FIFO2_BUFFER_B := buf_dma_addr (bufs csi b1) 2)"
  by (simp add: engine_start_addresses_def Let_def mmio_write)

lemma mmio_engine_start_enable:
  "a \<notin> {SUN4I_CSI1_BUFFER_CONTROL, SUN4I_CSI1_INT_ENABLE, SUN4I_CSI1_HSIZE,
          SUN4I_CSI1_VSIZE, SUN4I_CSI1_STRIDE, SUN4I_CSI1_CAPTURE}
     \<Longrightarrow> mmio (engine_start_enable csi) a = mmio csi a"
  by (simp add: engine_start_enable_def Let_def mmio_mask mmio_write)

lemma mmio_engine_start_enable_capture:
  "mmio (engine_start_enable csi) SUN4I_CSI1_CAPTURE = 2 OR (mmio csi SUN4I_CSI1_CAPTURE AND NOT 2)"
  by (simp add: engine_start_enable_def Let_def mmio_mask mmio_write register_defs)

lemma engine_start_eq:
  "buffer_list csi = b0 # b1 # rest \<Longrightarrow>
   sun4i_csi1_engine_start csi =
     Some (emit [SpinUnlock] (engine_start_enable (engine_start_addresses b0 b1
       (engine_start_config ((emit [SpinLock] csi)\<lparr>sequence := 0,
          buffers := (buffers csi)(0 := Some b0, 1 := Some b1), buffer_list := rest,
          buf_list := (buf_list csi)(b0 := LIST_HEAD_INIT, b1 := LIST_HEAD_INIT)\<rparr>)))))"
  by (simp add: sun4i_csi1_engine_start_def Let_def)

lemma engine_start_None:
  "length (buffer_list csi) < 2 \<Longrightarrow> sun4i_csi1_engine_start csi = None"
  by (cases "buffer_list csi"; cases "tl (buffer_list csi)")
     (simp_all add: sun4i_csi1_engine_start_def Let_def)

lemma engine_start_two:
  assumes "sun4i_csi1_engine_start csi = Some csi'"
  obtains b0 b1 rest where "buffer_list csi = b0 # b1 # rest"
proof (cases "buffer_list csi")
  case Nil
  with assms show ?thesis by (simp add: sun4i_csi1_engine_start_def Let_def)
next
  case (Cons b0 xs)
  show ?thesis
  proof (cases xs)
    case Nil
    with Cons assms show ?thesis by (simp add: sun4i_csi1_engine_start_def Let_def)
  next
    case (Cons b1 rest)
    with \<open>buffer_list csi = b0 # xs\<close> that show ?thesis by simp
  qed
qed

lemma engine_start_fields:
  assumes "sun4i_csi1_engine_start csi = Some csi'"
    and "buffer_list csi = b0 # b1 # rest"
  shows "sequence csi' = 0"
    and "buffer_list csi' = rest"
    and "buffers csi' = (buffers csi)(0 := Some b0, 1 := Some b1)"
    and "bufs csi' = bufs csi"
    and "powered csi' = powered csi"
    and "dummy_dma_addr csi' = dummy_dma_addr csi"
    and "dummy_virtual csi' = dummy_virtual csi"
    and "queue_bufs csi' = queue_bufs csi"
    and "plane_count csi' = plane_count csi"
    and "plane_size csi' = plane_size csi"
    and "buf_list csi' = (buf_list csi)(b0 := LIST_HEAD_INIT, b1 := LIST_HEAD_INIT)"
proof -
  have c: "csi' = emit [SpinUnlock] (engine_start_enable (engine_start_addresses b0 b1
       (engine_start_config ((emit [SpinLock] csi)\<lparr>sequence := 0,
          buffers := (buffers csi)(0 := Some b0, 1 := Some b1), buffer_list := rest,
          buf_list := (buf_list csi)(b0 := LIST_HEAD_INIT, b1 := LIST_HEAD_INIT)\<rparr>))))"
    using assms by (simp add: engine_start_eq)
  show "sequence csi' = 0"
    and "buffer_list csi' = rest"
    and "buffers csi' = (buffers csi)(0 := Some b0, 1 := Some b1)"
    and "bufs csi' = bufs csi"
    and "powered csi' = powered csi"
    and "dummy_dma_addr csi' = dummy_dma_addr csi"
    and "dummy_virtual csi' = dummy_virtual csi"
    and "queue_bufs csi' = queue_bufs csi"
    and "plane_count csi' = plane_count csi"
    and "plane_size csi' = plane_size csi"
    and "buf_list csi' = (buf_list csi)(b0 := LIST_HEAD_INIT, b1 := LIST_HEAD_INIT)"
    by (simp_all add: c)
qed

lemma engine_start_mmio:
  assumes "sun4i_csi1_engine_start csi = Some csi'"
    and "buffer_list csi = b0 # b1 # rest"
  shows "mmio csi' SUN4I_CSI1_FIFO0_BUFFER_A = buf_dma_addr (bufs csi b0) 0"
    and "mmio csi' SUN4I_CSI1_FIFO1_BUFFER_A = buf_dma_addr (bufs csi b0) 1"
    and "mmio csi' SUN4I_CSI1_FIFO2_BUFFER_A = buf_dma_addr (bufs csi b0) 2"
    and "mmio csi' SUN4I_CSI1_FIFO0_BUFFER_B = buf_dma_addr (bufs csi b1) 0"
    and "mmio csi' SUN4I_CSI1_FIFO1_BUFFER_B = buf_dma_addr (bufs csi b1) 1"
    and "mmio csi' SUN4I_CSI1_FIFO2_BUFFER_B = buf_dma_addr (bufs csi b1) 2"
    and "mmio csi' SUN4I_CSI1_ENABLE = mmio csi SUN4I_CSI1_ENABLE"
    and "mmio csi' SUN4I_CSI1_CAPTURE = 2 OR (mmio csi SUN4I_CSI1_CAPTURE AND NOT 2)"
proof -
  have c: "csi' = emit [SpinUnlock] (engine_start_enable (engine_start_addresses b0 b1
       (engine_start_config ((emit [SpinLock] csi)\<lparr>sequence := 0,
          buffers := (buffers csi)(0 := Some b0, 1 := Some b1), buffer_list := rest,
          buf_list := (buf_list csi)(b0 := LIST_HEAD_INIT, b1 := LIST_HEAD_INIT)\<rparr>))))"
    using assms by (simp add: engine_start_eq)
  show "mmio csi' SUN4I_CSI1_FIFO0_BUFFER_A = buf_dma_addr (bufs csi b0) 0"
    and "mmio csi' SUN4I_CSI1_FIFO1_BUFFER_A = buf_dma_addr (bufs csi b0) 1"
    and "mmio csi' SUN4I_CSI1_FIFO2_BUFFER_A = buf_dma_addr (bufs csi b0) 2"
    and "mmio csi' SUN4I_CSI1_FIFO0_BUFFER_B = buf_dma_addr (bufs csi b1) 0"
    and "mmio csi' SUN4I_CSI1_FIFO1_BUFFER_B = buf_dma_addr (bufs csi b1) 1"
    and "mmio csi' SUN4I_CSI1_FIFO2_BUFFER_B = buf_dma_addr (bufs csi b1) 2"
    and "mmio csi' SUN4I_CSI1_ENABLE = mmio csi SUN4I_CSI1_ENABLE"
    by (simp_all add: c mmio_engine_start_enable mmio_engine_start_addresses
      mmio_engine_start_config register_defs)
  show "mmio csi' SUN4I_CSI1_CAPTURE = 2 OR (mmio csi SUN4I_CSI1_CAPTURE AND NOT 2)"
    by (simp add: c mmio_engine_start_enable_capture)
       (simp add: mmio_engine_start_addresses mmio_engine_start_config register_defs)
qed

subsection \<open>Delivery and sequence numbers (C5)\<close>

lemma frame_done_Some:
  assumes "buffers csi (unat (sequence csi AND 1)) = Some b"
  shows "sun4i_csi1_frame_done now csi =
     Some (vb2_buffer_done b VB2_BUF_STATE_DONE
       ((emit [KtimeGetNs now] (snd (snd (snd (frame_done_locked csi)))))
          \<lparr>bufs := (bufs csi)(b := (bufs csi b)\<lparr>buf_timestamp := now,
                                                 buf_sequence := ucast (sequence csi)\<rparr>)\<rparr>))"
proof -
  obtain old seq disabled st where f: "frame_done_locked csi = (old, seq, disabled, st)"
    by (metis prod.collapse)
  have "old = Some b" "seq = sequence csi" "bufs st = bufs csi"
    using fdl_old [of csi] fdl_seq [of csi] fdl_unchanged [of csi] assms by (simp_all add: f)
  then show ?thesis
    by (simp add: sun4i_csi1_frame_done_def f Let_def)
qed

lemma frame_done_None:
  assumes "buffers csi (unat (sequence csi AND 1)) = None"
  shows "sun4i_csi1_frame_done now csi = None"
proof -
  obtain old seq disabled st where f: "frame_done_locked csi = (old, seq, disabled, st)"
    by (metis prod.collapse)
  have "old = None"
    using fdl_old [of csi] assms by (simp add: f)
  then show ?thesis
    by (simp add: sun4i_csi1_frame_done_def f)
qed

lemma frame_done_old:
  assumes "sun4i_csi1_frame_done now csi = Some csi'"
  obtains b where "buffers csi (unat (sequence csi AND 1)) = Some b"
  using assms frame_done_None [of csi now]
  by (cases "buffers csi (unat (sequence csi AND 1))") simp_all

lemma frame_done_fields:
  assumes "sun4i_csi1_frame_done now csi = Some csi'"
    and "buffers csi (unat (sequence csi AND 1)) = Some b"
  shows "sequence csi' = sequence csi + 1"
    and "buffer_list csi' = tl (buffer_list csi)"
    and "buffers csi' = (buffers csi)(unat (sequence csi AND 1) :=
           (case buffer_list csi of [] \<Rightarrow> None | new # rest \<Rightarrow> Some new))"
    and "bufs csi' = (bufs csi)(b := (bufs csi b)\<lparr>buf_timestamp := now,
           buf_sequence := ucast (sequence csi), buf_state := VB2_BUF_STATE_DONE\<rparr>)"
    and "mmio csi' = mmio (snd (snd (snd (frame_done_locked csi))))"
    and "dummy_dma_addr csi' = dummy_dma_addr csi"
    and "dummy_virtual csi' = dummy_virtual csi"
    and "powered csi' = powered csi"
    and "trace csi' = trace (snd (snd (snd (frame_done_locked csi)))) @
           [KtimeGetNs now, Vb2BufferDone b (ucast (sequence csi)) now VB2_BUF_STATE_DONE]"
proof -
  have c: "csi' = vb2_buffer_done b VB2_BUF_STATE_DONE
       ((emit [KtimeGetNs now] (snd (snd (snd (frame_done_locked csi)))))
          \<lparr>bufs := (bufs csi)(b := (bufs csi b)\<lparr>buf_timestamp := now,
                                                 buf_sequence := ucast (sequence csi)\<rparr>)\<rparr>)"
    using assms frame_done_Some [of csi b now] by simp
  show "sequence csi' = sequence csi + 1"
    and "buffer_list csi' = tl (buffer_list csi)"
    and "buffers csi' = (buffers csi)(unat (sequence csi AND 1) :=
           (case buffer_list csi of [] \<Rightarrow> None | new # rest \<Rightarrow> Some new))"
    and "bufs csi' = (bufs csi)(b := (bufs csi b)\<lparr>buf_timestamp := now,
           buf_sequence := ucast (sequence csi), buf_state := VB2_BUF_STATE_DONE\<rparr>)"
    and "mmio csi' = mmio (snd (snd (snd (frame_done_locked csi))))"
    and "dummy_dma_addr csi' = dummy_dma_addr csi"
    and "dummy_virtual csi' = dummy_virtual csi"
    and "powered csi' = powered csi"
    and "trace csi' = trace (snd (snd (snd (frame_done_locked csi)))) @
           [KtimeGetNs now, Vb2BufferDone b (ucast (sequence csi)) now VB2_BUF_STATE_DONE]"
    by (simp_all add: c fdl_sequence fdl_buffer_list fdl_buffers fdl_unchanged)
qed

lemma delivered_sequences_append:
  "delivered_sequences (xs @ ys) = delivered_sequences xs @ delivered_sequences ys"
  by (induction xs rule: delivered_sequences.induct) simp_all

lemma delivered_sequences_writes: "delivered_sequences (map (case_prod Writel) wv) = []"
  by (induction wv) auto

lemma fdl_events:
  "\<exists>wv. trace (snd (snd (snd (frame_done_locked csi)))) =
     trace csi @ SpinLock # map (case_prod Writel) wv @ [SpinUnlock]"
proof (cases "buffer_list csi")
  case Nil
  let ?d = "dummy_dma_addr csi"
  show ?thesis
  proof (cases "unat (sequence csi AND 1) = 0")
    case True
    with Nil show ?thesis
      by (intro exI [of _ "[(SUN4I_CSI1_ENABLE, mmio csi SUN4I_CSI1_ENABLE AND NOT 1),
            (SUN4I_CSI1_FIFO0_BUFFER_A, ?d 0), (SUN4I_CSI1_FIFO1_BUFFER_A, ?d 1),
            (SUN4I_CSI1_FIFO2_BUFFER_A, ?d 2)]"]) (simp add: fdl_trace Let_def)
  next
    case False
    with Nil show ?thesis
      by (intro exI [of _ "[(SUN4I_CSI1_ENABLE, mmio csi SUN4I_CSI1_ENABLE AND NOT 1),
            (SUN4I_CSI1_FIFO0_BUFFER_B, ?d 0), (SUN4I_CSI1_FIFO1_BUFFER_B, ?d 1),
            (SUN4I_CSI1_FIFO2_BUFFER_B, ?d 2)]"]) (simp add: fdl_trace Let_def)
  qed
next
  case (Cons new rest)
  let ?d = "buf_dma_addr (bufs csi new)"
  show ?thesis
  proof (cases "unat (sequence csi AND 1) = 0")
    case True
    with Cons show ?thesis
      by (intro exI [of _ "[(SUN4I_CSI1_FIFO0_BUFFER_A, ?d 0), (SUN4I_CSI1_FIFO1_BUFFER_A, ?d 1),
            (SUN4I_CSI1_FIFO2_BUFFER_A, ?d 2)]"]) (simp add: fdl_trace Let_def)
  next
    case False
    with Cons show ?thesis
      by (intro exI [of _ "[(SUN4I_CSI1_FIFO0_BUFFER_B, ?d 0), (SUN4I_CSI1_FIFO1_BUFFER_B, ?d 1),
            (SUN4I_CSI1_FIFO2_BUFFER_B, ?d 2)]"]) (simp add: fdl_trace Let_def)
  qed
qed

lemma frame_done_events:
  assumes "sun4i_csi1_frame_done now csi = Some csi'"
    and "buffers csi (unat (sequence csi AND 1)) = Some b"
  shows "\<exists>wv. trace csi' = trace csi @ SpinLock # map (case_prod Writel) wv @
           [SpinUnlock, KtimeGetNs now, Vb2BufferDone b (ucast (sequence csi)) now VB2_BUF_STATE_DONE]"
proof -
  obtain wv where "trace (snd (snd (snd (frame_done_locked csi)))) =
     trace csi @ SpinLock # map (case_prod Writel) wv @ [SpinUnlock]"
    using fdl_events by blast
  then have "trace csi' = trace csi @ SpinLock # map (case_prod Writel) wv @
           [SpinUnlock, KtimeGetNs now, Vb2BufferDone b (ucast (sequence csi)) now VB2_BUF_STATE_DONE]"
    by (simp add: frame_done_fields(9) [OF assms])
  then show ?thesis ..
qed

lemma buffer_queue_fields [simp]:
  "sequence (sun4i_csi1_buffer_queue b csi) = sequence csi"
  "trace (sun4i_csi1_buffer_queue b csi) = trace csi @ [SpinLock, SpinUnlock]"
  "buffer_list (sun4i_csi1_buffer_queue b csi) = buffer_list csi @ [b]"
  "buffers (sun4i_csi1_buffer_queue b csi) = buffers csi"
  "bufs (sun4i_csi1_buffer_queue b csi) = bufs csi"
  "mmio (sun4i_csi1_buffer_queue b csi) = mmio csi"
  "powered (sun4i_csi1_buffer_queue b csi) = powered csi"
  "dummy_dma_addr (sun4i_csi1_buffer_queue b csi) = dummy_dma_addr csi"
  "dummy_virtual (sun4i_csi1_buffer_queue b csi) = dummy_virtual csi"
  by (simp_all add: sun4i_csi1_buffer_queue_def Let_def)

lemma ucast_u64_u32_add: "(ucast ((x::u64) + y) :: u32) = ucast x + ucast y"
proof -
  have "take_bit 32 (take_bit 64 (a + b)) = take_bit 32 (take_bit 64 a + take_bit 64 b)"
    for a b :: int
  proof -
    have "take_bit 32 (take_bit 64 a + take_bit 64 b)
        = take_bit 32 (take_bit 32 (take_bit 64 a) + take_bit 32 (take_bit 64 b))"
      by (simp only: take_bit_add)
    also have "\<dots> = take_bit 32 (take_bit 32 a + take_bit 32 b)"
      by (simp add: take_bit_take_bit)
    also have "\<dots> = take_bit 32 (a + b)"
      by (simp only: take_bit_add)
    finally show ?thesis by (simp add: take_bit_take_bit)
  qed
  then show ?thesis
    by transfer (simp add: take_bit_take_bit)
qed

lemma ucast_u64_u32_of_nat: "(ucast (of_nat n :: u64) :: u32) = of_nat n"
  by transfer simp

lemma run_session_sequences:
  "run_session evs csi = Some csi' \<Longrightarrow>
     \<exists>es. trace csi' = trace csi @ es
       \<and> delivered_sequences es = map (\<lambda>k. ucast (sequence csi) + of_nat k) [0..<frames evs]
       \<and> sequence csi' = sequence csi + of_nat (frames evs)"
proof (induction evs csi rule: run_session.induct)
  case (1 csi)
  then show ?case by simp
next
  case (2 b evs csi)
  then obtain es where "trace csi' = trace (sun4i_csi1_buffer_queue b csi) @ es"
    and "delivered_sequences es = map (\<lambda>k. ucast (sequence csi) + of_nat k) [0..<frames evs]"
    and "sequence csi' = sequence csi + of_nat (frames evs)"
    by auto
  then show ?case
    by (intro exI [of _ "[SpinLock, SpinUnlock] @ es"]) simp
next
  case (3 now evs csi)
  from "3.prems" obtain st where st: "sun4i_csi1_frame_done now csi = Some st"
    and run: "run_session evs st = Some csi'"
    by (auto split: option.splits)
  from st obtain b where b: "buffers csi (unat (sequence csi AND 1)) = Some b"
    by (rule frame_done_old)
  from frame_done_events [OF st b] obtain wv where
    tr: "trace st = trace csi @ SpinLock # map (case_prod Writel) wv @
           [SpinUnlock, KtimeGetNs now, Vb2BufferDone b (ucast (sequence csi)) now VB2_BUF_STATE_DONE]"
    by blast
  have sq: "sequence st = sequence csi + 1"
    by (rule frame_done_fields(1) [OF st b])
  from "3.IH" [OF st run] obtain es where es: "trace csi' = trace st @ es"
    and d: "delivered_sequences es = map (\<lambda>k. ucast (sequence st) + of_nat k) [0..<frames evs]"
    and s: "sequence csi' = sequence st + of_nat (frames evs)"
    by blast
  let ?es = "SpinLock # map (case_prod Writel) wv @
           [SpinUnlock, KtimeGetNs now, Vb2BufferDone b (ucast (sequence csi)) now VB2_BUF_STATE_DONE] @ es"
  have "trace csi' = trace csi @ ?es"
    by (simp add: es tr)
  moreover have "delivered_sequences ?es =
      map (\<lambda>k. ucast (sequence csi) + of_nat k) [0..<frames (FrameDone now # evs)]"
    by (simp add: delivered_sequences_append delivered_sequences_writes d sq
        ucast_u64_u32_add map_upt_Suc add.assoc del: upt_Suc)
  moreover have "sequence csi' = sequence csi + of_nat (frames (FrameDone now # evs))"
    by (simp add: s sq)
  ultimately show ?case by blast
qed

lemma unat_of_nat_u32: "k < 2 ^ 32 \<Longrightarrow> unat (of_nat k :: u32) = k"
  by (simp add: unat_of_nat)

subsection \<open>The dummy buffer and the pending list, step by step\<close>

lemma dummy_alloc_loop_done:
  "\<not> i < n \<Longrightarrow> dummy_alloc_loop alloc n i csi = (i, csi)"
  by (subst dummy_alloc_loop.simps) simp

lemma dummy_alloc_loop_fail:
  "i < n \<Longrightarrow> fst (alloc i) = 0 \<Longrightarrow>
     dummy_alloc_loop alloc n i csi =
       (i, (emit [DmaAllocCoherent (plane_size csi) 0 (snd (alloc i))] csi)
             \<lparr>dummy_virtual := (dummy_virtual csi)(i := 0)\<rparr>)"
  by (subst dummy_alloc_loop.simps, cases "alloc i") (simp add: Let_def)

lemma dummy_alloc_loop_step:
  "i < n \<Longrightarrow> fst (alloc i) \<noteq> 0 \<Longrightarrow>
     dummy_alloc_loop alloc n i csi =
       dummy_alloc_loop alloc n (Suc i)
         ((emit [DmaAllocCoherent (plane_size csi) (fst (alloc i)) (snd (alloc i))] csi)
             \<lparr>dummy_virtual := (dummy_virtual csi)(i := fst (alloc i)),
              dummy_dma_addr := (dummy_dma_addr csi)(i := snd (alloc i))\<rparr>)"
  by (subst dummy_alloc_loop.simps, cases "alloc i") (simp add: Let_def)

lemma buffer_list_clear_Nil:
  "buffer_list csi = [] \<Longrightarrow>
     sun4i_csi1_buffer_list_clear csi = emit [SpinLock, SpinUnlock] csi"
  by (subst sun4i_csi1_buffer_list_clear.simps) (simp add: Let_def emit_def)

lemma buffer_list_clear_Cons:
  "buffer_list csi = b # rest \<Longrightarrow>
     sun4i_csi1_buffer_list_clear csi =
       sun4i_csi1_buffer_list_clear
         (vb2_buffer_done b VB2_BUF_STATE_ERROR
            (emit [SpinLock, SpinUnlock]
               (csi\<lparr>buffer_list := rest,
                     buf_list := (buf_list csi)(b := LIST_HEAD_POISON)\<rparr>)))"
  by (subst sun4i_csi1_buffer_list_clear.simps) (simp add: Let_def emit_def)

subsection \<open>The running example, and the frame-done handler on it (C1, C6)\<close>

lemma csi_probed_fields:
  "plane_count csi_probed = 3"
  "plane_size csi_probed = 0x1FA400"
  "dummy_virtual csi_probed = (\<lambda>_. 0)"
  "dummy_dma_addr csi_probed = (\<lambda>_. 0)"
  "buffer_list csi_probed = []"
  "trace csi_probed = []"
  by (simp_all add: csi_probed_eq csi_kzalloc_def)

lemma free_probed:
  "sun4i_csi1_dummy_buffer_free (csi_probed\<lparr>trace := t\<rparr>) =
     (0, csi_probed\<lparr>trace := t @ [SpinLock, SpinUnlock]\<rparr>)"
  by (simp add: sun4i_csi1_dummy_buffer_free_def csi_probed_fields Let_def emit_def
      upt_3 dummy_free_take_def dummy_free_release_def)

lemma csi_setup_eq:
  "csi_setup = csi_probed\<lparr>
     dummy_virtual := (\<lambda>_. 0)(0 := 0xC0000000, 1 := 0xC0200000, 2 := 0xC0400000),
     dummy_dma_addr := (\<lambda>_. 0)(0 := 0x50000000, 1 := 0x50200000, 2 := 0x50400000),
     trace := [SpinLock, SpinUnlock, SpinLock, SpinUnlock, SpinLock,
       DmaAllocCoherent 0x1FA400 0xC0000000 0x50000000,
       DmaAllocCoherent 0x1FA400 0xC0200000 0x50200000,
       DmaAllocCoherent 0x1FA400 0xC0400000 0x50400000, SpinUnlock]\<rparr>"
  by (simp add: csi_setup_def sun4i_csi1_queue_setup_def sun4i_csi1_dummy_buffer_alloc_def
      buffer_list_clear_Nil csi_probed_fields free_probed Let_def emit_def
      dummy_alloc_loop_step dummy_alloc_loop_done example_alloc_def)
     (simp add: numeral_2_eq_2)

lemma csi_queued_eq:
  "csi_queued = csi_setup\<lparr>buffer_list := [1, 2, 3],
     buf_list := (buf_list csi_setup)
       (1 := LIST_HEAD_LINKED, 2 := LIST_HEAD_LINKED, 3 := LIST_HEAD_LINKED),
     trace := trace csi_setup @ [SpinLock, SpinUnlock, SpinLock, SpinUnlock, SpinLock, SpinUnlock]\<rparr>"
  by (simp add: csi_queued_def sun4i_csi1_buffer_queue_def Let_def emit_def csi_setup_eq
      csi_probed_fields)

lemma csi_queued_fields:
  "buffer_list csi_queued = [1, 2, 3]"
  "buffers csi_queued = (\<lambda>_. None)"
  "sequence csi_queued = 0"
  "powered csi_queued = False"
  "mmio csi_queued = (\<lambda>_. 0)"
  "min_buffers_needed csi_queued = 3"
  "plane_count csi_queued = 3"
  "queue_bufs csi_queued = [1, 2, 3]"
  "bufs csi_queued = (\<lambda>k. if k = 1 \<or> k = 2 \<or> k = 3 then example_buffer k else zero_buffer)"
  "dummy_dma_addr csi_queued = (\<lambda>_. 0)(0 := 0x50000000, 1 := 0x50200000, 2 := 0x50400000)"
  "dummy_virtual csi_queued = (\<lambda>_. 0)(0 := 0xC0000000, 1 := 0xC0200000, 2 := 0xC0400000)"
  by (simp_all add: csi_queued_eq csi_setup_eq csi_probed_eq csi_kzalloc_def)

lemma poweron_ok:
  "sun4i_csi1_poweron power_ok csi =
     (0, sun4i_csi1_mask_spin
           (emit [ClkPrepareEnable Module] (emit [ClkSetRate Module 24000000]
             (emit [ClkPrepareEnable Ram] (emit [ClkPrepareEnable Bus]
               (emit [ResetDeassert] csi)))))
           SUN4I_CSI1_ENABLE 0x01 0x01)"
  by (simp add: sun4i_csi1_poweron_def power_ok_def Let_def)

lemma csi_started_start:
  "sun4i_csi1_streaming_start power_ok csi_queued = Some (0, csi_started)"
proof -
  let ?x = "(snd (sun4i_csi1_poweron power_ok csi_queued))\<lparr>powered := True\<rparr>"
  have "buffer_list ?x = 1 # 2 # [3]"
    by (simp add: poweron_ok csi_queued_fields)
  then obtain csi' where e: "sun4i_csi1_engine_start ?x = Some csi'"
    using engine_start_eq [of ?x 1 2 "[3]"] by blast
  have "fst (sun4i_csi1_poweron power_ok csi_queued) = 0"
    by (simp add: poweron_ok)
  with e have "sun4i_csi1_streaming_start power_ok csi_queued = Some (0, csi')"
    by (cases "sun4i_csi1_poweron power_ok csi_queued")
       (simp add: sun4i_csi1_streaming_start_def)
  then show ?thesis
    by (simp add: csi_started_def)
qed

lemma csi_started_engine:
  "sun4i_csi1_engine_start
      ((snd (sun4i_csi1_poweron power_ok csi_queued))\<lparr>powered := True\<rparr>) = Some csi_started"
  using csi_started_start
  by (cases "sun4i_csi1_poweron power_ok csi_queued")
     (auto simp add: sun4i_csi1_streaming_start_def split: option.splits if_splits)

lemma csi_started_fields:
  "buffer_list csi_started = [3]"
  "buffers csi_started = (\<lambda>_. None)(0 := Some 1, 1 := Some 2)"
  "sequence csi_started = 0"
  "powered csi_started = True"
  "queue_bufs csi_started = [1, 2, 3]"
  "bufs csi_started = (\<lambda>k. if k = 1 \<or> k = 2 \<or> k = 3 then example_buffer k else zero_buffer)"
  "dummy_dma_addr csi_started = (\<lambda>_. 0)(0 := 0x50000000, 1 := 0x50200000, 2 := 0x50400000)"
  "dummy_virtual csi_started = (\<lambda>_. 0)(0 := 0xC0000000, 1 := 0xC0200000, 2 := 0xC0400000)"
  "mmio csi_started SUN4I_CSI1_ENABLE = 1"
  "mmio csi_started SUN4I_CSI1_CAPTURE = 2"
  "map (mmio csi_started) [SUN4I_CSI1_FIFO0_BUFFER_A, SUN4I_CSI1_FIFO1_BUFFER_A,
     SUN4I_CSI1_FIFO2_BUFFER_A] = [0x41000000, 0x41200000, 0x41400000]"
  "map (mmio csi_started) [SUN4I_CSI1_FIFO0_BUFFER_B, SUN4I_CSI1_FIFO1_BUFFER_B,
     SUN4I_CSI1_FIFO2_BUFFER_B] = [0x42000000, 0x42200000, 0x42400000]"
proof -
  let ?x = "(snd (sun4i_csi1_poweron power_ok csi_queued))\<lparr>powered := True\<rparr>"
  have bl: "buffer_list ?x = 1 # 2 # [3]"
    by (simp add: poweron_ok csi_queued_fields)
  note f = engine_start_fields [OF csi_started_engine bl]
  note m = engine_start_mmio [OF csi_started_engine bl]
  show "buffer_list csi_started = [3]"
    "buffers csi_started = (\<lambda>_. None)(0 := Some 1, 1 := Some 2)"
    "sequence csi_started = 0"
    "powered csi_started = True"
    "queue_bufs csi_started = [1, 2, 3]"
    "bufs csi_started = (\<lambda>k. if k = 1 \<or> k = 2 \<or> k = 3 then example_buffer k else zero_buffer)"
    "dummy_dma_addr csi_started = (\<lambda>_. 0)(0 := 0x50000000, 1 := 0x50200000, 2 := 0x50400000)"
    "dummy_virtual csi_started = (\<lambda>_. 0)(0 := 0xC0000000, 1 := 0xC0200000, 2 := 0xC0400000)"
    by (simp_all add: f)
       (simp_all add: poweron_ok csi_queued_fields)
  show "mmio csi_started SUN4I_CSI1_ENABLE = 1"
    "mmio csi_started SUN4I_CSI1_CAPTURE = 2"
    "map (mmio csi_started) [SUN4I_CSI1_FIFO0_BUFFER_A, SUN4I_CSI1_FIFO1_BUFFER_A,
       SUN4I_CSI1_FIFO2_BUFFER_A] = [0x41000000, 0x41200000, 0x41400000]"
    "map (mmio csi_started) [SUN4I_CSI1_FIFO0_BUFFER_B, SUN4I_CSI1_FIFO1_BUFFER_B,
       SUN4I_CSI1_FIFO2_BUFFER_B] = [0x42000000, 0x42200000, 0x42400000]"
    by (simp_all add: m)
       (simp_all add: poweron_ok csi_queued_fields mmio_mask_spin example_buffer_def
        register_defs)
qed

lemma fdl_collapse:
  "frame_done_locked csi =
     (fst (frame_done_locked csi), fst (snd (frame_done_locked csi)),
      fst (snd (snd (frame_done_locked csi))), snd (snd (snd (frame_done_locked csi))))"
  by simp

lemma csi_irq1_done: "sun4i_csi1_frame_done 1000 csi_started = Some csi_irq1"
proof -
  have "buffers csi_started (unat (sequence csi_started AND 1)) = Some 1"
    by (simp add: csi_started_fields)
  then show ?thesis
    by (simp add: csi_irq1_def frame_done_Some)
qed

lemma csi_irq1_fields:
  "buffer_list csi_irq1 = []"
  "buffers csi_irq1 0 = Some 3"
  "buffers csi_irq1 1 = Some 2"
  "sequence csi_irq1 = 1"
  "powered csi_irq1 = True"
  "dummy_dma_addr csi_irq1 = (\<lambda>_. 0)(0 := 0x50000000, 1 := 0x50200000, 2 := 0x50400000)"
  "mmio csi_irq1 SUN4I_CSI1_ENABLE = 1"
  "mmio csi_irq1 SUN4I_CSI1_CAPTURE = 2"
  "map (mmio csi_irq1) [SUN4I_CSI1_FIFO0_BUFFER_A, SUN4I_CSI1_FIFO1_BUFFER_A,
     SUN4I_CSI1_FIFO2_BUFFER_A] = [0x43000000, 0x43200000, 0x43400000]"
  "map (mmio csi_irq1) [SUN4I_CSI1_FIFO0_BUFFER_B, SUN4I_CSI1_FIFO1_BUFFER_B,
     SUN4I_CSI1_FIFO2_BUFFER_B] = [0x42000000, 0x42200000, 0x42400000]"
  "buf_state (bufs csi_irq1 1) = VB2_BUF_STATE_DONE"
  "buf_sequence (bufs csi_irq1 1) = 0"
  "buf_timestamp (bufs csi_irq1 1) = 1000"
  "buf_state (bufs csi_irq1 2) = VB2_BUF_STATE_ACTIVE"
  "buf_state (bufs csi_irq1 3) = VB2_BUF_STATE_ACTIVE"
proof -
  have b: "buffers csi_started (unat (sequence csi_started AND 1)) = Some 1"
    by (simp add: csi_started_fields)
  note f = frame_done_fields [OF csi_irq1_done b]
  have m: "mmio csi_irq1 = (mmio csi_started)(SUN4I_CSI1_FIFO0_BUFFER_A := 0x43000000,
      SUN4I_CSI1_FIFO1_BUFFER_A := 0x43200000, SUN4I_CSI1_FIFO2_BUFFER_A := 0x43400000)"
    by (simp add: f(5) fdl_mmio csi_started_fields Let_def example_buffer_def)
  show "buffer_list csi_irq1 = []"
    "buffers csi_irq1 0 = Some 3"
    "buffers csi_irq1 1 = Some 2"
    "sequence csi_irq1 = 1"
    "powered csi_irq1 = True"
    "dummy_dma_addr csi_irq1 = (\<lambda>_. 0)(0 := 0x50000000, 1 := 0x50200000, 2 := 0x50400000)"
    "buf_state (bufs csi_irq1 1) = VB2_BUF_STATE_DONE"
    "buf_sequence (bufs csi_irq1 1) = 0"
    "buf_timestamp (bufs csi_irq1 1) = 1000"
    "buf_state (bufs csi_irq1 2) = VB2_BUF_STATE_ACTIVE"
    "buf_state (bufs csi_irq1 3) = VB2_BUF_STATE_ACTIVE"
    by (simp_all add: f csi_started_fields example_buffer_def)
  show "mmio csi_irq1 SUN4I_CSI1_ENABLE = 1"
    "mmio csi_irq1 SUN4I_CSI1_CAPTURE = 2"
    using csi_started_fields(9,10) by (simp_all add: m register_defs)
  show "map (mmio csi_irq1) [SUN4I_CSI1_FIFO0_BUFFER_A, SUN4I_CSI1_FIFO1_BUFFER_A,
     SUN4I_CSI1_FIFO2_BUFFER_A] = [0x43000000, 0x43200000, 0x43400000]"
    by (simp add: m register_defs)
  show "map (mmio csi_irq1) [SUN4I_CSI1_FIFO0_BUFFER_B, SUN4I_CSI1_FIFO1_BUFFER_B,
     SUN4I_CSI1_FIFO2_BUFFER_B] = [0x42000000, 0x42200000, 0x42400000]"
    using csi_started_fields(12) by (simp add: m register_defs)
qed

lemma csi_irq2_done: "sun4i_csi1_frame_done 2000 csi_irq1 = Some csi_irq2"
proof -
  have "buffers csi_irq1 (unat (sequence csi_irq1 AND 1)) = Some 2"
    using csi_irq1_fields(2,3,4) by simp
  then show ?thesis
    by (simp add: csi_irq2_def frame_done_Some)
qed

lemma csi_irq2_fields:
  "buffer_list csi_irq2 = []"
  "buffers csi_irq2 0 = Some 3"
  "buffers csi_irq2 1 = None"
  "sequence csi_irq2 = 2"
  "mmio csi_irq2 SUN4I_CSI1_ENABLE = 0"
  "mmio csi_irq2 SUN4I_CSI1_CAPTURE = 2"
  "map (mmio csi_irq2) [SUN4I_CSI1_FIFO0_BUFFER_B, SUN4I_CSI1_FIFO1_BUFFER_B,
     SUN4I_CSI1_FIFO2_BUFFER_B] = [0x50000000, 0x50200000, 0x50400000]"
  "buf_state (bufs csi_irq2 2) = VB2_BUF_STATE_DONE"
  "buf_sequence (bufs csi_irq2 2) = 1"
  "buf_timestamp (bufs csi_irq2 2) = 2000"
  "buf_state (bufs csi_irq2 3) = VB2_BUF_STATE_ACTIVE"
proof -
  have b: "buffers csi_irq1 (unat (sequence csi_irq1 AND 1)) = Some 2"
    using csi_irq1_fields(2,3,4) by simp
  note f = frame_done_fields [OF csi_irq2_done b]
  have m: "mmio csi_irq2 = (mmio csi_irq1)(SUN4I_CSI1_ENABLE := 0,
      SUN4I_CSI1_FIFO0_BUFFER_B := 0x50000000,
      SUN4I_CSI1_FIFO1_BUFFER_B := 0x50200000, SUN4I_CSI1_FIFO2_BUFFER_B := 0x50400000)"
    by (simp add: f(5) fdl_mmio csi_irq1_fields Let_def)
  show "buffer_list csi_irq2 = []"
    "buffers csi_irq2 0 = Some 3"
    "buffers csi_irq2 1 = None"
    "sequence csi_irq2 = 2"
    "buf_state (bufs csi_irq2 2) = VB2_BUF_STATE_DONE"
    "buf_sequence (bufs csi_irq2 2) = 1"
    "buf_timestamp (bufs csi_irq2 2) = 2000"
    "buf_state (bufs csi_irq2 3) = VB2_BUF_STATE_ACTIVE"
    by (simp_all add: f csi_irq1_fields)
  show "mmio csi_irq2 SUN4I_CSI1_ENABLE = 0"
    by (simp add: m register_defs)
  show "mmio csi_irq2 SUN4I_CSI1_CAPTURE = 2"
    using csi_irq1_fields(8) by (simp add: m register_defs)
  show "map (mmio csi_irq2) [SUN4I_CSI1_FIFO0_BUFFER_B, SUN4I_CSI1_FIFO1_BUFFER_B,
     SUN4I_CSI1_FIFO2_BUFFER_B] = [0x50000000, 0x50200000, 0x50400000]"
    by (simp add: m register_defs)
qed

theorem scratch_installed_iff_queue_empty_witness:
  "fst (snd (snd (frame_done_locked csi_irq1))) = True
   \<and> buffers (snd (snd (snd (frame_done_locked csi_irq1)))) 1 = None
   \<and> map (mmio (snd (snd (snd (frame_done_locked csi_irq1)))))
         [SUN4I_CSI1_FIFO0_BUFFER_B, SUN4I_CSI1_FIFO1_BUFFER_B, SUN4I_CSI1_FIFO2_BUFFER_B]
       = [0x50000000, 0x50200000, 0x50400000]
   \<and> mmio (snd (snd (snd (frame_done_locked csi_irq1)))) SUN4I_CSI1_ENABLE = 0
   \<and> mmio (snd (snd (snd (frame_done_locked csi_irq1)))) SUN4I_CSI1_CAPTURE = 2
   \<and> fst (snd (snd (frame_done_locked csi_started))) = False
   \<and> buffers (snd (snd (snd (frame_done_locked csi_started)))) 0 = Some 3
   \<and> map (mmio (snd (snd (snd (frame_done_locked csi_started)))))
         [SUN4I_CSI1_FIFO0_BUFFER_A, SUN4I_CSI1_FIFO1_BUFFER_A, SUN4I_CSI1_FIFO2_BUFFER_A]
       = [0x43000000, 0x43200000, 0x43400000]
   \<and> mmio (snd (snd (snd (frame_done_locked csi_started)))) SUN4I_CSI1_ENABLE = 1"
proof -
  note a = scratch_installed_iff_queue_empty [OF fdl_collapse [of csi_irq1] refl refl]
  note b = scratch_installed_iff_queue_empty [OF fdl_collapse [of csi_started] refl refl]
  have c: "mmio (snd (snd (snd (frame_done_locked csi_irq1)))) SUN4I_CSI1_CAPTURE
      = mmio csi_irq1 SUN4I_CSI1_CAPTURE"
    using a csi_irq1_fields(4) by (simp add: register_defs)
  show ?thesis
    using a b c csi_irq1_fields csi_started_fields
    by (simp add: example_buffer_def)
qed

text \<open>
  The claim C1 says that the starved swap clears the capture-enable bit. That bit is
  bit 1 of \<^verbatim>\<open>SUN4I_CSI1_CAPTURE\<close>, which \<^verbatim>\<open>sun4i_csi1_engine_start\<close> sets last
  (line 862) and \<^verbatim>\<open>sun4i_csi1_engine_stop\<close> clears (line 869). In the running example
  the second frame finds the pending list empty and installs the dummy buffer in slot
  1; the capture register holds 2 before and after, bit 1 still set. What the handler
  clears is bit 0 of \<^verbatim>\<open>SUN4I_CSI1_ENABLE\<close>.
\<close>

theorem starved_swap_keeps_capture_enabled:
  "mmio csi_started SUN4I_CSI1_CAPTURE = 2
   \<and> buffer_list csi_irq1 = []
   \<and> mmio csi_irq1 SUN4I_CSI1_CAPTURE = 2
   \<and> sun4i_csi1_frame_done 2000 csi_irq1 = Some csi_irq2
   \<and> buffers csi_irq2 1 = None
   \<and> mmio csi_irq2 SUN4I_CSI1_CAPTURE = 2
   \<and> bit (mmio csi_irq2 SUN4I_CSI1_CAPTURE) 1
   \<and> mmio csi_irq2 SUN4I_CSI1_ENABLE = 0"
proof -
  have b: "bit (mmio csi_irq2 SUN4I_CSI1_CAPTURE) 1"
    by (simp add: csi_irq2_fields(6))
  show ?thesis
    by (rule conjI [OF csi_started_fields(10) conjI [OF csi_irq1_fields(1)
          conjI [OF csi_irq1_fields(8) conjI [OF csi_irq2_done conjI [OF csi_irq2_fields(3)
          conjI [OF csi_irq2_fields(6) conjI [OF b csi_irq2_fields(5)]]]]]]])
qed

theorem slot_index_is_sequence_parity_witness:
  "fst (frame_done_locked csi_started) = Some 1
   \<and> buffers (snd (snd (snd (frame_done_locked csi_started)))) 1 = Some 2
   \<and> written_registers (events_since csi_started (snd (snd (snd (frame_done_locked csi_started)))))
       = [SUN4I_CSI1_FIFO0_BUFFER_A, SUN4I_CSI1_FIFO1_BUFFER_A, SUN4I_CSI1_FIFO2_BUFFER_A]
   \<and> fst (frame_done_locked csi_irq1) = Some 2
   \<and> buffers (snd (snd (snd (frame_done_locked csi_irq1)))) 0 = Some 3
   \<and> written_registers (events_since csi_irq1 (snd (snd (snd (frame_done_locked csi_irq1)))))
       = [SUN4I_CSI1_ENABLE, SUN4I_CSI1_FIFO0_BUFFER_B, SUN4I_CSI1_FIFO1_BUFFER_B,
          SUN4I_CSI1_FIFO2_BUFFER_B]"
proof -
  note a = slot_index_is_sequence_parity [OF fdl_collapse [of csi_started] refl]
  note b = slot_index_is_sequence_parity [OF fdl_collapse [of csi_irq1] refl]
  show ?thesis
    using a b csi_irq1_fields csi_started_fields
    by simp
qed

subsection \<open>Starting to stream (C8)\<close>

lemma poweron_frame [simp]:
  "powered (snd (sun4i_csi1_poweron env csi)) = powered csi"
  "stored_format (snd (sun4i_csi1_poweron env csi)) = stored_format csi"
  "queue_bufs (snd (sun4i_csi1_poweron env csi)) = queue_bufs csi"
  "min_buffers_needed (snd (sun4i_csi1_poweron env csi)) = min_buffers_needed csi"
  "plane_count (snd (sun4i_csi1_poweron env csi)) = plane_count csi"
  "plane_size (snd (sun4i_csi1_poweron env csi)) = plane_size csi"
  "width (snd (sun4i_csi1_poweron env csi)) = width csi"
  "height (snd (sun4i_csi1_poweron env csi)) = height csi"
  "hdisplay_start (snd (sun4i_csi1_poweron env csi)) = hdisplay_start csi"
  "vdisplay_start (snd (sun4i_csi1_poweron env csi)) = vdisplay_start csi"
  "hsync_polarity (snd (sun4i_csi1_poweron env csi)) = hsync_polarity csi"
  "vsync_polarity (snd (sun4i_csi1_poweron env csi)) = vsync_polarity csi"
  "buffer_list (snd (sun4i_csi1_poweron env csi)) = buffer_list csi"
  "buffers (snd (sun4i_csi1_poweron env csi)) = buffers csi"
  "sequence (snd (sun4i_csi1_poweron env csi)) = sequence csi"
  "dummy_virtual (snd (sun4i_csi1_poweron env csi)) = dummy_virtual csi"
  "dummy_dma_addr (snd (sun4i_csi1_poweron env csi)) = dummy_dma_addr csi"
  "bufs (snd (sun4i_csi1_poweron env csi)) = bufs csi"
  "buf_list (snd (sun4i_csi1_poweron env csi)) = buf_list csi"
  by (simp_all add: sun4i_csi1_poweron_def Let_def)

lemma mmio_poweron_ok:
  "fst (sun4i_csi1_poweron env csi) = 0 \<Longrightarrow>
     mmio (snd (sun4i_csi1_poweron env csi)) =
       (mmio csi)(SUN4I_CSI1_ENABLE := 1 OR (mmio csi SUN4I_CSI1_ENABLE AND NOT 1))"
  by (simp add: sun4i_csi1_poweron_def Let_def mmio_mask_spin split: if_splits)

lemma queue_initialize_min:
  "min_buffers_needed (snd (sun4i_csi1_vb2_queue_initialize r csi)) = 3"
  by (simp add: sun4i_csi1_vb2_queue_initialize_def Let_def)

lemma streaming_start_ok:
  assumes "sun4i_csi1_streaming_start env csi = Some (0, csi')"
  shows "fst (sun4i_csi1_poweron env csi) = 0
    \<and> sun4i_csi1_engine_start ((snd (sun4i_csi1_poweron env csi))\<lparr>powered := True\<rparr>) = Some csi'"
  using assms
  by (cases "sun4i_csi1_poweron env csi")
     (auto simp add: sun4i_csi1_streaming_start_def split: if_splits option.splits)

lemma streaming_start_total:
  assumes "fst (sun4i_csi1_poweron env csi) = 0" and "buffer_list csi = b0 # b1 # rest"
  shows "\<exists>csi'. sun4i_csi1_streaming_start env csi = Some (0, csi')"
proof -
  let ?x = "(snd (sun4i_csi1_poweron env csi))\<lparr>powered := True\<rparr>"
  have "buffer_list ?x = b0 # b1 # rest"
    by (simp add: assms(2))
  then obtain csi' where "sun4i_csi1_engine_start ?x = Some csi'"
    using engine_start_eq [of ?x b0 b1 rest] by blast
  with assms(1) show ?thesis
    by (cases "sun4i_csi1_poweron env csi") (simp add: sun4i_csi1_streaming_start_def)
qed

text \<open>
  C8. The queue is initialised with \<open>min_buffers_needed = 3\<close>. With fewer buffers
  pending than that, \<open>start_streaming\<close> fails with InsufficientBuffers and the driver
  object is what it was (\<open>powered\<close> unchanged: Stopped). With at least three pending
  and the power sequence succeeding, it succeeds; and whenever it succeeds the first
  pending buffer is in slot A (\<open>buffers 0\<close>, registers FIFO0/1/2\_BUFFER\_A), the
  second in slot B (\<open>buffers 1\<close>, registers FIFO0/1/2\_BUFFER\_B), the others stay
  pending in their order, at least one of them, and \<open>powered\<close> is set.
\<close>

theorem start_streaming_needs_three_buffers:
  assumes "min_buffers_needed csi = 3"
  shows "min_buffers_needed (snd (sun4i_csi1_vb2_queue_initialize r c)) = 3
    \<and> (length (buffer_list csi) < 3 \<longrightarrow>
          start_streaming env csi = Some (Inl InsufficientBuffers, csi))
    \<and> (3 \<le> length (buffer_list csi) \<and> fst (sun4i_csi1_poweron env csi) = 0 \<longrightarrow>
          (\<exists>csi'. start_streaming env csi = Some (Inr 0, csi')))
    \<and> (\<forall>csi'. start_streaming env csi = Some (Inr 0, csi') \<longrightarrow>
          (\<exists>b0 b1 rest. buffer_list csi = b0 # b1 # rest \<and> rest \<noteq> []
             \<and> buffers csi' 0 = Some b0 \<and> buffers csi' 1 = Some b1
             \<and> buffer_list csi' = rest
             \<and> map (mmio csi') [SUN4I_CSI1_FIFO0_BUFFER_A, SUN4I_CSI1_FIFO1_BUFFER_A,
                   SUN4I_CSI1_FIFO2_BUFFER_A] = map (buf_dma_addr (bufs csi b0)) [0, 1, 2]
             \<and> map (mmio csi') [SUN4I_CSI1_FIFO0_BUFFER_B, SUN4I_CSI1_FIFO1_BUFFER_B,
                   SUN4I_CSI1_FIFO2_BUFFER_B] = map (buf_dma_addr (bufs csi b1)) [0, 1, 2]
             \<and> powered csi'))"
proof -
  note m = assms
  have 1: "length (buffer_list csi) < 3 \<longrightarrow>
          start_streaming env csi = Some (Inl InsufficientBuffers, csi)"
    by (simp add: start_streaming_def m)
  have 2: "3 \<le> length (buffer_list csi) \<and> fst (sun4i_csi1_poweron env csi) = 0 \<longrightarrow>
          (\<exists>csi'. start_streaming env csi = Some (Inr 0, csi'))"
  proof
    assume a: "3 \<le> length (buffer_list csi) \<and> fst (sun4i_csi1_poweron env csi) = 0"
    then obtain b0 b1 b2 rest where "buffer_list csi = b0 # b1 # b2 # rest"
      by (cases "buffer_list csi"; cases "tl (buffer_list csi)";
          cases "tl (tl (buffer_list csi))") auto
    with a obtain csi' where "sun4i_csi1_streaming_start env csi = Some (0, csi')"
      using streaming_start_total [of env csi b0 b1 "b2 # rest"] by blast
    with a show "\<exists>csi'. start_streaming env csi = Some (Inr 0, csi')"
      by (simp add: start_streaming_def m)
  qed
  have 3: "\<forall>csi'. start_streaming env csi = Some (Inr 0, csi') \<longrightarrow>
          (\<exists>b0 b1 rest. buffer_list csi = b0 # b1 # rest \<and> rest \<noteq> []
             \<and> buffers csi' 0 = Some b0 \<and> buffers csi' 1 = Some b1
             \<and> buffer_list csi' = rest
             \<and> map (mmio csi') [SUN4I_CSI1_FIFO0_BUFFER_A, SUN4I_CSI1_FIFO1_BUFFER_A,
                   SUN4I_CSI1_FIFO2_BUFFER_A] = map (buf_dma_addr (bufs csi b0)) [0, 1, 2]
             \<and> map (mmio csi') [SUN4I_CSI1_FIFO0_BUFFER_B, SUN4I_CSI1_FIFO1_BUFFER_B,
                   SUN4I_CSI1_FIFO2_BUFFER_B] = map (buf_dma_addr (bufs csi b1)) [0, 1, 2]
             \<and> powered csi')"
  proof (intro allI impI)
    fix csi'
    assume s: "start_streaming env csi = Some (Inr 0, csi')"
    then have len: "3 \<le> length (buffer_list csi)"
      by (simp add: start_streaming_def m split: if_splits)
    from s have "sun4i_csi1_streaming_start env csi = Some (0, csi')"
      by (auto simp add: start_streaming_def m split: if_splits)
    then have e: "sun4i_csi1_engine_start
        ((snd (sun4i_csi1_poweron env csi))\<lparr>powered := True\<rparr>) = Some csi'"
      using streaming_start_ok by blast
    let ?x = "(snd (sun4i_csi1_poweron env csi))\<lparr>powered := True\<rparr>"
    from len obtain b0 b1 b2 rest where bl: "buffer_list csi = b0 # b1 # b2 # rest"
      by (cases "buffer_list csi"; cases "tl (buffer_list csi)";
          cases "tl (tl (buffer_list csi))") auto
    then have bx: "buffer_list ?x = b0 # b1 # (b2 # rest)"
      by simp
    note f = engine_start_fields [OF e bx]
    note g = engine_start_mmio [OF e bx]
    have "buffers csi' 0 = Some b0" "buffers csi' 1 = Some b1"
      "buffer_list csi' = b2 # rest" "powered csi'"
      by (simp_all add: f)
    moreover have "map (mmio csi') [SUN4I_CSI1_FIFO0_BUFFER_A, SUN4I_CSI1_FIFO1_BUFFER_A,
                   SUN4I_CSI1_FIFO2_BUFFER_A] = map (buf_dma_addr (bufs csi b0)) [0, 1, 2]"
      "map (mmio csi') [SUN4I_CSI1_FIFO0_BUFFER_B, SUN4I_CSI1_FIFO1_BUFFER_B,
                   SUN4I_CSI1_FIFO2_BUFFER_B] = map (buf_dma_addr (bufs csi b1)) [0, 1, 2]"
      by (simp_all add: g)
    ultimately show "\<exists>b0 b1 rest. buffer_list csi = b0 # b1 # rest \<and> rest \<noteq> []
             \<and> buffers csi' 0 = Some b0 \<and> buffers csi' 1 = Some b1
             \<and> buffer_list csi' = rest
             \<and> map (mmio csi') [SUN4I_CSI1_FIFO0_BUFFER_A, SUN4I_CSI1_FIFO1_BUFFER_A,
                   SUN4I_CSI1_FIFO2_BUFFER_A] = map (buf_dma_addr (bufs csi b0)) [0, 1, 2]
             \<and> map (mmio csi') [SUN4I_CSI1_FIFO0_BUFFER_B, SUN4I_CSI1_FIFO1_BUFFER_B,
                   SUN4I_CSI1_FIFO2_BUFFER_B] = map (buf_dma_addr (bufs csi b1)) [0, 1, 2]
             \<and> powered csi'"
      using bl by blast
  qed
  show ?thesis
    by (rule conjI [OF queue_initialize_min conjI [OF 1 conjI [OF 2 3]]])
qed

lemma csi_two_queued:
  "buffer_list (fold sun4i_csi1_buffer_queue [1, 2] csi_setup) = [1, 2]"
  "min_buffers_needed (fold sun4i_csi1_buffer_queue [1, 2] csi_setup) = 3"
  by (simp_all add: sun4i_csi1_buffer_queue_def Let_def csi_setup_eq csi_probed_eq
      csi_kzalloc_def)

theorem start_streaming_needs_three_buffers_witness:
  "min_buffers_needed csi_queued = 3
   \<and> start_streaming power_ok csi_queued = Some (Inr 0, csi_started)
   \<and> buffers csi_started 0 = Some 1
   \<and> buffers csi_started 1 = Some 2
   \<and> buffer_list csi_started = [3]
   \<and> powered csi_started
   \<and> start_streaming power_ok (fold sun4i_csi1_buffer_queue [1, 2] csi_setup)
       = Some (Inl InsufficientBuffers, fold sun4i_csi1_buffer_queue [1, 2] csi_setup)"
proof -
  let ?two = "fold sun4i_csi1_buffer_queue [1, 2] csi_setup"
  note a = start_streaming_needs_three_buffers [OF csi_queued_fields(6), of 0 csi_kzalloc power_ok]
  note b = start_streaming_needs_three_buffers [OF csi_two_queued(2), of 0 csi_kzalloc power_ok]
  have "length (buffer_list ?two) < 3"
    by (simp only: csi_two_queued) simp
  with b have 1: "start_streaming power_ok ?two = Some (Inl InsufficientBuffers, ?two)"
    by blast
  have "3 \<le> length (buffer_list csi_queued) \<and> fst (sun4i_csi1_poweron power_ok csi_queued) = 0"
    by (simp add: csi_queued_fields poweron_ok)
  with a obtain csi' where "start_streaming power_ok csi_queued = Some (Inr 0, csi')"
    by blast
  then have 2: "start_streaming power_ok csi_queued = Some (Inr 0, csi_started)"
    by (auto simp add: start_streaming_def csi_started_start split: if_splits)
  from 1 2 show ?thesis
    using csi_started_fields(1-4) csi_queued_fields(6) by simp
qed

subsection \<open>Format negotiation (C9)\<close>

lemma format_initialize_consistent:
  "format_consistent (sun4i_csi1_format_initialize csi w h hs vs)"
  by (simp add: format_consistent_def format_initialize_eq upt_3 Let_def)

lemma csi_probed_consistent: "format_consistent csi_probed"
  by (simp add: csi_probed_def sun4i_csi1_vb2_queue_initialize_def Let_def
      format_consistent_def format_initialize_eq upt_3)

lemma list_ex_upt_cong:
  "(\<And>i. i < n \<Longrightarrow> P i = Q i) \<Longrightarrow> list_ex P [0..<n] = list_ex Q [0..<n]"
  by (simp add: list_ex_iff)

lemma format_test_differs:
  assumes "format_consistent csi"
  shows "sun4i_csi1_format_test csi f =
     (if format_differs (stored_format csi) f then - EINVAL else 0)"
proof -
  let ?p = "pix_mp (stored_format csi)"
  from assms have w: "pix_width ?p = width csi" and h: "pix_height ?p = height csi"
    and n: "uint (num_planes ?p) = int (plane_count csi)"
    and pl: "\<And>i. i < plane_count csi \<Longrightarrow>
          bytesperline (plane_fmt ?p i) = width csi \<and> sizeimage (plane_fmt ?p i) = plane_size csi"
    by (simp_all add: format_consistent_def Let_def list_all_iff)
  from n have un: "unat (num_planes ?p) = plane_count csi"
    by (simp add: unat_eq_nat_uint)
  have np: "(int (plane_count csi) \<noteq> uint (num_planes (pix_mp f)))
      = (num_planes ?p \<noteq> num_planes (pix_mp f))"
    using n by (metis word_uint_eqI)
  have ex: "list_ex (\<lambda>i. width csi \<noteq> bytesperline (plane_fmt (pix_mp f) i)
                               \<or> plane_size csi \<noteq> sizeimage (plane_fmt (pix_mp f) i))
              [0..<plane_count csi]
      = list_ex (\<lambda>i. bytesperline (plane_fmt ?p i) \<noteq> bytesperline (plane_fmt (pix_mp f) i)
                          \<or> sizeimage (plane_fmt ?p i) \<noteq> sizeimage (plane_fmt (pix_mp f) i))
              [0..<plane_count csi]"
    by (rule list_ex_upt_cong) (simp add: pl)
  show ?thesis
    unfolding sun4i_csi1_format_test_def format_differs_def Let_def np ex un
    by (simp add: w h EINVAL_def)
qed

text \<open>
  C9. On a driver object whose stored format is the one
  \<^verbatim>\<open>sun4i_csi1_format_initialize\<close> set up, a requested format that differs from it in
  type, width, height, plane count, bytes per line or size of one of its planes, pixel
  format, field, colorspace, quantization or transfer function makes
  \<^verbatim>\<open>sun4i_csi1_ioctl_format_set\<close> return \<^verbatim>\<open>-EINVAL\<close>, which is not 0, and the driver
  object, the stored format included, is as it was. (A format that differs in none of
  these is accepted with 0, equally without a change.)
\<close>

theorem format_mismatch_rejected:
  assumes "format_consistent csi"
  shows "(format_differs (stored_format csi) f \<longrightarrow>
            sun4i_csi1_ioctl_format_set csi f = (- EINVAL, csi))
    \<and> (\<not> format_differs (stored_format csi) f \<longrightarrow>
            sun4i_csi1_ioctl_format_set csi f = (0, csi))
    \<and> - EINVAL \<noteq> 0
    \<and> snd (sun4i_csi1_ioctl_format_set csi f) = csi"
  by (simp add: sun4i_csi1_ioctl_format_set_def format_test_differs [OF assms] EINVAL_def)

theorem format_mismatch_rejected_witness:
  "sun4i_csi1_ioctl_format_set csi_probed request_1280 = (- 22, csi_probed)
   \<and> sun4i_csi1_ioctl_format_set csi_probed request_short_plane = (- 22, csi_probed)
   \<and> sun4i_csi1_ioctl_format_set csi_probed (stored_format csi_probed) = (0, csi_probed)"
proof -
  have 1: "format_differs (stored_format csi_probed) request_1280"
    by (simp add: format_differs_def request_1280_def csi_probed_eq Let_def)
  have 2: "format_differs (stored_format csi_probed) request_short_plane"
    by (simp add: format_differs_def request_short_plane_def csi_probed_eq Let_def upt_3)
  have 3: "\<not> format_differs (stored_format csi_probed) (stored_format csi_probed)"
    by (simp add: format_differs_def Let_def list_ex_iff)
  show ?thesis
    using format_mismatch_rejected [OF csi_probed_consistent, of request_1280]
      format_mismatch_rejected [OF csi_probed_consistent, of request_short_plane]
      format_mismatch_rejected [OF csi_probed_consistent, of "stored_format csi_probed"]
      1 2 3
    by (simp add: EINVAL_def)
qed

subsection \<open>The dummy buffer (C7)\<close>

lemma freed_append: "freed (xs @ ys) = freed xs @ freed ys"
  by (induction xs rule: freed.induct) simp_all

lemma allocated_append: "allocated (xs @ ys) = allocated xs @ allocated ys"
  by (induction xs rule: allocated.induct) simp_all

lemma free_take_frame [simp]:
  "mmio (fst (dummy_free_take i st)) = mmio (fst st)"
  "powered (fst (dummy_free_take i st)) = powered (fst st)"
  "stored_format (fst (dummy_free_take i st)) = stored_format (fst st)"
  "queue_bufs (fst (dummy_free_take i st)) = queue_bufs (fst st)"
  "min_buffers_needed (fst (dummy_free_take i st)) = min_buffers_needed (fst st)"
  "plane_count (fst (dummy_free_take i st)) = plane_count (fst st)"
  "plane_size (fst (dummy_free_take i st)) = plane_size (fst st)"
  "width (fst (dummy_free_take i st)) = width (fst st)"
  "height (fst (dummy_free_take i st)) = height (fst st)"
  "hdisplay_start (fst (dummy_free_take i st)) = hdisplay_start (fst st)"
  "vdisplay_start (fst (dummy_free_take i st)) = vdisplay_start (fst st)"
  "hsync_polarity (fst (dummy_free_take i st)) = hsync_polarity (fst st)"
  "vsync_polarity (fst (dummy_free_take i st)) = vsync_polarity (fst st)"
  "buffer_list (fst (dummy_free_take i st)) = buffer_list (fst st)"
  "buffers (fst (dummy_free_take i st)) = buffers (fst st)"
  "sequence (fst (dummy_free_take i st)) = sequence (fst st)"
  "bufs (fst (dummy_free_take i st)) = bufs (fst st)"
  "buf_list (fst (dummy_free_take i st)) = buf_list (fst st)"
  "trace (fst (dummy_free_take i st)) = trace (fst st)"
  by (simp_all add: dummy_free_take_def split: prod.split)

lemma free_take_dummy:
  "dummy_virtual (fst (dummy_free_take i st)) = (dummy_virtual (fst st))(i := 0)"
  "dummy_dma_addr (fst (dummy_free_take i st)) =
     (if dummy_virtual (fst st) i \<noteq> 0 then (dummy_dma_addr (fst st))(i := 0)
      else dummy_dma_addr (fst st))"
  "fst (snd (dummy_free_take i st)) =
     (if dummy_virtual (fst st) i \<noteq> 0 then (fst (snd st))(i := dummy_virtual (fst st) i)
      else fst (snd st))"
  "snd (snd (dummy_free_take i st)) =
     (if dummy_virtual (fst st) i \<noteq> 0 then (snd (snd st))(i := dummy_dma_addr (fst st) i)
      else snd (snd st))"
  by (auto simp add: dummy_free_take_def split: prod.split)

lemma free_take_fold_frame [simp]:
  "mmio (fst (fold dummy_free_take [0..<n] st)) = mmio (fst st)"
  "powered (fst (fold dummy_free_take [0..<n] st)) = powered (fst st)"
  "stored_format (fst (fold dummy_free_take [0..<n] st)) = stored_format (fst st)"
  "queue_bufs (fst (fold dummy_free_take [0..<n] st)) = queue_bufs (fst st)"
  "min_buffers_needed (fst (fold dummy_free_take [0..<n] st)) = min_buffers_needed (fst st)"
  "plane_count (fst (fold dummy_free_take [0..<n] st)) = plane_count (fst st)"
  "plane_size (fst (fold dummy_free_take [0..<n] st)) = plane_size (fst st)"
  "width (fst (fold dummy_free_take [0..<n] st)) = width (fst st)"
  "height (fst (fold dummy_free_take [0..<n] st)) = height (fst st)"
  "hdisplay_start (fst (fold dummy_free_take [0..<n] st)) = hdisplay_start (fst st)"
  "vdisplay_start (fst (fold dummy_free_take [0..<n] st)) = vdisplay_start (fst st)"
  "hsync_polarity (fst (fold dummy_free_take [0..<n] st)) = hsync_polarity (fst st)"
  "vsync_polarity (fst (fold dummy_free_take [0..<n] st)) = vsync_polarity (fst st)"
  "buffer_list (fst (fold dummy_free_take [0..<n] st)) = buffer_list (fst st)"
  "buffers (fst (fold dummy_free_take [0..<n] st)) = buffers (fst st)"
  "sequence (fst (fold dummy_free_take [0..<n] st)) = sequence (fst st)"
  "bufs (fst (fold dummy_free_take [0..<n] st)) = bufs (fst st)"
  "buf_list (fst (fold dummy_free_take [0..<n] st)) = buf_list (fst st)"
  "trace (fst (fold dummy_free_take [0..<n] st)) = trace (fst st)"
  by (induction n) simp_all

lemma free_take_fold:
  "dummy_virtual (fst (fold dummy_free_take [0..<n] st)) =
     (\<lambda>i. if i < n then 0 else dummy_virtual (fst st) i)"
  "dummy_dma_addr (fst (fold dummy_free_take [0..<n] st)) =
     (\<lambda>i. if i < n \<and> dummy_virtual (fst st) i \<noteq> 0 then 0 else dummy_dma_addr (fst st) i)"
  "fst (snd (fold dummy_free_take [0..<n] st)) =
     (\<lambda>i. if i < n \<and> dummy_virtual (fst st) i \<noteq> 0 then dummy_virtual (fst st) i
          else fst (snd st) i)"
  "snd (snd (fold dummy_free_take [0..<n] st)) =
     (\<lambda>i. if i < n \<and> dummy_virtual (fst st) i \<noteq> 0 then dummy_dma_addr (fst st) i
          else snd (snd st) i)"
proof (induction n)
  case 0
  show "dummy_virtual (fst (fold dummy_free_take [0..<0] st)) =
     (\<lambda>i. if i < 0 then 0 else dummy_virtual (fst st) i)"
    "dummy_dma_addr (fst (fold dummy_free_take [0..<0] st)) =
     (\<lambda>i. if i < 0 \<and> dummy_virtual (fst st) i \<noteq> 0 then 0 else dummy_dma_addr (fst st) i)"
    "fst (snd (fold dummy_free_take [0..<0] st)) =
     (\<lambda>i. if i < 0 \<and> dummy_virtual (fst st) i \<noteq> 0 then dummy_virtual (fst st) i
          else fst (snd st) i)"
    "snd (snd (fold dummy_free_take [0..<0] st)) =
     (\<lambda>i. if i < 0 \<and> dummy_virtual (fst st) i \<noteq> 0 then dummy_dma_addr (fst st) i
          else snd (snd st) i)"
    by simp_all
next
  case (Suc n)
  show "dummy_virtual (fst (fold dummy_free_take [0..<Suc n] st)) =
     (\<lambda>i. if i < Suc n then 0 else dummy_virtual (fst st) i)"
    by (auto simp add: free_take_dummy Suc fun_eq_iff)
  show "dummy_dma_addr (fst (fold dummy_free_take [0..<Suc n] st)) =
     (\<lambda>i. if i < Suc n \<and> dummy_virtual (fst st) i \<noteq> 0 then 0
          else dummy_dma_addr (fst st) i)"
    by (auto simp add: free_take_dummy Suc fun_eq_iff less_Suc_eq)
  show "fst (snd (fold dummy_free_take [0..<Suc n] st)) =
     (\<lambda>i. if i < Suc n \<and> dummy_virtual (fst st) i \<noteq> 0 then dummy_virtual (fst st) i
          else fst (snd st) i)"
    by (auto simp add: free_take_dummy Suc fun_eq_iff less_Suc_eq)
  show "snd (snd (fold dummy_free_take [0..<Suc n] st)) =
     (\<lambda>i. if i < Suc n \<and> dummy_virtual (fst st) i \<noteq> 0 then dummy_dma_addr (fst st) i
          else snd (snd st) i)"
    by (auto simp add: free_take_dummy Suc fun_eq_iff less_Suc_eq)
qed

lemma free_release_frame [simp]:
  "mmio (dummy_free_release va da i csi) = mmio (csi)"
  "powered (dummy_free_release va da i csi) = powered (csi)"
  "stored_format (dummy_free_release va da i csi) = stored_format (csi)"
  "queue_bufs (dummy_free_release va da i csi) = queue_bufs (csi)"
  "min_buffers_needed (dummy_free_release va da i csi) = min_buffers_needed (csi)"
  "plane_count (dummy_free_release va da i csi) = plane_count (csi)"
  "plane_size (dummy_free_release va da i csi) = plane_size (csi)"
  "width (dummy_free_release va da i csi) = width (csi)"
  "height (dummy_free_release va da i csi) = height (csi)"
  "hdisplay_start (dummy_free_release va da i csi) = hdisplay_start (csi)"
  "vdisplay_start (dummy_free_release va da i csi) = vdisplay_start (csi)"
  "hsync_polarity (dummy_free_release va da i csi) = hsync_polarity (csi)"
  "vsync_polarity (dummy_free_release va da i csi) = vsync_polarity (csi)"
  "buffer_list (dummy_free_release va da i csi) = buffer_list (csi)"
  "buffers (dummy_free_release va da i csi) = buffers (csi)"
  "sequence (dummy_free_release va da i csi) = sequence (csi)"
  "bufs (dummy_free_release va da i csi) = bufs (csi)"
  "buf_list (dummy_free_release va da i csi) = buf_list csi"
  "dummy_virtual (dummy_free_release va da i csi) = dummy_virtual (csi)"
  "dummy_dma_addr (dummy_free_release va da i csi) = dummy_dma_addr (csi)"
  by (simp_all add: dummy_free_release_def)

lemma free_release_fold_frame [simp]:
  "mmio (fold (dummy_free_release va da) [0..<n] csi) = mmio (csi)"
  "powered (fold (dummy_free_release va da) [0..<n] csi) = powered (csi)"
  "stored_format (fold (dummy_free_release va da) [0..<n] csi) = stored_format (csi)"
  "queue_bufs (fold (dummy_free_release va da) [0..<n] csi) = queue_bufs (csi)"
  "min_buffers_needed (fold (dummy_free_release va da) [0..<n] csi) = min_buffers_needed (csi)"
  "plane_count (fold (dummy_free_release va da) [0..<n] csi) = plane_count (csi)"
  "plane_size (fold (dummy_free_release va da) [0..<n] csi) = plane_size (csi)"
  "width (fold (dummy_free_release va da) [0..<n] csi) = width (csi)"
  "height (fold (dummy_free_release va da) [0..<n] csi) = height (csi)"
  "hdisplay_start (fold (dummy_free_release va da) [0..<n] csi) = hdisplay_start (csi)"
  "vdisplay_start (fold (dummy_free_release va da) [0..<n] csi) = vdisplay_start (csi)"
  "hsync_polarity (fold (dummy_free_release va da) [0..<n] csi) = hsync_polarity (csi)"
  "vsync_polarity (fold (dummy_free_release va da) [0..<n] csi) = vsync_polarity (csi)"
  "buffer_list (fold (dummy_free_release va da) [0..<n] csi) = buffer_list (csi)"
  "buffers (fold (dummy_free_release va da) [0..<n] csi) = buffers (csi)"
  "sequence (fold (dummy_free_release va da) [0..<n] csi) = sequence (csi)"
  "bufs (fold (dummy_free_release va da) [0..<n] csi) = bufs (csi)"
  "buf_list (fold (dummy_free_release va da) [0..<n] csi) = buf_list csi"
  "dummy_virtual (fold (dummy_free_release va da) [0..<n] csi) = dummy_virtual (csi)"
  "dummy_dma_addr (fold (dummy_free_release va da) [0..<n] csi) = dummy_dma_addr (csi)"
  by (induction n) simp_all

lemma free_release_trace:
  "trace (dummy_free_release va da i csi) = trace csi @
     (if va i \<noteq> 0 then [DmaFreeCoherent (plane_size csi) (va i) (da i)] else [])"
  by (simp add: dummy_free_release_def)

lemma free_release_fold_trace:
  "trace (fold (dummy_free_release va da) [0..<n] csi) = trace csi @
     map (\<lambda>i. DmaFreeCoherent (plane_size csi) (va i) (da i))
       (filter (\<lambda>i. va i \<noteq> 0) [0..<n])"
  by (induction n) (simp_all add: free_release_trace)

lemma dummy_buffer_free_eq:
  "sun4i_csi1_dummy_buffer_free csi =
     (0, fold (dummy_free_release
                 (fst (snd (fold dummy_free_take [0..<plane_count csi]
                               (emit [SpinLock] csi, (\<lambda>_. 0), (\<lambda>_. 0)))))
                 (snd (snd (fold dummy_free_take [0..<plane_count csi]
                               (emit [SpinLock] csi, (\<lambda>_. 0), (\<lambda>_. 0))))))
            [0..<plane_count csi]
            (emit [SpinUnlock] (fst (fold dummy_free_take [0..<plane_count csi]
                               (emit [SpinLock] csi, (\<lambda>_. 0), (\<lambda>_. 0))))))"
  by (simp add: sun4i_csi1_dummy_buffer_free_def Let_def split_beta)

lemma dummy_buffer_free_ret: "fst (sun4i_csi1_dummy_buffer_free csi) = 0"
  by (simp add: dummy_buffer_free_eq)

lemma dummy_buffer_free_frame [simp]:
  "mmio (snd (sun4i_csi1_dummy_buffer_free csi)) = mmio csi"
  "powered (snd (sun4i_csi1_dummy_buffer_free csi)) = powered csi"
  "stored_format (snd (sun4i_csi1_dummy_buffer_free csi)) = stored_format csi"
  "queue_bufs (snd (sun4i_csi1_dummy_buffer_free csi)) = queue_bufs csi"
  "min_buffers_needed (snd (sun4i_csi1_dummy_buffer_free csi)) = min_buffers_needed csi"
  "plane_count (snd (sun4i_csi1_dummy_buffer_free csi)) = plane_count csi"
  "plane_size (snd (sun4i_csi1_dummy_buffer_free csi)) = plane_size csi"
  "width (snd (sun4i_csi1_dummy_buffer_free csi)) = width csi"
  "height (snd (sun4i_csi1_dummy_buffer_free csi)) = height csi"
  "hdisplay_start (snd (sun4i_csi1_dummy_buffer_free csi)) = hdisplay_start csi"
  "vdisplay_start (snd (sun4i_csi1_dummy_buffer_free csi)) = vdisplay_start csi"
  "hsync_polarity (snd (sun4i_csi1_dummy_buffer_free csi)) = hsync_polarity csi"
  "vsync_polarity (snd (sun4i_csi1_dummy_buffer_free csi)) = vsync_polarity csi"
  "buffer_list (snd (sun4i_csi1_dummy_buffer_free csi)) = buffer_list csi"
  "buffers (snd (sun4i_csi1_dummy_buffer_free csi)) = buffers csi"
  "sequence (snd (sun4i_csi1_dummy_buffer_free csi)) = sequence csi"
  "bufs (snd (sun4i_csi1_dummy_buffer_free csi)) = bufs csi"
  "buf_list (snd (sun4i_csi1_dummy_buffer_free csi)) = buf_list csi"
  by (simp_all add: dummy_buffer_free_eq)

lemma dummy_buffer_free_dummy:
  "dummy_virtual (snd (sun4i_csi1_dummy_buffer_free csi)) =
     (\<lambda>i. if i < plane_count csi then 0 else dummy_virtual csi i)"
  "dummy_dma_addr (snd (sun4i_csi1_dummy_buffer_free csi)) =
     (\<lambda>i. if i < plane_count csi \<and> dummy_virtual csi i \<noteq> 0 then 0
          else dummy_dma_addr csi i)"
  by (simp_all add: dummy_buffer_free_eq free_take_fold cong: if_cong)

lemma dummy_buffer_free_trace:
  "trace (snd (sun4i_csi1_dummy_buffer_free csi)) = trace csi @ [SpinLock, SpinUnlock] @
     map (\<lambda>i. DmaFreeCoherent (plane_size csi) (dummy_virtual csi i) (dummy_dma_addr csi i))
       (filter (\<lambda>i. dummy_virtual csi i \<noteq> 0) [0..<plane_count csi])"
proof -
  let ?n = "plane_count csi"
  let ?va = "\<lambda>i. if i < ?n \<and> dummy_virtual csi i \<noteq> 0 then dummy_virtual csi i else 0"
  let ?da = "\<lambda>i. if i < ?n \<and> dummy_virtual csi i \<noteq> 0 then dummy_dma_addr csi i else 0"
  have f: "filter (\<lambda>i. i < ?n \<and> dummy_virtual csi i \<noteq> 0) [0..<?n]
      = filter (\<lambda>i. dummy_virtual csi i \<noteq> 0) [0..<?n]"
    by (rule filter_cong) auto
  have m: "map (\<lambda>i. DmaFreeCoherent (plane_size csi) (?va i) (?da i))
               (filter (\<lambda>i. dummy_virtual csi i \<noteq> 0) [0..<?n])
         = map (\<lambda>i. DmaFreeCoherent (plane_size csi) (dummy_virtual csi i) (dummy_dma_addr csi i))
               (filter (\<lambda>i. dummy_virtual csi i \<noteq> 0) [0..<?n])"
    by (rule map_cong) auto
  show ?thesis
    by (simp add: dummy_buffer_free_eq free_take_fold free_release_fold_trace cong: if_cong)
       (simp add: f m)
qed

lemma freed_map_free:
  "freed (map (\<lambda>i. DmaFreeCoherent sz (v i) (d i)) xs) = map (\<lambda>i. (v i, d i)) xs"
  by (induction xs) simp_all

lemma allocated_map_free: "allocated (map (\<lambda>i. DmaFreeCoherent sz (v i) (d i)) xs) = []"
  by (induction xs) simp_all

lemma dummy_buffer_free_events:
  "events_since csi (snd (sun4i_csi1_dummy_buffer_free csi)) = [SpinLock, SpinUnlock] @
     map (\<lambda>i. DmaFreeCoherent (plane_size csi) (dummy_virtual csi i) (dummy_dma_addr csi i))
       (filter (\<lambda>i. dummy_virtual csi i \<noteq> 0) [0..<plane_count csi])"
  by (rule events_since_append) (simp add: dummy_buffer_free_trace)

lemma dummy_buffer_free_freed:
  "freed (events_since csi (snd (sun4i_csi1_dummy_buffer_free csi))) = held csi"
  "allocated (events_since csi (snd (sun4i_csi1_dummy_buffer_free csi))) = []"
  by (simp_all add: dummy_buffer_free_events freed_map_free allocated_map_free held_def)

lemma dummy_buffer_free_held: "held (snd (sun4i_csi1_dummy_buffer_free csi)) = []"
  by (simp add: held_def dummy_buffer_free_dummy filter_empty_conv)

lemma held_empty_iff: "held csi = [] \<longleftrightarrow> (\<forall>i < plane_count csi. dummy_virtual csi i = 0)"
  by (auto simp add: held_def filter_empty_conv)

lemma dummy_buffer_free_nothing:
  assumes "held csi = []"
  shows "snd (sun4i_csi1_dummy_buffer_free csi) = emit [SpinLock, SpinUnlock] csi"
proof (rule sun4i_csi1.equality)
  have z: "\<And>i. i < plane_count csi \<Longrightarrow> dummy_virtual csi i = 0"
    using assms by (simp add: held_empty_iff)
  show "dummy_virtual (snd (sun4i_csi1_dummy_buffer_free csi))
      = dummy_virtual (emit [SpinLock, SpinUnlock] csi)"
    by (auto simp add: dummy_buffer_free_dummy fun_eq_iff z)
  show "dummy_dma_addr (snd (sun4i_csi1_dummy_buffer_free csi))
      = dummy_dma_addr (emit [SpinLock, SpinUnlock] csi)"
    by (auto simp add: dummy_buffer_free_dummy fun_eq_iff z)
  show "trace (snd (sun4i_csi1_dummy_buffer_free csi)) = trace (emit [SpinLock, SpinUnlock] csi)"
    using assms by (simp add: dummy_buffer_free_trace held_def)
  show "sun4i_csi1.more (snd (sun4i_csi1_dummy_buffer_free csi))
      = sun4i_csi1.more (emit [SpinLock, SpinUnlock] csi)"
    by simp
qed simp_all

lemma dummy_alloc_loop_inv:
  assumes "dummy_alloc_loop a n i csi = (k, csi')"
    and "i \<le> n"
    and "\<forall>j. i \<le> j \<and> j < n \<longrightarrow> dummy_virtual csi j = 0"
  shows "i \<le> k \<and> k \<le> n
    \<and> (\<forall>j. i \<le> j \<and> j < k \<longrightarrow> fst (a j) \<noteq> 0)
    \<and> (k < n \<longrightarrow> fst (a k) = 0)
    \<and> dummy_virtual csi' = (\<lambda>j. if i \<le> j \<and> j < k then fst (a j) else dummy_virtual csi j)
    \<and> dummy_dma_addr csi' = (\<lambda>j. if i \<le> j \<and> j < k then snd (a j) else dummy_dma_addr csi j)
    \<and> (\<exists>es. trace csi' = trace csi @ es \<and> allocated es = map a [i..<k] \<and> freed es = []
           \<and> (\<forall>e \<in> set es. \<exists>sz v d. e = DmaAllocCoherent sz v d)
           \<and> (i < n \<longrightarrow> es \<noteq> []))"
  using assms
proof (induction "n - i" arbitrary: i csi)
  case 0
  then have "dummy_alloc_loop a n i csi = (i, csi)"
    by (simp add: dummy_alloc_loop_done)
  with 0 show ?case by (auto simp add: fun_eq_iff)
next
  case (Suc m)
  then have lt: "i < n" by simp
  show ?case
  proof (cases "fst (a i) = 0")
    case True
    let ?c = "(emit [DmaAllocCoherent (plane_size csi) 0 (snd (a i))] csi)
             \<lparr>dummy_virtual := (dummy_virtual csi)(i := 0)\<rparr>"
    from Suc.prems(1) lt True have k: "k = i" and c: "csi' = ?c"
      by (auto simp add: dummy_alloc_loop_fail)
    have z: "dummy_virtual csi i = 0"
      using Suc.prems(3) lt by simp
    have "trace csi' = trace csi @ [DmaAllocCoherent (plane_size csi) 0 (snd (a i))]"
      by (simp add: c)
    moreover have "dummy_virtual csi' = dummy_virtual csi"
      using z by (simp add: c fun_upd_idem)
    moreover have "dummy_dma_addr csi' = dummy_dma_addr csi"
      by (simp add: c)
    ultimately show ?thesis
      using True lt by (auto simp add: k fun_eq_iff)
  next
    case False
    let ?c = "(emit [DmaAllocCoherent (plane_size csi) (fst (a i)) (snd (a i))] csi)
             \<lparr>dummy_virtual := (dummy_virtual csi)(i := fst (a i)),
              dummy_dma_addr := (dummy_dma_addr csi)(i := snd (a i))\<rparr>"
    from Suc.prems(1) lt False have r: "dummy_alloc_loop a n (Suc i) ?c = (k, csi')"
      by (simp add: dummy_alloc_loop_step)
    have m: "m = n - Suc i"
      using Suc.hyps(2) by simp
    have le: "Suc i \<le> n"
      using lt by simp
    have zs: "\<forall>j. Suc i \<le> j \<and> j < n \<longrightarrow> dummy_virtual ?c j = 0"
      using Suc.prems(3) by simp
    from Suc.hyps(1) [OF m r le zs] obtain es where
      k: "Suc i \<le> k" "k \<le> n"
      and nz: "\<forall>j. Suc i \<le> j \<and> j < k \<longrightarrow> fst (a j) \<noteq> 0"
      and fl: "k < n \<longrightarrow> fst (a k) = 0"
      and dv: "dummy_virtual csi' = (\<lambda>j. if Suc i \<le> j \<and> j < k then fst (a j) else dummy_virtual ?c j)"
      and dd: "dummy_dma_addr csi' = (\<lambda>j. if Suc i \<le> j \<and> j < k then snd (a j) else dummy_dma_addr ?c j)"
      and tr: "trace csi' = trace ?c @ es"
      and al: "allocated es = map a [Suc i..<k]"
      and fr: "freed es = []"
      and ev: "\<forall>e \<in> set es. \<exists>sz v d. e = DmaAllocCoherent sz v d"
      by blast
    let ?es = "DmaAllocCoherent (plane_size csi) (fst (a i)) (snd (a i)) # es"
    have 1: "i \<le> k \<and> k \<le> n"
      using k by simp
    have 2: "\<forall>j. i \<le> j \<and> j < k \<longrightarrow> fst (a j) \<noteq> 0"
      using nz False by (metis Suc_leI le_neq_implies_less)
    have 3: "dummy_virtual csi' = (\<lambda>j. if i \<le> j \<and> j < k then fst (a j) else dummy_virtual csi j)"
      using k by (auto simp add: dv fun_eq_iff)
    have 4: "dummy_dma_addr csi' = (\<lambda>j. if i \<le> j \<and> j < k then snd (a j) else dummy_dma_addr csi j)"
      using k by (auto simp add: dd fun_eq_iff)
    have "[i..<k] = i # [Suc i..<k]"
      using k by (simp add: upt_conv_Cons)
    then have 5: "trace csi' = trace csi @ ?es \<and> allocated ?es = map a [i..<k] \<and> freed ?es = []
           \<and> (\<forall>e \<in> set ?es. \<exists>sz v d. e = DmaAllocCoherent sz v d) \<and> (i < n \<longrightarrow> ?es \<noteq> [])"
      using False ev by (simp add: tr al fr)
    from 5 have 6: "\<exists>es. trace csi' = trace csi @ es \<and> allocated es = map a [i..<k]
           \<and> freed es = [] \<and> (\<forall>e \<in> set es. \<exists>sz v d. e = DmaAllocCoherent sz v d)
           \<and> (i < n \<longrightarrow> es \<noteq> [])"
      by (rule exI)
    show ?thesis
      by (rule conjI [OF conjunct1 [OF 1] conjI [OF conjunct2 [OF 1]
            conjI [OF 2 conjI [OF fl conjI [OF 3 conjI [OF 4 6]]]]]])
  qed
qed

lemma dummy_alloc_loop_frame_eq:
  "dummy_alloc_loop a n i csi = (k, csi') \<Longrightarrow>
     csi'\<lparr>dummy_virtual := dv, dummy_dma_addr := dd, trace := t\<rparr>
       = csi\<lparr>dummy_virtual := dv, dummy_dma_addr := dd, trace := t\<rparr>"
proof (induction "n - i" arbitrary: i csi)
  case 0
  then show ?case
    by (simp add: dummy_alloc_loop_done)
next
  case (Suc m)
  then have lt: "i < n" by simp
  let ?c0 = "(emit [DmaAllocCoherent (plane_size csi) 0 (snd (a i))] csi)
             \<lparr>dummy_virtual := (dummy_virtual csi)(i := 0)\<rparr>"
  let ?c1 = "(emit [DmaAllocCoherent (plane_size csi) (fst (a i)) (snd (a i))] csi)
             \<lparr>dummy_virtual := (dummy_virtual csi)(i := fst (a i)),
              dummy_dma_addr := (dummy_dma_addr csi)(i := snd (a i))\<rparr>"
  show ?case
  proof (cases "fst (a i) = 0")
    case True
    with Suc.prems lt have "csi' = ?c0"
      by (auto simp add: dummy_alloc_loop_fail)
    then show ?thesis
      by (simp add: emit_def)
  next
    case False
    with Suc.prems lt have r: "dummy_alloc_loop a n (Suc i) ?c1 = (k, csi')"
      by (simp add: dummy_alloc_loop_step)
    have m: "m = n - Suc i"
      using Suc.hyps(2) by simp
    from Suc.hyps(1) [OF m r] show ?thesis
      by (simp add: emit_def)
  qed
qed

lemma dummy_alloc_loop_frame:
  assumes "dummy_alloc_loop a n i csi = (k, csi')"
  shows "mmio csi' = mmio csi"
    and "powered csi' = powered csi"
    and "stored_format csi' = stored_format csi"
    and "queue_bufs csi' = queue_bufs csi"
    and "min_buffers_needed csi' = min_buffers_needed csi"
    and "plane_count csi' = plane_count csi"
    and "plane_size csi' = plane_size csi"
    and "width csi' = width csi"
    and "height csi' = height csi"
    and "hdisplay_start csi' = hdisplay_start csi"
    and "vdisplay_start csi' = vdisplay_start csi"
    and "hsync_polarity csi' = hsync_polarity csi"
    and "vsync_polarity csi' = vsync_polarity csi"
    and "buffer_list csi' = buffer_list csi"
    and "buffers csi' = buffers csi"
    and "sequence csi' = sequence csi"
    and "bufs csi' = bufs csi"
proof -
  note e = dummy_alloc_loop_frame_eq [OF assms, where dv = "\<lambda>_. 0" and dd = "\<lambda>_. 0" and t = "[]"]
  show "mmio csi' = mmio csi"
    using arg_cong [OF e, of mmio] by simp
  show "powered csi' = powered csi"
    using arg_cong [OF e, of powered] by simp
  show "stored_format csi' = stored_format csi"
    using arg_cong [OF e, of stored_format] by simp
  show "queue_bufs csi' = queue_bufs csi"
    using arg_cong [OF e, of queue_bufs] by simp
  show "min_buffers_needed csi' = min_buffers_needed csi"
    using arg_cong [OF e, of min_buffers_needed] by simp
  show "plane_count csi' = plane_count csi"
    using arg_cong [OF e, of plane_count] by simp
  show "plane_size csi' = plane_size csi"
    using arg_cong [OF e, of plane_size] by simp
  show "width csi' = width csi"
    using arg_cong [OF e, of width] by simp
  show "height csi' = height csi"
    using arg_cong [OF e, of height] by simp
  show "hdisplay_start csi' = hdisplay_start csi"
    using arg_cong [OF e, of hdisplay_start] by simp
  show "vdisplay_start csi' = vdisplay_start csi"
    using arg_cong [OF e, of vdisplay_start] by simp
  show "hsync_polarity csi' = hsync_polarity csi"
    using arg_cong [OF e, of hsync_polarity] by simp
  show "vsync_polarity csi' = vsync_polarity csi"
    using arg_cong [OF e, of vsync_polarity] by simp
  show "buffer_list csi' = buffer_list csi"
    using arg_cong [OF e, of buffer_list] by simp
  show "buffers csi' = buffers csi"
    using arg_cong [OF e, of buffers] by simp
  show "sequence csi' = sequence csi"
    using arg_cong [OF e, of sequence] by simp
  show "bufs csi' = bufs csi"
    using arg_cong [OF e, of bufs] by simp
qed

lemma held_emit [simp]: "held (emit es csi) = held csi"
  by (simp add: held_def)

lemma events_since_trans:
  "trace y = trace x @ e1 \<Longrightarrow> trace z = trace y @ e2 \<Longrightarrow> events_since x z = e1 @ e2"
  by (simp add: events_since_def)

lemma trace_events_since:
  "trace (snd (sun4i_csi1_dummy_buffer_free csi)) =
     trace csi @ events_since csi (snd (sun4i_csi1_dummy_buffer_free csi))"
  by (simp add: dummy_buffer_free_events dummy_buffer_free_trace)

lemma filter_upt_prefix:
  assumes "k \<le> n" and "\<forall>j. j < k \<longrightarrow> P j" and "\<forall>j. k \<le> j \<and> j < n \<longrightarrow> \<not> P j"
  shows "filter P [0..<n] = [0..<k]"
proof -
  have "[0..<n] = [0..<k] @ [k..<n]"
    using assms(1) by (metis le_add_diff_inverse upt_add_eq_append zero_le)
  moreover have "filter P [0..<k] = [0..<k]"
    using assms(2) by (simp add: filter_id_conv)
  moreover have "filter P [k..<n] = []"
    using assms(3) by (simp add: filter_empty_conv)
  ultimately show ?thesis by simp
qed

lemma dummy_buffer_alloc_summary:
  fixes a csi
  defines "n \<equiv> plane_count csi"
  defines "c1 \<equiv> snd (sun4i_csi1_dummy_buffer_free csi)"
  defines "r \<equiv> sun4i_csi1_dummy_buffer_alloc a csi"
  obtains k es fs where "k \<le> n"
    and "\<forall>j. j < k \<longrightarrow> fst (a j) \<noteq> 0"
    and "k < n \<longrightarrow> fst (a k) = 0"
    and "fst r = (if k = n then 0 else - ENOMEM)"
    and "events_since csi (snd r) = events_since csi c1 @ SpinLock # es @ SpinUnlock # fs"
    and "allocated es = map a [0..<k]" and "freed es = []"
    and "\<forall>e \<in> set es. \<exists>sz v d. e = DmaAllocCoherent sz v d"
    and "0 < n \<longrightarrow> es \<noteq> []"
    and "allocated fs = []" and "freed fs = (if k = n then [] else map a [0..<k])"
    and "held (snd r) = (if k = n then map a [0..<n] else [])"
proof -
  let ?c2 = "emit [SpinLock] c1"
  obtain k c3 where l: "dummy_alloc_loop a n 0 ?c2 = (k, c3)"
    by (metis surj_pair)
  have pc: "plane_count ?c2 = n"
    by (simp add: c1_def n_def)
  have z: "\<forall>j. 0 \<le> j \<and> j < n \<longrightarrow> dummy_virtual ?c2 j = 0"
    by (simp add: c1_def n_def dummy_buffer_free_dummy)
  from dummy_alloc_loop_inv [OF l _ z] obtain es where
    k: "k \<le> n"
    and nz: "\<forall>j. 0 \<le> j \<and> j < k \<longrightarrow> fst (a j) \<noteq> 0"
    and fl: "k < n \<longrightarrow> fst (a k) = 0"
    and dv: "dummy_virtual c3 = (\<lambda>j. if 0 \<le> j \<and> j < k then fst (a j) else dummy_virtual ?c2 j)"
    and dd: "dummy_dma_addr c3 = (\<lambda>j. if 0 \<le> j \<and> j < k then snd (a j) else dummy_dma_addr ?c2 j)"
    and tr: "trace c3 = trace ?c2 @ es"
    and al: "allocated es = map a [0..<k]"
    and fr: "freed es = []"
    and ev: "\<forall>e \<in> set es. \<exists>sz v d. e = DmaAllocCoherent sz v d"
    and ne: "0 < n \<longrightarrow> es \<noteq> []"
    by auto
  have pc3: "plane_count c3 = n"
    using dummy_alloc_loop_frame(6) [OF l] pc by simp
  have "filter (\<lambda>j. dummy_virtual c3 j \<noteq> 0) [0..<n] = [0..<k]"
    using k nz z by (intro filter_upt_prefix) (simp_all add: dv)
  then have "held c3 = map (\<lambda>j. (dummy_virtual c3 j, dummy_dma_addr c3 j)) [0..<k]"
    by (simp add: held_def pc3)
  also have "\<dots> = map a [0..<k]"
    by (rule map_cong) (simp_all add: dv dd)
  finally have h3: "held c3 = map a [0..<k]" .
  let ?c4 = "emit [SpinUnlock] c3"
  let ?c5 = "snd (sun4i_csi1_dummy_buffer_free ?c4)"
  have r: "r = (if k \<noteq> n then (- ENOMEM, ?c5) else (0, ?c4))"
    using l pc pc3
    by (simp add: r_def sun4i_csi1_dummy_buffer_alloc_def Let_def c1_def n_def)
  have t1: "trace c1 = trace csi @ events_since csi c1"
    unfolding c1_def by (rule trace_events_since)
  have t4: "trace c3 = trace csi @ events_since csi c1 @ SpinLock # es"
    using tr t1 by simp
  show ?thesis
  proof (cases "k = n")
    case True
    then have rr: "r = (0, ?c4)"
      by (simp add: r)
    have "events_since csi (snd r) = events_since csi c1 @ SpinLock # es @ SpinUnlock # []"
      by (rule events_since_append) (simp add: rr t4)
    moreover have "held (snd r) = (if k = n then map a [0..<n] else [])"
      using True by (simp add: rr h3)
    moreover have "fst r = (if k = n then 0 else - ENOMEM)"
      using True by (simp add: rr)
    ultimately show ?thesis
      using that [of k es "[]"] k nz fl al fr ev ne True by simp
  next
    case False
    then have rr: "r = (- ENOMEM, ?c5)"
      by (simp add: r)
    let ?fs = "events_since ?c4 ?c5"
    have t5: "trace ?c5 = trace ?c4 @ ?fs"
      by (rule trace_events_since)
    have "events_since csi (snd r) = events_since csi c1 @ SpinLock # es @ SpinUnlock # ?fs"
      by (rule events_since_append) (simp add: rr t5 t4)
    moreover have "held (snd r) = (if k = n then map a [0..<n] else [])"
      using False by (simp add: rr dummy_buffer_free_held)
    moreover have "fst r = (if k = n then 0 else - ENOMEM)"
      using False by (simp add: rr)
    moreover have "allocated ?fs = []" "freed ?fs = (if k = n then [] else map a [0..<k])"
      using False by (simp_all add: dummy_buffer_free_freed h3)
    ultimately show ?thesis
      using that [of k es ?fs] k nz fl al fr ev ne by simp
  qed
qed

subsection \<open>Freeing and re-allocating the dummy buffer (C7)\<close>

lemma dummy_buffer_alloc_ret:
  "(\<forall>j < plane_count csi. fst (a j) \<noteq> 0) \<Longrightarrow> fst (sun4i_csi1_dummy_buffer_alloc a csi) = 0"
  by (rule dummy_buffer_alloc_summary [of csi a]) (auto split: if_splits)

text \<open>
  C7. With \<open>plane_count\<close> within the three entries of the dummy buffer's arrays:
  \<^verbatim>\<open>sun4i_csi1_dummy_buffer_free\<close> returns 0, frees exactly the planes that are held,
  each once, and leaves nothing held. When nothing is held it frees nothing and
  changes nothing (it takes and releases the lock). So a second call right after the
  first frees nothing and changes nothing: what was held is freed once over the two
  calls. \<^verbatim>\<open>sun4i_csi1_dummy_buffer_alloc\<close> starts with that free, before it takes the
  lock and before any allocation, so what was held before is freed first; over the
  whole call what was held before and what the call allocated is either freed or held
  at the end, nothing else: on success the old planes are freed and the new ones held,
  on failure (\<^verbatim>\<open>-ENOMEM\<close>) the old planes and the new ones are freed and nothing is
  held.
\<close>

theorem dummy_buffer_free_idempotent:
  assumes "plane_count csi \<le> 3"
  shows "fst (sun4i_csi1_dummy_buffer_free csi) = 0
    \<and> freed (events_since csi (snd (sun4i_csi1_dummy_buffer_free csi))) = held csi
    \<and> held (snd (sun4i_csi1_dummy_buffer_free csi)) = []
    \<and> (held csi = [] \<longrightarrow>
          snd (sun4i_csi1_dummy_buffer_free csi) = emit [SpinLock, SpinUnlock] csi)
    \<and> fst (sun4i_csi1_dummy_buffer_free (snd (sun4i_csi1_dummy_buffer_free csi))) = 0
    \<and> freed (events_since (snd (sun4i_csi1_dummy_buffer_free csi))
          (snd (sun4i_csi1_dummy_buffer_free (snd (sun4i_csi1_dummy_buffer_free csi))))) = []
    \<and> snd (sun4i_csi1_dummy_buffer_free (snd (sun4i_csi1_dummy_buffer_free csi)))
        = emit [SpinLock, SpinUnlock] (snd (sun4i_csi1_dummy_buffer_free csi))
    \<and> freed (events_since csi
          (snd (sun4i_csi1_dummy_buffer_free (snd (sun4i_csi1_dummy_buffer_free csi))))) = held csi
    \<and> (\<exists>es. events_since csi (snd (sun4i_csi1_dummy_buffer_alloc a csi))
               = events_since csi (snd (sun4i_csi1_dummy_buffer_free csi)) @ SpinLock # es)
    \<and> allocated (events_since csi (snd (sun4i_csi1_dummy_buffer_free csi))) = []
    \<and> freed (events_since csi (snd (sun4i_csi1_dummy_buffer_alloc a csi)))
          @ held (snd (sun4i_csi1_dummy_buffer_alloc a csi))
        = held csi @ allocated (events_since csi (snd (sun4i_csi1_dummy_buffer_alloc a csi)))
    \<and> (fst (sun4i_csi1_dummy_buffer_alloc a csi) = 0 \<longrightarrow>
          freed (events_since csi (snd (sun4i_csi1_dummy_buffer_alloc a csi))) = held csi
          \<and> held (snd (sun4i_csi1_dummy_buffer_alloc a csi)) = map a [0..<plane_count csi])
    \<and> (fst (sun4i_csi1_dummy_buffer_alloc a csi) \<noteq> 0 \<longrightarrow>
          fst (sun4i_csi1_dummy_buffer_alloc a csi) = - ENOMEM
          \<and> held (snd (sun4i_csi1_dummy_buffer_alloc a csi)) = [])"
proof -
  let ?f = "snd (sun4i_csi1_dummy_buffer_free csi)"
  let ?ff = "snd (sun4i_csi1_dummy_buffer_free ?f)"
  let ?r = "sun4i_csi1_dummy_buffer_alloc a csi"
  have 1: "fst (sun4i_csi1_dummy_buffer_free csi) = 0"
    by (rule dummy_buffer_free_ret)
  have 2: "freed (events_since csi ?f) = held csi"
    by (rule dummy_buffer_free_freed)
  have 3: "held ?f = []"
    by (rule dummy_buffer_free_held)
  have 4: "held csi = [] \<longrightarrow> ?f = emit [SpinLock, SpinUnlock] csi"
    by (simp add: dummy_buffer_free_nothing)
  have 5: "fst (sun4i_csi1_dummy_buffer_free ?f) = 0"
    by (rule dummy_buffer_free_ret)
  have 6: "freed (events_since ?f ?ff) = []"
    by (simp add: dummy_buffer_free_freed 3)
  have 7: "?ff = emit [SpinLock, SpinUnlock] ?f"
    by (rule dummy_buffer_free_nothing [OF 3])
  have "events_since csi ?ff = events_since csi ?f @ events_since ?f ?ff"
    by (rule events_since_trans [OF trace_events_since trace_events_since])
  then have 8: "freed (events_since csi ?ff) = held csi"
    by (simp add: freed_append 2 6)
  have 10: "allocated (events_since csi ?f) = []"
    by (rule dummy_buffer_free_freed)
  obtain k es fs where k: "k \<le> plane_count csi"
    and ret: "fst ?r = (if k = plane_count csi then 0 else - ENOMEM)"
    and ev: "events_since csi (snd ?r) = events_since csi ?f @ SpinLock # es @ SpinUnlock # fs"
    and al: "allocated es = map a [0..<k]" and fr: "freed es = []"
    and afs: "allocated fs = []"
    and ffs: "freed fs = (if k = plane_count csi then [] else map a [0..<k])"
    and h: "held (snd ?r) = (if k = plane_count csi then map a [0..<plane_count csi] else [])"
    by (rule dummy_buffer_alloc_summary [of csi a]) blast
  have 9: "\<exists>es. events_since csi (snd ?r) = events_since csi ?f @ SpinLock # es"
    by (simp add: ev)
  have fa: "freed (events_since csi (snd ?r)) = held csi @ freed fs"
    by (simp add: ev freed_append 2 fr)
  have aa: "allocated (events_since csi (snd ?r)) = map a [0..<k]"
    by (simp add: ev allocated_append 10 al afs)
  have 11: "freed (events_since csi (snd ?r)) @ held (snd ?r)
        = held csi @ allocated (events_since csi (snd ?r))"
    by (simp add: fa aa ffs h)
  have e: "ENOMEM \<noteq> 0"
    by (simp add: ENOMEM_def)
  have 12: "fst ?r = 0 \<longrightarrow> freed (events_since csi (snd ?r)) = held csi
          \<and> held (snd ?r) = map a [0..<plane_count csi]"
    using e by (simp add: ret fa ffs h)
  have 13: "fst ?r \<noteq> 0 \<longrightarrow> fst ?r = - ENOMEM \<and> held (snd ?r) = []"
    by (simp add: ret h)
  show ?thesis
    by (rule conjI [OF 1 conjI [OF 2 conjI [OF 3 conjI [OF 4 conjI [OF 5 conjI [OF 6
          conjI [OF 7 conjI [OF 8 conjI [OF 9 conjI [OF 10 conjI [OF 11
          conjI [OF 12 13]]]]]]]]]]]])
qed

lemma held_csi_setup:
  "held csi_setup = [(0xC0000000, 0x50000000), (0xC0200000, 0x50200000), (0xC0400000, 0x50400000)]"
  "plane_count csi_setup = 3"
  by (simp_all add: held_def csi_setup_eq csi_probed_fields upt_3)

lemma held_csi_probed: "held csi_probed = []"
  by (simp add: held_def csi_probed_fields)

theorem dummy_buffer_free_idempotent_witness:
  "freed (events_since csi_setup (snd (sun4i_csi1_dummy_buffer_free csi_setup)))
     = [(0xC0000000, 0x50000000), (0xC0200000, 0x50200000), (0xC0400000, 0x50400000)]
   \<and> held (snd (sun4i_csi1_dummy_buffer_free csi_setup)) = []
   \<and> freed (events_since (snd (sun4i_csi1_dummy_buffer_free csi_setup))
         (snd (sun4i_csi1_dummy_buffer_free (snd (sun4i_csi1_dummy_buffer_free csi_setup))))) = []
   \<and> snd (sun4i_csi1_dummy_buffer_free csi_probed) = emit [SpinLock, SpinUnlock] csi_probed
   \<and> fst (sun4i_csi1_dummy_buffer_alloc example_alloc csi_setup) = 0
   \<and> freed (events_since csi_setup (snd (sun4i_csi1_dummy_buffer_alloc example_alloc csi_setup)))
     = [(0xC0000000, 0x50000000), (0xC0200000, 0x50200000), (0xC0400000, 0x50400000)]
   \<and> held (snd (sun4i_csi1_dummy_buffer_alloc example_alloc csi_setup))
     = [(0xC0000000, 0x50000000), (0xC0200000, 0x50200000), (0xC0400000, 0x50400000)]"
proof -
  have p: "plane_count csi_setup \<le> 3" "plane_count csi_probed \<le> 3"
    by (simp_all add: held_csi_setup csi_probed_fields)
  note a = dummy_buffer_free_idempotent [OF p(1), of example_alloc]
  note b = dummy_buffer_free_idempotent [OF p(2), of example_alloc]
  have r: "fst (sun4i_csi1_dummy_buffer_alloc example_alloc csi_setup) = 0"
    by (rule dummy_buffer_alloc_ret) (simp add: example_alloc_def held_csi_setup less_Suc_eq numeral_3_eq_3)
  have m: "map example_alloc [0..<3]
      = [(0xC0000000, 0x50000000), (0xC0200000, 0x50200000), (0xC0400000, 0x50400000)]"
    by (simp add: upt_3 example_alloc_def)
  note a2 = a [THEN conjunct2, THEN conjunct1]
  note a3 = a [THEN conjunct2, THEN conjunct2, THEN conjunct1]
  note a6 = a [THEN conjunct2, THEN conjunct2, THEN conjunct2, THEN conjunct2, THEN conjunct2,
      THEN conjunct1]
  note b4 = b [THEN conjunct2, THEN conjunct2, THEN conjunct2, THEN conjunct1, THEN mp,
      OF held_csi_probed]
  note a12 = a [THEN conjunct2, THEN conjunct2, THEN conjunct2, THEN conjunct2, THEN conjunct2, THEN conjunct2, THEN conjunct2, THEN conjunct2, THEN conjunct2, THEN conjunct2, THEN conjunct2, THEN conjunct1, THEN mp, OF r]
  show ?thesis
    using a2 a3 a6 b4 a12 r by (simp add: held_csi_setup m)
qed

subsection \<open>Allocation and the lock (C2)\<close>

lemma alloc_under_lock_after:
  "alloc_under_lock locked (xs @ SpinLock # DmaAllocCoherent sz v d # ys)"
proof (induction xs arbitrary: locked)
  case Nil
  show ?case by simp
next
  case (Cons x xs)
  then show ?case by (cases x) simp_all
qed

text \<open>
  C2 fails on the code. Whenever there is a plane to allocate,
  \<^verbatim>\<open>sun4i_csi1_dummy_buffer_alloc\<close> calls \<^verbatim>\<open>dma_alloc_coherent\<close> (with
  \<^verbatim>\<open>GFP_KERNEL\<close>, so it may sleep) after \<^verbatim>\<open>spin_lock_irqsave\<close> on the buffer lock
  and before the matching unlock.
\<close>

theorem dummy_buffer_alloc_under_lock:
  assumes "0 < plane_count csi"
  shows "alloc_under_lock False
           (events_since csi (snd (sun4i_csi1_dummy_buffer_alloc a csi)))"
proof (rule dummy_buffer_alloc_summary [of csi a])
  fix k es fs
  assume ev: "events_since csi (snd (sun4i_csi1_dummy_buffer_alloc a csi))
          = events_since csi (snd (sun4i_csi1_dummy_buffer_free csi)) @ SpinLock # es @ SpinUnlock # fs"
    and al: "\<forall>e \<in> set es. \<exists>sz v d. e = DmaAllocCoherent sz v d"
    and ne: "0 < plane_count csi \<longrightarrow> es \<noteq> []"
  from ne assms obtain e es' where es: "es = e # es'"
    by (cases es) auto
  with al obtain sz v d where e: "e = DmaAllocCoherent sz v d"
    by auto
  show ?thesis
    using alloc_under_lock_after
      [of False "events_since csi (snd (sun4i_csi1_dummy_buffer_free csi))" sz v d
          "es' @ SpinUnlock # fs"]
    by (simp add: ev es e)
qed

theorem dummy_buffer_alloc_under_lock_witness:
  "alloc_under_lock False
     (events_since csi_probed (snd (sun4i_csi1_dummy_buffer_alloc example_alloc csi_probed)))
   \<and> events_since csi_probed (snd (sun4i_csi1_queue_setup example_alloc csi_probed))
     = [SpinLock, SpinUnlock, SpinLock, SpinUnlock, SpinLock,
        DmaAllocCoherent 0x1FA400 0xC0000000 0x50000000,
        DmaAllocCoherent 0x1FA400 0xC0200000 0x50200000,
        DmaAllocCoherent 0x1FA400 0xC0400000 0x50400000, SpinUnlock]"
proof -
  have "0 < plane_count csi_probed"
    by (simp add: csi_probed_fields)
  then have "alloc_under_lock False
     (events_since csi_probed (snd (sun4i_csi1_dummy_buffer_alloc example_alloc csi_probed)))"
    by (rule dummy_buffer_alloc_under_lock)
  moreover have "events_since csi_probed (snd (sun4i_csi1_queue_setup example_alloc csi_probed))
     = [SpinLock, SpinUnlock, SpinLock, SpinUnlock, SpinLock,
        DmaAllocCoherent 0x1FA400 0xC0000000 0x50000000,
        DmaAllocCoherent 0x1FA400 0xC0200000 0x50200000,
        DmaAllocCoherent 0x1FA400 0xC0400000 0x50400000, SpinUnlock]"
    using csi_setup_eq by (simp add: csi_setup_def events_since_def csi_probed_fields)
  ultimately show ?thesis ..
qed

subsection \<open>Sequence numbers of a session (C5)\<close>

lemma unat_ucast_u64_u32: "unat (ucast (x::u64) :: u32) = unat x mod 2 ^ 32"
  by (simp add: unsigned_ucast_eq take_bit_eq_mod)

lemma run_session_append:
  "run_session (xs @ ys) csi =
     (case run_session xs csi of None \<Rightarrow> None | Some s \<Rightarrow> run_session ys s)"
  by (induction xs csi rule: run_session.induct) (simp_all split: option.split)

lemma frames_append: "frames (xs @ ys) = frames xs + frames ys"
  by (induction xs rule: frames.induct) simp_all

lemma frames_rotation: "frames (rotation n) = n"
  by (induction n) (simp_all add: rotation_def frames_append)

lemma rotation_Suc:
  "rotation (Suc n) = rotation n @ [FrameDone (of_nat n), Enqueue (n mod 3 + 1)]"
  by (simp add: rotation_def)

lemma frame_done_fed:
  assumes "buffers csi 0 \<noteq> None" "buffers csi 1 \<noteq> None" "buffer_list csi \<noteq> []"
  shows "\<exists>csi'. sun4i_csi1_frame_done now csi = Some csi'
    \<and> buffers csi' 0 \<noteq> None \<and> buffers csi' 1 \<noteq> None"
proof -
  have i: "unat (sequence csi AND 1) = 0 \<or> unat (sequence csi AND 1) = 1"
    by (simp add: index_parity) arith
  then obtain b where b: "buffers csi (unat (sequence csi AND 1)) = Some b"
    using assms(1,2) by auto
  obtain csi' where c: "sun4i_csi1_frame_done now csi = Some csi'"
    by (simp add: frame_done_Some [OF b])
  note f = frame_done_fields [OF c b]
  obtain new rest where l: "buffer_list csi = new # rest"
    using assms(3) by (cases "buffer_list csi") simp_all
  have "buffers csi' 0 \<noteq> None" "buffers csi' 1 \<noteq> None"
    using assms(1,2) i by (auto simp add: f(3) l)
  with c show ?thesis by blast
qed

lemma rotation_runs:
  assumes "buffers csi 0 \<noteq> None" "buffers csi 1 \<noteq> None" "buffer_list csi \<noteq> []"
  shows "\<exists>csi'. run_session (rotation n) csi = Some csi'
    \<and> buffers csi' 0 \<noteq> None \<and> buffers csi' 1 \<noteq> None \<and> buffer_list csi' \<noteq> []"
proof (induction n)
  case 0
  show ?case using assms by (simp add: rotation_def)
next
  case (Suc n)
  then obtain s where s: "run_session (rotation n) csi = Some s"
    and i: "buffers s 0 \<noteq> None" "buffers s 1 \<noteq> None" "buffer_list s \<noteq> []"
    by blast
  from frame_done_fed [OF i] obtain s' where
    f: "sun4i_csi1_frame_done (of_nat n) s = Some s'"
    and j: "buffers s' 0 \<noteq> None" "buffers s' 1 \<noteq> None"
    by blast
  show ?case
    using s f j by (simp add: rotation_Suc run_session_append)
qed

lemma wrap_session_runs: "run_session wrap_session csi_started = Some csi_wrapped"
proof -
  from rotation_runs [of csi_started "2 ^ 32"] obtain s where
    s: "run_session (rotation (2 ^ 32)) csi_started = Some s"
    and i: "buffers s 0 \<noteq> None" "buffers s 1 \<noteq> None" "buffer_list s \<noteq> []"
    by (auto simp add: csi_started_fields)
  from frame_done_fed [OF i] obtain s' where
    "sun4i_csi1_frame_done (2 ^ 32) s = Some s'"
    by blast
  then have "run_session wrap_session csi_started = Some s'"
    using s by (simp add: wrap_session_def run_session_append)
  then show ?thesis
    by (simp add: csi_wrapped_def)
qed

lemma wrap_session_sequences:
  "delivered_sequences (events_since csi_started csi_wrapped) = map of_nat [0..<2 ^ 32 + 1]"
  "sequence csi_wrapped = 2 ^ 32 + 1"
proof -
  have fr: "frames wrap_session = 2 ^ 32 + 1"
    by (simp add: wrap_session_def frames_append frames_rotation)
  from run_session_sequences [OF wrap_session_runs] obtain es where
    es: "trace csi_wrapped = trace csi_started @ es"
    and d: "delivered_sequences es
        = map (\<lambda>k. ucast (sequence csi_started) + of_nat k) [0..<frames wrap_session]"
    and s: "sequence csi_wrapped = sequence csi_started + of_nat (frames wrap_session)"
    by blast
  have e: "events_since csi_started csi_wrapped = es"
    by (rule events_since_append [OF es])
  show "delivered_sequences (events_since csi_started csi_wrapped) = map of_nat [0..<2 ^ 32 + 1]"
    unfolding e d fr by (simp add: csi_started_fields del: upt_Suc)
  show "sequence csi_wrapped = 2 ^ 32 + 1"
    unfolding s fr by (simp add: csi_started_fields)
qed

text \<open>
  C5, as the code has it. \<^verbatim>\<open>sun4i_csi1_engine_start\<close> sets the sequence counter to
  0. Every run of \<^verbatim>\<open>sun4i_csi1_frame_done\<close> that returns adds exactly one to it, and
  hands the retired buffer (the one the slot table held at index sequence mod 2) to the
  consumer as done, tagged with the low 32 bits of the counter's value before the
  increment (the new value minus one) and with a timestamp read after the lock was
  released: the events of the run are the lock, register writes, the unlock, the clock
  read, the completion. So in a session started by \<^verbatim>\<open>sun4i_csi1_engine_start\<close>,
  whatever the order of enqueues and frames, the buffers delivered as done carry
  0, 1, 2, ... modulo \<open>2 ^ 32\<close> in this order, one number per frame: contiguous from 0,
  and strictly increasing over the first \<open>2 ^ 32\<close> frames of the session.
\<close>

theorem delivered_sequence_numbers:
  assumes "sun4i_csi1_engine_start csi0 = Some csi"
    and "run_session evs csi = Some csi'"
  shows "sequence csi = 0
    \<and> sequence csi' = of_nat (frames evs)
    \<and> delivered_sequences (events_since csi csi') = map of_nat [0..<frames evs]
    \<and> map unat (delivered_sequences (events_since csi csi'))
        = map (\<lambda>k. k mod 2 ^ 32) [0..<frames evs]
    \<and> (frames evs \<le> 2 ^ 32 \<longrightarrow>
          map unat (delivered_sequences (events_since csi csi')) = [0..<frames evs])
    \<and> (\<forall>now s s'. sun4i_csi1_frame_done now s = Some s' \<longrightarrow>
          sequence s' = sequence s + 1
          \<and> (\<exists>b wv. buffers s (unat (sequence s) mod 2) = Some b
                \<and> buf_sequence (bufs s' b) = ucast (sequence s)
                \<and> buf_sequence (bufs s' b) = ucast (sequence s' - 1)
                \<and> unat (buf_sequence (bufs s' b)) = unat (sequence s) mod 2 ^ 32
                \<and> buf_timestamp (bufs s' b) = now
                \<and> buf_state (bufs s' b) = VB2_BUF_STATE_DONE
                \<and> events_since s s' = SpinLock # map (case_prod Writel) wv @
                     [SpinUnlock, KtimeGetNs now,
                      Vb2BufferDone b (ucast (sequence s)) now VB2_BUF_STATE_DONE]))"
proof -
  have s0: "sequence csi = 0"
    using assms(1) by (rule engine_start_two) (simp add: engine_start_fields(1) [OF assms(1)])
  from run_session_sequences [OF assms(2)] obtain es where
    es: "trace csi' = trace csi @ es"
    and d: "delivered_sequences es
        = map (\<lambda>k. ucast (sequence csi) + of_nat k) [0..<frames evs]"
    and s: "sequence csi' = sequence csi + of_nat (frames evs)"
    by blast
  have e: "events_since csi csi' = es"
    by (rule events_since_append [OF es])
  have 1: "delivered_sequences (events_since csi csi') = map of_nat [0..<frames evs]"
    by (simp add: e d s0)
  have m: "map unat (delivered_sequences (events_since csi csi'))
        = map (\<lambda>k. k mod 2 ^ 32) [0..<frames evs]"
    by (simp add: 1 comp_def unat_of_nat)
  have 2: "frames evs \<le> 2 ^ 32 \<longrightarrow>
          map unat (delivered_sequences (events_since csi csi')) = [0..<frames evs]"
  proof
    assume "frames evs \<le> 2 ^ 32"
    then have "\<forall>k \<in> set [0..<frames evs]. unat (of_nat k :: u32) = k"
      by (simp add: unat_of_nat_u32)
    then have "map (\<lambda>k. unat (of_nat k :: u32)) [0..<frames evs] = map (\<lambda>k. k) [0..<frames evs]"
      by (intro map_cong) simp_all
    then show "map unat (delivered_sequences (events_since csi csi')) = [0..<frames evs]"
      by (simp add: 1 comp_def)
  qed
  have 3: "\<forall>now s s'. sun4i_csi1_frame_done now s = Some s' \<longrightarrow>
          sequence s' = sequence s + 1
          \<and> (\<exists>b wv. buffers s (unat (sequence s) mod 2) = Some b
                \<and> buf_sequence (bufs s' b) = ucast (sequence s)
                \<and> buf_sequence (bufs s' b) = ucast (sequence s' - 1)
                \<and> unat (buf_sequence (bufs s' b)) = unat (sequence s) mod 2 ^ 32
                \<and> buf_timestamp (bufs s' b) = now
                \<and> buf_state (bufs s' b) = VB2_BUF_STATE_DONE
                \<and> events_since s s' = SpinLock # map (case_prod Writel) wv @
                     [SpinUnlock, KtimeGetNs now,
                      Vb2BufferDone b (ucast (sequence s)) now VB2_BUF_STATE_DONE])"
  proof (intro allI impI)
    fix now s s'
    assume f: "sun4i_csi1_frame_done now s = Some s'"
    from f obtain b where b: "buffers s (unat (sequence s AND 1)) = Some b"
      by (rule frame_done_old)
    from frame_done_events [OF f b] obtain wv where
      "trace s' = trace s @ SpinLock # map (case_prod Writel) wv @
           [SpinUnlock, KtimeGetNs now,
            Vb2BufferDone b (ucast (sequence s)) now VB2_BUF_STATE_DONE]"
      by blast
    then have ev: "events_since s s' = SpinLock # map (case_prod Writel) wv @
           [SpinUnlock, KtimeGetNs now,
            Vb2BufferDone b (ucast (sequence s)) now VB2_BUF_STATE_DONE]"
      by (rule events_since_append)
    note fl = frame_done_fields [OF f b]
    have "buffers s (unat (sequence s) mod 2) = Some b"
      using b by (simp add: index_parity)
    moreover have "buf_sequence (bufs s' b) = ucast (sequence s)"
      "buf_sequence (bufs s' b) = ucast (sequence s' - 1)"
      "buf_timestamp (bufs s' b) = now"
      "buf_state (bufs s' b) = VB2_BUF_STATE_DONE"
      by (simp_all add: fl)
    moreover have "unat (buf_sequence (bufs s' b)) = unat (sequence s) mod 2 ^ 32"
      by (simp add: fl unat_ucast_u64_u32)
    ultimately show "sequence s' = sequence s + 1
          \<and> (\<exists>b wv. buffers s (unat (sequence s) mod 2) = Some b
                \<and> buf_sequence (bufs s' b) = ucast (sequence s)
                \<and> buf_sequence (bufs s' b) = ucast (sequence s' - 1)
                \<and> unat (buf_sequence (bufs s' b)) = unat (sequence s) mod 2 ^ 32
                \<and> buf_timestamp (bufs s' b) = now
                \<and> buf_state (bufs s' b) = VB2_BUF_STATE_DONE
                \<and> events_since s s' = SpinLock # map (case_prod Writel) wv @
                     [SpinUnlock, KtimeGetNs now,
                      Vb2BufferDone b (ucast (sequence s)) now VB2_BUF_STATE_DONE])"
      using ev fl(1) by blast
  qed
  have s': "sequence csi' = of_nat (frames evs)"
    by (simp add: s s0)
  show ?thesis
    by (rule conjI [OF s0 conjI [OF s' conjI [OF 1 conjI [OF m conjI [OF 2 3]]]]])
qed

lemma example_session:
  "run_session [FrameDone 1000, FrameDone 2000] csi_started = Some csi_irq2"
  by (simp add: csi_irq1_done csi_irq2_done)

theorem delivered_sequence_numbers_witness:
  "sequence csi_started = 0
   \<and> sequence csi_irq2 = 2
   \<and> delivered_sequences (events_since csi_started csi_irq2) = [0, 1]
   \<and> map unat (delivered_sequences (events_since csi_started csi_irq2)) = [0, 1]
   \<and> buf_sequence (bufs csi_irq1 1) = 0
   \<and> buf_timestamp (bufs csi_irq1 1) = 1000"
  using delivered_sequence_numbers [OF csi_started_engine example_session] csi_irq1_fields
  by (simp add: upt_conv_Cons)

text \<open>
  The claim C5 says that the delivered buffers of a session carry strictly increasing
  sequence numbers, each the value of the counter before its increment. In the session
  \<open>wrap_session\<close> the buffer delivered by frame \<open>2 ^ 32\<close> carries the number 0, as
  the first one did, after \<open>2 ^ 32 - 1\<close> on the one before it, while the counter stands
  at \<open>2 ^ 32\<close> before that frame and at \<open>2 ^ 32 + 1\<close> after it.
\<close>

theorem sequence_tag_wraps:
  "run_session wrap_session csi_started = Some csi_wrapped
   \<and> frames wrap_session = 2 ^ 32 + 1
   \<and> length (delivered_sequences (events_since csi_started csi_wrapped)) = 2 ^ 32 + 1
   \<and> delivered_sequences (events_since csi_started csi_wrapped) ! 0 = 0
   \<and> delivered_sequences (events_since csi_started csi_wrapped) ! (2 ^ 32 - 1) = 0xFFFFFFFF
   \<and> delivered_sequences (events_since csi_started csi_wrapped) ! (2 ^ 32) = 0
   \<and> sequence csi_wrapped = 0x100000001"
proof -
  have fr: "frames wrap_session = 2 ^ 32 + 1"
    by (simp add: wrap_session_def frames_append frames_rotation)
  have n: "map (of_nat :: nat \<Rightarrow> u32) [0..<2 ^ 32 + 1] ! k = of_nat k" if "k < 2 ^ 32 + 1" for k
    using that by (simp only: nth_map_upt add_0 minus_nat.diff_0)
  have a: "map (of_nat :: nat \<Rightarrow> u32) [0..<2 ^ 32 + 1] ! 0 = 0"
    using n [of 0] by simp
  have b: "map (of_nat :: nat \<Rightarrow> u32) [0..<2 ^ 32 + 1] ! (2 ^ 32 - 1) = 0xFFFFFFFF"
    using n [of "2 ^ 32 - 1"] by simp
  have c: "map (of_nat :: nat \<Rightarrow> u32) [0..<2 ^ 32 + 1] ! (2 ^ 32) = 0"
    using n [of "2 ^ 32"] by simp
  have l: "length (map (of_nat :: nat \<Rightarrow> u32) [0..<2 ^ 32 + 1]) = 2 ^ 32 + 1"
    by (simp only: length_map length_upt minus_nat.diff_0)
  show ?thesis
    unfolding wrap_session_sequences
    by (rule conjI [OF wrap_session_runs conjI [OF fr conjI [OF l conjI [OF a conjI [OF b
          conjI [OF c]]]]]]) simp
qed

subsection \<open>Stopping (C3)\<close>


lemma freed_completed_simple [simp]:
  "freed [SpinLock, SpinUnlock] = []"
  "completed [SpinLock, SpinUnlock] = []"
  by simp_all










lemma buffer_list_clear_frame_eq:
  "(sun4i_csi1_buffer_list_clear csi)\<lparr>buffer_list := l, bufs := m, buf_list := n, trace := t\<rparr>
     = csi\<lparr>buffer_list := l, bufs := m, buf_list := n, trace := t\<rparr>"
proof (induction "buffer_list csi" arbitrary: csi)
  case Nil
  then show ?case
    by (simp add: buffer_list_clear_Nil emit_def)
next
  case (Cons b rest)
  let ?c = "vb2_buffer_done b VB2_BUF_STATE_ERROR
            (emit [SpinLock, SpinUnlock]
               (csi\<lparr>buffer_list := rest,
                     buf_list := (buf_list csi)(b := LIST_HEAD_POISON)\<rparr>))"
  have r: "rest = buffer_list ?c"
    by simp
  have "sun4i_csi1_buffer_list_clear csi = sun4i_csi1_buffer_list_clear ?c"
    using Cons.hyps(2) by (simp add: buffer_list_clear_Cons)
  with Cons.hyps(1) [OF r] show ?case
    by (simp add: emit_def vb2_buffer_done_def)
qed

lemma buffer_list_clear_frame [simp]:
  "mmio (sun4i_csi1_buffer_list_clear csi) = mmio csi"
  "powered (sun4i_csi1_buffer_list_clear csi) = powered csi"
  "stored_format (sun4i_csi1_buffer_list_clear csi) = stored_format csi"
  "queue_bufs (sun4i_csi1_buffer_list_clear csi) = queue_bufs csi"
  "min_buffers_needed (sun4i_csi1_buffer_list_clear csi) = min_buffers_needed csi"
  "plane_count (sun4i_csi1_buffer_list_clear csi) = plane_count csi"
  "plane_size (sun4i_csi1_buffer_list_clear csi) = plane_size csi"
  "width (sun4i_csi1_buffer_list_clear csi) = width csi"
  "height (sun4i_csi1_buffer_list_clear csi) = height csi"
  "hdisplay_start (sun4i_csi1_buffer_list_clear csi) = hdisplay_start csi"
  "vdisplay_start (sun4i_csi1_buffer_list_clear csi) = vdisplay_start csi"
  "hsync_polarity (sun4i_csi1_buffer_list_clear csi) = hsync_polarity csi"
  "vsync_polarity (sun4i_csi1_buffer_list_clear csi) = vsync_polarity csi"
  "buffers (sun4i_csi1_buffer_list_clear csi) = buffers csi"
  "sequence (sun4i_csi1_buffer_list_clear csi) = sequence csi"
  "dummy_virtual (sun4i_csi1_buffer_list_clear csi) = dummy_virtual csi"
  "dummy_dma_addr (sun4i_csi1_buffer_list_clear csi) = dummy_dma_addr csi"
proof -
  note e = buffer_list_clear_frame_eq [where csi = csi and l = "[]" and m = "\<lambda>_. zero_buffer"
      and n = "\<lambda>_. LIST_HEAD_ZERO" and t = "[]"]
  show "mmio (sun4i_csi1_buffer_list_clear csi) = mmio csi"
    using arg_cong [OF e, of mmio] by simp
  show "powered (sun4i_csi1_buffer_list_clear csi) = powered csi"
    using arg_cong [OF e, of powered] by simp
  show "stored_format (sun4i_csi1_buffer_list_clear csi) = stored_format csi"
    using arg_cong [OF e, of stored_format] by simp
  show "queue_bufs (sun4i_csi1_buffer_list_clear csi) = queue_bufs csi"
    using arg_cong [OF e, of queue_bufs] by simp
  show "min_buffers_needed (sun4i_csi1_buffer_list_clear csi) = min_buffers_needed csi"
    using arg_cong [OF e, of min_buffers_needed] by simp
  show "plane_count (sun4i_csi1_buffer_list_clear csi) = plane_count csi"
    using arg_cong [OF e, of plane_count] by simp
  show "plane_size (sun4i_csi1_buffer_list_clear csi) = plane_size csi"
    using arg_cong [OF e, of plane_size] by simp
  show "width (sun4i_csi1_buffer_list_clear csi) = width csi"
    using arg_cong [OF e, of width] by simp
  show "height (sun4i_csi1_buffer_list_clear csi) = height csi"
    using arg_cong [OF e, of height] by simp
  show "hdisplay_start (sun4i_csi1_buffer_list_clear csi) = hdisplay_start csi"
    using arg_cong [OF e, of hdisplay_start] by simp
  show "vdisplay_start (sun4i_csi1_buffer_list_clear csi) = vdisplay_start csi"
    using arg_cong [OF e, of vdisplay_start] by simp
  show "hsync_polarity (sun4i_csi1_buffer_list_clear csi) = hsync_polarity csi"
    using arg_cong [OF e, of hsync_polarity] by simp
  show "vsync_polarity (sun4i_csi1_buffer_list_clear csi) = vsync_polarity csi"
    using arg_cong [OF e, of vsync_polarity] by simp
  show "buffers (sun4i_csi1_buffer_list_clear csi) = buffers csi"
    using arg_cong [OF e, of buffers] by simp
  show "sequence (sun4i_csi1_buffer_list_clear csi) = sequence csi"
    using arg_cong [OF e, of sequence] by simp
  show "dummy_virtual (sun4i_csi1_buffer_list_clear csi) = dummy_virtual csi"
    using arg_cong [OF e, of dummy_virtual] by simp
  show "dummy_dma_addr (sun4i_csi1_buffer_list_clear csi) = dummy_dma_addr csi"
    using arg_cong [OF e, of dummy_dma_addr] by simp
qed




lemma poweroff_eq:
  "sun4i_csi1_poweroff csi =
     (0, emit [ResetAssert] (emit [ClkDisableUnprepare Bus] (emit [ClkDisableUnprepare Ram]
           (emit [ClkDisableUnprepare Module] (sun4i_csi1_mask_spin csi SUN4I_CSI1_ENABLE 0 0x01)))))"
  by (simp add: sun4i_csi1_poweroff_def Let_def)

lemma poweroff_frame [simp]:
  "powered (snd (sun4i_csi1_poweroff csi)) = powered csi"
  "stored_format (snd (sun4i_csi1_poweroff csi)) = stored_format csi"
  "queue_bufs (snd (sun4i_csi1_poweroff csi)) = queue_bufs csi"
  "min_buffers_needed (snd (sun4i_csi1_poweroff csi)) = min_buffers_needed csi"
  "plane_count (snd (sun4i_csi1_poweroff csi)) = plane_count csi"
  "plane_size (snd (sun4i_csi1_poweroff csi)) = plane_size csi"
  "width (snd (sun4i_csi1_poweroff csi)) = width csi"
  "height (snd (sun4i_csi1_poweroff csi)) = height csi"
  "hdisplay_start (snd (sun4i_csi1_poweroff csi)) = hdisplay_start csi"
  "vdisplay_start (snd (sun4i_csi1_poweroff csi)) = vdisplay_start csi"
  "hsync_polarity (snd (sun4i_csi1_poweroff csi)) = hsync_polarity csi"
  "vsync_polarity (snd (sun4i_csi1_poweroff csi)) = vsync_polarity csi"
  "buffers (snd (sun4i_csi1_poweroff csi)) = buffers csi"
  "sequence (snd (sun4i_csi1_poweroff csi)) = sequence csi"
  "dummy_virtual (snd (sun4i_csi1_poweroff csi)) = dummy_virtual csi"
  "dummy_dma_addr (snd (sun4i_csi1_poweroff csi)) = dummy_dma_addr csi"
  "buffer_list (snd (sun4i_csi1_poweroff csi)) = buffer_list csi"
  "bufs (snd (sun4i_csi1_poweroff csi)) = bufs csi"
  "buf_list (snd (sun4i_csi1_poweroff csi)) = buf_list csi"
  by (simp_all add: poweroff_eq)


lemma engine_stop_frame [simp]:
  "powered (sun4i_csi1_engine_stop csi) = powered csi"
  "stored_format (sun4i_csi1_engine_stop csi) = stored_format csi"
  "queue_bufs (sun4i_csi1_engine_stop csi) = queue_bufs csi"
  "min_buffers_needed (sun4i_csi1_engine_stop csi) = min_buffers_needed csi"
  "plane_count (sun4i_csi1_engine_stop csi) = plane_count csi"
  "plane_size (sun4i_csi1_engine_stop csi) = plane_size csi"
  "width (sun4i_csi1_engine_stop csi) = width csi"
  "height (sun4i_csi1_engine_stop csi) = height csi"
  "hdisplay_start (sun4i_csi1_engine_stop csi) = hdisplay_start csi"
  "vdisplay_start (sun4i_csi1_engine_stop csi) = vdisplay_start csi"
  "hsync_polarity (sun4i_csi1_engine_stop csi) = hsync_polarity csi"
  "vsync_polarity (sun4i_csi1_engine_stop csi) = vsync_polarity csi"
  "buffers (sun4i_csi1_engine_stop csi) = buffers csi"
  "sequence (sun4i_csi1_engine_stop csi) = sequence csi"
  "dummy_virtual (sun4i_csi1_engine_stop csi) = dummy_virtual csi"
  "dummy_dma_addr (sun4i_csi1_engine_stop csi) = dummy_dma_addr csi"
  "buffer_list (sun4i_csi1_engine_stop csi) = buffer_list csi"
  "bufs (sun4i_csi1_engine_stop csi) = bufs csi"
  "buf_list (sun4i_csi1_engine_stop csi) = buf_list csi"
  by (simp_all add: sun4i_csi1_engine_stop_def)


















end
